(* ===== verification/Prelude.thy ===== *)
theory Prelude
  imports Main "HOL-Library.Multiset"
begin

text \<open>
  Shared vocabulary of the Shadow-bank development: the names of the model's basic types,
  the collections of rewrite rules the component theories extend, and generic lemmas on
  maps with a default (the JavaScript idiom \<open>obj[key] || dflt\<close>) and on lists updated
  by key (the idiom \<open>xs.map(t => t.id === k ? f(t) : t)\<close>).
\<close>

named_theorems engine_simps
  "equations that unfold the client-side engine operations of the hook"
named_theorems balance_simps
  "arithmetic of the derived balance record"

type_synonym account_id = string
type_synonym entry_id = string

text \<open>
  JavaScript numbers that hold amounts are modelled as \<open>int\<close>; timestamps
  (\<open>Date.now()\<close>, \<open>new Date().toISOString()\<close>) as milliseconds in \<open>nat\<close>.
\<close>

type_synonym amount = int
type_synonym millis = nat

subsection \<open>Lookup with a default\<close>

text \<open>
  \<open>obj[k] || d\<close> where \<open>obj[k]\<close> is an object or an array: both are truthy, so the
  default is taken exactly when the key is missing.
\<close>

definition get_or :: "('k \<rightharpoonup> 'v) \<Rightarrow> 'k \<Rightarrow> 'v \<Rightarrow> 'v" where
  "get_or m k d = (case m k of None \<Rightarrow> d | Some v \<Rightarrow> v)"

lemma get_or_update [simp]:
  "get_or (m(k \<mapsto> v)) k' d = (if k' = k then v else get_or m k' d)"
  by (simp add: get_or_def)

lemma get_or_empty [simp]: "get_or Map.empty k d = d"
  by (simp add: get_or_def)

lemma get_or_Some [simp]: "m k = Some v \<Longrightarrow> get_or m k d = v"
  by (simp add: get_or_def)

lemma get_or_None [simp]: "m k = None \<Longrightarrow> get_or m k d = d"
  by (simp add: get_or_def)

subsection \<open>Lists updated by key\<close>

text \<open>
  \<open>xs.map(t => key(t) === k ? f(t) : t)\<close> rewrites every element with the key;
  \<open>xs.find(t => key(t) === k)\<close> returns the first.
\<close>

lemma find_map_keyed:
  assumes "\<And>t. key (f t) = key t"
  shows "find (\<lambda>t. key t = k) (map (\<lambda>t. if key t = k then f t else t) xs)
       = map_option f (find (\<lambda>t. key t = k) xs)"
  by (induction xs) (auto simp: assms)

lemma find_map_keyed_other:
  assumes "\<And>t. key (f t) = key t" and "k' \<noteq> k"
  shows "find (\<lambda>t. key t = k') (map (\<lambda>t. if key t = k then f t else t) xs)
       = find (\<lambda>t. key t = k') xs"
  by (induction xs) (auto simp: assms)

lemma find_append_fresh:
  "find P xs = None \<Longrightarrow> find P (xs @ ys) = find P ys"
  by (induction xs) auto

lemma find_Some_in_set: "find P xs = Some x \<Longrightarrow> x \<in> set xs \<and> P x"
  by (induction xs) (auto split: if_splits)

lemma find_None_iff_keys: "find (\<lambda>t. key t = k) xs = None \<longleftrightarrow> k \<notin> key ` set xs"
  by (induction xs) auto

lemma map_keyed_absent:
  "k \<notin> key ` set xs \<Longrightarrow> map (\<lambda>t. if key t = k then f t else t) xs = xs"
  by (induction xs) auto

lemma keys_map_keyed:
  assumes "\<And>t. key (f t) = key t"
  shows "map key (map (\<lambda>t. if key t = k then f t else t) xs) = map key xs"
  by (induction xs) (auto simp: assms)

text \<open>With distinct keys the first match is the only one.\<close>

lemma find_distinct_keys:
  assumes "distinct (map key xs)" and "x \<in> set xs"
  shows "find (\<lambda>t. key t = key x) xs = Some x"
  using assms by (induction xs) (auto simp: image_iff)

lemma find_Some_split:
  "find P xs = Some x \<Longrightarrow> \<exists>ys zs. xs = ys @ x # zs \<and> (\<forall>y \<in> set ys. \<not> P y) \<and> P x"
proof (induction xs)
  case Nil
  then show ?case by simp
next
  case (Cons a xs)
  show ?case
  proof (cases "P a")
    case True
    with Cons.prems show ?thesis by force
  next
    case False
    with Cons.prems obtain ys zs where "xs = ys @ x # zs" "\<forall>y \<in> set ys. \<not> P y" "P x"
      using Cons.IH by auto
    with False show ?thesis by (metis Cons_eq_appendI set_ConsD)
  qed
qed

lemma map_keyed_distinct_split:
  assumes "distinct (map key xs)" and "find (\<lambda>t. key t = k) xs = Some x"
  obtains ys zs where "xs = ys @ x # zs" and "k \<notin> key ` set ys" and "k \<notin> key ` set zs"
    and "map (\<lambda>t. if key t = k then f t else t) xs = ys @ f x # zs"
proof -
  from find_Some_split [OF assms(2)] obtain ys zs where xs: "xs = ys @ x # zs"
    and "\<forall>y \<in> set ys. key y \<noteq> k" and kx: "key x = k"
    by blast
  then have ys: "k \<notin> key ` set ys" by auto
  from assms(1) xs kx have zs: "k \<notin> key ` set zs" by auto
  from xs kx ys zs have "map (\<lambda>t. if key t = k then f t else t) xs = ys @ f x # zs"
    by (simp add: map_keyed_absent)
  with xs ys zs that show ?thesis by blast
qed

end
