(* ===== verification/Format.thy ===== *)
theory Format
  imports Prelude
begin

text \<open>
  Text the engine produces: the decimal rendering of a number inside a template literal
  (\<open>`trf-${Date.now()}`\<close>, the transfer ids of
  \<^verbatim>\<open>src/hooks/use-shadow-storage.ts\<close>), the en-US rendering of
  \<open>Number.prototype.toLocaleString()\<close> used in every notification, and the naira sign.
  The decimal printer comes with its parser and the round trip, from which the transfer
  ids of distinct clock readings are distinct.
\<close>

subsection \<open>Decimal digits\<close>

definition digit_char :: "nat \<Rightarrow> char" where
  "digit_char d = ''0123456789'' ! d"

fun string_of_nat :: "nat \<Rightarrow> string" where
  "string_of_nat n =
     (if n < 10 then [digit_char n] else string_of_nat (n div 10) @ [digit_char (n mod 10)])"

declare string_of_nat.simps [simp del]

definition digit_value :: "char \<Rightarrow> nat" where
  "digit_value c = of_char c - 48"

definition nat_of_digits :: "string \<Rightarrow> nat" where
  "nat_of_digits s = foldl (\<lambda>acc c. 10 * acc + digit_value c) 0 s"

subsection \<open>toLocaleString in the en-US locale\<close>

text \<open>
  Digits are grouped by three from the right with commas; a negative number is preceded by
  a minus sign. \<open>commas_rev\<close> works on the reversed digit string.
\<close>

fun commas_rev :: "string \<Rightarrow> string" where
  "commas_rev (a # b # c # d # rest) = a # b # c # CHR '','' # commas_rev (d # rest)"
| "commas_rev xs = xs"

definition locale_nat :: "nat \<Rightarrow> string" where
  "locale_nat n = rev (commas_rev (rev (string_of_nat n)))"

definition to_locale_string :: "int \<Rightarrow> string" where
  "to_locale_string x =
     (if x < 0 then CHR ''-'' # locale_nat (nat (- x)) else locale_nat (nat x))"

text \<open>The naira sign U+20A6, as the three bytes of its UTF-8 encoding.\<close>

definition naira :: string where
  "naira = [CHR 0xE2, CHR 0x82, CHR 0xA6]"

definition naira_amount :: "int \<Rightarrow> string" where
  "naira_amount x = naira @ to_locale_string x"

subsection \<open>Transfer ids\<close>

text \<open>\<open>`trf-${Date.now()}`\<close> (use-shadow-storage.ts, lines 207 and 323).\<close>

definition trf_id :: "millis \<Rightarrow> entry_id" where
  "trf_id now = ''trf-'' @ string_of_nat now"

lemma digit_value_digit_char [simp]: "d < 10 \<Longrightarrow> digit_value (digit_char d) = d"
proof -
  assume "d < 10"
  then have "d = 0 \<or> d = 1 \<or> d = 2 \<or> d = 3 \<or> d = 4 \<or> d = 5 \<or> d = 6 \<or> d = 7 \<or> d = 8 \<or> d = 9"
    by arith
  then show ?thesis by (elim disjE) (simp_all add: digit_value_def digit_char_def)
qed

lemma digit_char_is_digit: "d < 10 \<Longrightarrow> digit_char d \<in> set ''0123456789''"
  unfolding digit_char_def by (rule nth_mem) simp

lemma string_of_nat_small [simp]: "n < 10 \<Longrightarrow> string_of_nat n = [digit_char n]"
  by (simp add: string_of_nat.simps)

lemma string_of_nat_large: "\<not> n < 10 \<Longrightarrow>
   string_of_nat n = string_of_nat (n div 10) @ [digit_char (n mod 10)]"
  by (subst string_of_nat.simps) simp

lemma nat_of_digits_snoc [simp]:
  "nat_of_digits (s @ [c]) = 10 * nat_of_digits s + digit_value c"
  by (simp add: nat_of_digits_def)

lemma nat_of_digits_string_of_nat: "nat_of_digits (string_of_nat n) = n"
proof (induction n rule: string_of_nat.induct)
  case (1 n)
  show ?case
  proof (cases "n < 10")
    case True
    then show ?thesis by (simp add: nat_of_digits_def)
  next
    case False
    with "1.IH" show ?thesis by (simp add: string_of_nat_large)
  qed
qed

lemma string_of_nat_inj: "string_of_nat m = string_of_nat n \<longleftrightarrow> m = n"
  by (metis nat_of_digits_string_of_nat)

lemma string_of_nat_digits: "set (string_of_nat n) \<subseteq> set ''0123456789''"
proof (induction n rule: string_of_nat.induct)
  case (1 n)
  show ?case
  proof (cases "n < 10")
    case True
    then show ?thesis using digit_char_is_digit [of n] by simp
  next
    case False
    then show ?thesis using "1.IH" digit_char_is_digit [of "n mod 10"]
      by (simp add: string_of_nat_large)
  qed
qed

text \<open>Removing the commas gives back the plain decimal rendering.\<close>

lemma filter_commas_rev:
  "CHR '','' \<notin> set s \<Longrightarrow> filter (\<lambda>c. c \<noteq> CHR '','') (commas_rev s) = s"
  by (induction s rule: commas_rev.induct) auto

lemma comma_not_digit: "CHR '','' \<notin> set (string_of_nat n)"
  using string_of_nat_digits [of n] by auto

lemma locale_nat_digits:
  "filter (\<lambda>c. c \<noteq> CHR '','') (locale_nat n) = string_of_nat n"
proof -
  have "CHR '','' \<notin> set (rev (string_of_nat n))"
    by (simp add: comma_not_digit)
  then have "filter (\<lambda>c. c \<noteq> CHR '','') (commas_rev (rev (string_of_nat n)))
           = rev (string_of_nat n)"
    by (rule filter_commas_rev)
  then show ?thesis by (simp add: locale_nat_def rev_filter [symmetric])
qed

lemma locale_nat_inj: "locale_nat m = locale_nat n \<longleftrightarrow> m = n"
  by (metis locale_nat_digits string_of_nat_inj)

lemma locale_nat_no_minus: "CHR ''-'' \<notin> set (locale_nat n)"
proof -
  have "CHR ''-'' \<notin> set (filter (\<lambda>c. c \<noteq> CHR '','') (locale_nat n))"
    using string_of_nat_digits [of n] by (auto simp: locale_nat_digits)
  then show ?thesis by auto
qed

lemma locale_nat_nonempty: "locale_nat n \<noteq> []"
proof
  assume "locale_nat n = []"
  then have "filter (\<lambda>c. c \<noteq> CHR '','') (locale_nat n) = []" by simp
  then have "string_of_nat n = []" by (simp add: locale_nat_digits)
  then show False
    by (cases "n < 10") (simp_all add: string_of_nat_large)
qed

lemma trf_id_inj: "trf_id m = trf_id n \<longleftrightarrow> m = n"
  by (simp add: trf_id_def string_of_nat_inj)

end
