(* ===== verification/Ledger.thy ===== *)
theory Ledger
  imports Format
begin

text \<open>
  The ledger entry store's data and the balance calculator. The records are the interfaces
  \<open>Transaction\<close>, \<open>Transfer\<close> and \<open>Balance\<close> of
  \<^verbatim>\<open>src/hooks/use-shadow-storage.ts\<close> and \<open>LedgerEntry\<close> of \<^verbatim>\<open>src/lib/api.ts\<close>;
  \<open>calculateBalanceFromLedger\<close> is the fold of \<^verbatim>\<open>api.ts\<close>. Its lemmas: the loop equals
  a closed form by sums (equivalence), from which the gap between the two fields is the
  sum of the pending amounts, and \<open>available \<le> total\<close> when no pending entry is
  negative (bounds). The entry
  lifecycle of the specification is the step relation \<open>status_step\<close>.
\<close>

subsection \<open>Entries and balances\<close>

datatype status = Pending | Posted | Reversed

primrec status_str :: "status \<Rightarrow> string" where
  "status_str Pending = ''pending''"
| "status_str Posted = ''posted''"
| "status_str Reversed = ''reversed''"

record transaction =
  tx_id :: entry_id
  tx_accountId :: account_id
  tx_amount :: amount
  tx_status :: status
  tx_timestamp :: millis

record transfer =
  tr_id :: entry_id
  tr_from :: account_id
  tr_to :: account_id
  tr_amount :: amount
  tr_type :: string
  tr_status :: status
  tr_timestamp :: millis

record balance =
  total :: amount
  available :: amount

text \<open>The literal \<open>{ total: 0, available: 0 }\<close>, the default of every balance lookup.\<close>

definition zero_balance :: balance where
  "zero_balance = \<lparr>total = 0, available = 0\<rparr>"

record ledger_entry =
  le_id :: entry_id
  le_accountId :: account_id
  le_amount :: amount
  le_type :: string
  le_status :: string
  le_timestamp :: millis

subsection \<open>calculateBalanceFromLedger\<close>

text \<open>One iteration of \<open>ledger.forEach\<close>: posted entries count in both fields, pending
  entries in the total only, any other status in neither.\<close>

definition ledger_step :: "balance \<Rightarrow> ledger_entry \<Rightarrow> balance" where
  "ledger_step b e =
     (if le_status e = ''posted''
      then \<lparr>total = total b + le_amount e, available = available b + le_amount e\<rparr>
      else if le_status e = ''pending''
      then b\<lparr>total := total b + le_amount e\<rparr>
      else b)"

definition calculateBalanceFromLedger :: "ledger_entry list \<Rightarrow> balance" where
  "calculateBalanceFromLedger ledger = foldl ledger_step zero_balance ledger"

subsection \<open>Reference definition by sums\<close>

definition bal_add :: "balance \<Rightarrow> balance \<Rightarrow> balance" where
  "bal_add a b = \<lparr>total = total a + total b, available = available a + available b\<rparr>"

definition counts_total :: "ledger_entry \<Rightarrow> bool" where
  "counts_total e \<longleftrightarrow> le_status e = ''posted'' \<or> le_status e = ''pending''"

definition counts_available :: "ledger_entry \<Rightarrow> bool" where
  "counts_available e \<longleftrightarrow> le_status e = ''posted''"

definition ledger_sum :: "ledger_entry list \<Rightarrow> balance" where
  "ledger_sum xs =
     \<lparr>total = sum_list (map le_amount (filter counts_total xs)),
      available = sum_list (map le_amount (filter counts_available xs))\<rparr>"

text \<open>Moving both fields by the same amount, as every client-side balance update does.\<close>

definition bal_shift :: "balance \<Rightarrow> amount \<Rightarrow> balance" where
  "bal_shift b x = \<lparr>total = total b + x, available = available b + x\<rparr>"

definition is_pending_entry :: "ledger_entry \<Rightarrow> bool" where
  "is_pending_entry e \<longleftrightarrow> le_status e = ''pending''"

subsection \<open>Entry lifecycle\<close>

text \<open>The lifecycle the specification gives both kinds of entry: created pending, then
  posted or reversed; a posted entry may still be reversed; nothing leaves reversed.\<close>

inductive status_step :: "status \<Rightarrow> status \<Rightarrow> bool" where
  post: "status_step Pending Posted"
| reverse_pending: "status_step Pending Reversed"
| reverse_posted: "status_step Posted Reversed"

lemma bal_shift_literal [balance_simps]:
  "\<lparr>total = total b + x, available = available b + x\<rparr> = bal_shift b x"
  "\<lparr>total = total b - x, available = available b - x\<rparr> = bal_shift b (- x)"
  by (simp_all add: bal_shift_def)

lemma bal_shift_fields [simp]:
  "total (bal_shift b x) = total b + x" "available (bal_shift b x) = available b + x"
  by (simp_all add: bal_shift_def)

lemma bal_shift_0 [simp]: "bal_shift b 0 = b"
  and bal_shift_shift [simp]: "bal_shift (bal_shift b x) y = bal_shift b (x + y)"
  by (simp_all add: bal_shift_def add.assoc)

lemma bal_shift_gap [simp]: "total (bal_shift b x) - available (bal_shift b x) = total b - available b"
  by simp

lemma bal_add_zero [simp, balance_simps]: "bal_add zero_balance b = b" "bal_add b zero_balance = b"
  by (simp_all add: bal_add_def zero_balance_def)

lemma bal_add_assoc [balance_simps]: "bal_add (bal_add a b) c = bal_add a (bal_add b c)"
  by (simp add: bal_add_def)

lemma bal_add_commute [balance_simps]: "bal_add a b = bal_add b a"
  by (simp add: bal_add_def)

lemma ledger_step_bal_add:
  "ledger_step b e = bal_add b (ledger_step zero_balance e)"
  by (simp add: ledger_step_def bal_add_def zero_balance_def)

lemma foldl_ledger_step:
  "foldl ledger_step b xs = bal_add b (foldl ledger_step zero_balance xs)"
proof (induction xs arbitrary: b)
  case Nil
  then show ?case by simp
next
  case (Cons e xs)
  have "foldl ledger_step b (e # xs) = foldl ledger_step (ledger_step b e) xs"
    by (simp only: foldl_Cons)
  also have "\<dots> = bal_add (ledger_step b e) (foldl ledger_step zero_balance xs)"
    by (rule Cons.IH)
  also have "\<dots> = bal_add b (bal_add (ledger_step zero_balance e) (foldl ledger_step zero_balance xs))"
    by (simp only: ledger_step_bal_add [of b e] bal_add_assoc)
  also have "bal_add (ledger_step zero_balance e) (foldl ledger_step zero_balance xs)
           = foldl ledger_step zero_balance (e # xs)"
    by (simp only: foldl_Cons Cons.IH [of "ledger_step zero_balance e", symmetric])
  finally show ?case .
qed

lemma ledger_sum_Cons:
  "ledger_sum (e # xs) = bal_add (ledger_step zero_balance e) (ledger_sum xs)"
  by (simp add: ledger_sum_def ledger_step_def counts_total_def counts_available_def
      bal_add_def zero_balance_def)

lemma calculateBalanceFromLedger_Cons:
  "calculateBalanceFromLedger (e # xs)
     = bal_add (ledger_step zero_balance e) (calculateBalanceFromLedger xs)"
  unfolding calculateBalanceFromLedger_def foldl_Cons
  by (rule foldl_ledger_step)

lemma calculateBalanceFromLedger_Nil [simp]: "calculateBalanceFromLedger [] = zero_balance"
  by (simp add: calculateBalanceFromLedger_def)

lemma ledger_sum_Nil [simp]: "ledger_sum [] = zero_balance"
  by (simp add: ledger_sum_def zero_balance_def)

subsection \<open>Properties of the calculator\<close>

text \<open>The loop computes the sums of its reference definition.\<close>

lemma calculateBalanceFromLedger_eq_sum:
  "calculateBalanceFromLedger xs = ledger_sum xs"
proof (induction xs)
  case Nil
  then show ?case by simp
next
  case (Cons e xs)
  then show ?case by (simp add: calculateBalanceFromLedger_Cons ledger_sum_Cons)
qed

text \<open>Entries with any status other than posted or pending contribute nothing.\<close>

lemma calculateBalanceFromLedger_filter_counted:
  "calculateBalanceFromLedger (filter counts_total xs) = calculateBalanceFromLedger xs"
proof -
  have "filter counts_available (filter counts_total xs) = filter counts_available xs"
    unfolding filter_filter
    by (rule filter_cong) (auto simp: counts_total_def counts_available_def)
  then show ?thesis
    by (simp add: calculateBalanceFromLedger_eq_sum ledger_sum_def)
qed

text \<open>The gap between the two fields is the sum of the pending amounts.\<close>

lemma sum_list_filter_split:
  "sum_list (map f (filter (\<lambda>x. P x \<or> Q x) xs))
     = sum_list (map f (filter P xs)) + sum_list (map f (filter (\<lambda>x. Q x \<and> \<not> P x) xs))"
  for f :: "'a \<Rightarrow> int"
  by (induction xs) auto

lemma calculateBalanceFromLedger_gap:
  "total (calculateBalanceFromLedger xs) - available (calculateBalanceFromLedger xs)
     = sum_list (map le_amount (filter is_pending_entry xs))"
proof -
  have "filter (\<lambda>e. le_status e = ''pending'' \<and> \<not> le_status e = ''posted'') xs
      = filter is_pending_entry xs"
    by (rule filter_cong) (auto simp: is_pending_entry_def)
  then show ?thesis
    using sum_list_filter_split [of le_amount "\<lambda>e. le_status e = ''posted''"
        "\<lambda>e. le_status e = ''pending''" xs]
    by (simp add: calculateBalanceFromLedger_eq_sum ledger_sum_def counts_total_def [abs_def]
        counts_available_def [abs_def])
qed

inductive_cases status_step_from_reversedE [elim!]: "status_step Reversed s"
inductive_cases status_step_to_pendingE [elim!]: "status_step s Pending"

inductive_simps status_step_simps [simp]: "status_step s t"

lemma status_step_irrefl: "\<not> status_step s s"
  by (cases s) auto

text \<open>C11: the \<open>forEach\<close> loop of \<open>calculateBalanceFromLedger\<close> computes the total as
  the sum of the amounts of the posted and pending entries and the available balance as
  the sum of the amounts of the posted entries; entries with any other status count in
  neither.\<close>

theorem calculateBalanceFromLedger_closed_form:
  "calculateBalanceFromLedger xs =
     \<lparr>total = sum_list (map le_amount
                (filter (\<lambda>e. le_status e = ''posted'' \<or> le_status e = ''pending'') xs)),
      available = sum_list (map le_amount (filter (\<lambda>e. le_status e = ''posted'') xs))\<rparr>"
proof -
  have "counts_total = (\<lambda>e. le_status e = ''posted'' \<or> le_status e = ''pending'')"
    and "counts_available = (\<lambda>e. le_status e = ''posted'')"
    by (simp_all add: fun_eq_iff counts_total_def counts_available_def)
  then show ?thesis by (simp add: calculateBalanceFromLedger_eq_sum ledger_sum_def)
qed

text \<open>C12: when no pending entry has a negative amount, the computed available balance
  never exceeds the computed total (the specification's invariant
  \<open>available \<le> total\<close> for derived balances).\<close>

theorem calculateBalanceFromLedger_available_le_total:
  assumes "\<forall>e \<in> set xs. le_status e = ''pending'' \<longrightarrow> 0 \<le> le_amount e"
  shows "available (calculateBalanceFromLedger xs) \<le> total (calculateBalanceFromLedger xs)"
proof -
  have "0 \<le> sum_list (map le_amount (filter is_pending_entry xs))"
    using assms by (intro sum_list_nonneg) (auto simp: is_pending_entry_def)
  with calculateBalanceFromLedger_gap [of xs] show ?thesis by linarith
qed

text \<open>A ledger with one pending credit of 1000: the hypothesis holds, and the balance
  is 1000 in total with nothing available.\<close>

theorem calculateBalanceFromLedger_available_le_total_witness:
  "available (calculateBalanceFromLedger [\<lparr>le_id = ''tx-1'', le_accountId = ''acc-1'',
      le_amount = 1000, le_type = ''credit'', le_status = ''pending'', le_timestamp = 0\<rparr>]) \<le>
   total (calculateBalanceFromLedger [\<lparr>le_id = ''tx-1'', le_accountId = ''acc-1'',
      le_amount = 1000, le_type = ''credit'', le_status = ''pending'', le_timestamp = 0\<rparr>]) \<and>
   calculateBalanceFromLedger [\<lparr>le_id = ''tx-1'', le_accountId = ''acc-1'',
      le_amount = 1000, le_type = ''credit'', le_status = ''pending'', le_timestamp = 0\<rparr>] =
     \<lparr>total = 1000, available = 0\<rparr>"
proof -
  let ?l = "[\<lparr>le_id = ''tx-1'', le_accountId = ''acc-1'', le_amount = 1000::int,
             le_type = ''credit'', le_status = ''pending'', le_timestamp = 0::nat\<rparr>]"
  have h: "\<forall>e \<in> set ?l. le_status e = ''pending'' \<longrightarrow> 0 \<le> le_amount e" by simp
  have "available (calculateBalanceFromLedger ?l) \<le> total (calculateBalanceFromLedger ?l)"
    by (rule calculateBalanceFromLedger_available_le_total [OF h])
  moreover have "calculateBalanceFromLedger ?l = \<lparr>total = 1000, available = 0\<rparr>"
    by (simp add: calculateBalanceFromLedger_def ledger_step_def zero_balance_def)
  ultimately show ?thesis by simp
qed

lemma balance_eqI: "total b = x \<Longrightarrow> available b = y \<Longrightarrow> b = \<lparr>total = x, available = y\<rparr>"
  by (cases b) simp

lemma zero_balance_fields [simp]: "total zero_balance = 0" "available zero_balance = 0"
  by (simp_all add: zero_balance_def)

end
