(* ===== verification/Shadow.thy ===== *)
theory Shadow
  imports Ledger Notifications
begin

text \<open>
  The state of one instance of the hook \<open>useShadowStorage\<close>
  (\<^verbatim>\<open>src/hooks/use-shadow-storage.ts\<close>): the React state \<open>data\<close> of type
  \<open>ShadowData\<close> and the flag \<open>isLoaded\<close>, together with the browser's
  \<open>localStorage\<close> under the two keys of \<open>STORAGE_KEYS\<close>, which outlives the hook
  instance. Stored JSON is modelled by the values it encodes (\<open>None\<close> for a missing key).
  The invariant \<open>balances_ok\<close> is the specification's \<open>available \<le> total\<close> for every
  stored balance.
\<close>

record shadow_data =
  transactions :: "transaction list"
  balances :: "account_id \<rightharpoonup> balance"
  transfers :: "transfer list"
  notifications :: notification_log

text \<open>\<open>localStorage\<close>: \<open>shadow_transfers\<close> and \<open>shadow_notifications\<close>.\<close>

record local_storage =
  ls_transfers :: "transfer list option"
  ls_notifications :: "notification_log option"

record client =
  data :: shadow_data
  isLoaded :: bool
  store :: local_storage

definition INITIAL_DATA :: shadow_data where
  "INITIAL_DATA =
     \<lparr>transactions = [], balances = Map.empty, transfers = [],
      notifications = [''acc-demo-1'' \<mapsto> [], ''acc-demo-2'' \<mapsto> []]\<rparr>"

text \<open>\<open>saveLocalData\<close>: only transfers and notifications are written to
  \<open>localStorage\<close>; the whole of \<open>newData\<close> becomes the React state.\<close>

definition saveLocalData :: "shadow_data \<Rightarrow> client \<Rightarrow> client" where
  "saveLocalData newData c =
     c\<lparr>store := \<lparr>ls_transfers = Some (transfers newData),
                 ls_notifications = Some (notifications newData)\<rparr>,
       data := newData\<rparr>"

text \<open>The balance of an account as every reader in the code takes it:
  \<open>data.balances[a] || { total: 0, available: 0 }\<close>.\<close>

definition bal_of :: "shadow_data \<Rightarrow> account_id \<Rightarrow> balance" where
  "bal_of d a = get_or (balances d) a zero_balance"

definition balances_ok :: "shadow_data \<Rightarrow> bool" where
  "balances_ok d \<longleftrightarrow> (\<forall>a. available (bal_of d a) \<le> total (bal_of d a))"

lemma saveLocalData_data [simp]: "data (saveLocalData d c) = d"
  and saveLocalData_isLoaded [simp]: "isLoaded (saveLocalData d c) = isLoaded c"
  and saveLocalData_store [simp]:
    "store (saveLocalData d c) =
       \<lparr>ls_transfers = Some (transfers d), ls_notifications = Some (notifications d)\<rparr>"
  by (simp_all add: saveLocalData_def)

lemma balances_ok_INITIAL_DATA: "balances_ok INITIAL_DATA"
  by (simp add: balances_ok_def bal_of_def INITIAL_DATA_def zero_balance_def)

text \<open>Storing, for one account, a balance whose two fields moved by the same amount keeps
  the invariant: the shared step of every transfer operation.\<close>

lemma balances_ok_shift:
  assumes "balances_ok d"
    and "total b' - available b' = total (bal_of d a) - available (bal_of d a)"
  shows "balances_ok (d\<lparr>balances := (balances d)(a \<mapsto> b')\<rparr>)"
proof -
  have "available (bal_of d a) \<le> total (bal_of d a)"
    using assms(1) by (simp add: balances_ok_def)
  with assms(2) have "available b' \<le> total b'" by linarith
  with assms(1) show ?thesis by (simp add: balances_ok_def bal_of_def)
qed

text \<open>If every account's new balance is its old one moved by some amount in both fields,
  the invariant carries over.\<close>

lemma balances_ok_shifted:
  assumes "balances_ok d" and "\<And>a. \<exists>x. bal_of d' a = bal_shift (bal_of d a) x"
  shows "balances_ok d'"
  unfolding balances_ok_def
proof
  fix a
  from assms(2) obtain x where "bal_of d' a = bal_shift (bal_of d a) x" by blast
  moreover have "available (bal_of d a) \<le> total (bal_of d a)"
    using assms(1) by (simp add: balances_ok_def)
  ultimately show "available (bal_of d' a) \<le> total (bal_of d' a)" by simp
qed

lemma bal_of_update [simp]:
  "bal_of (d\<lparr>balances := (balances d)(k \<mapsto> b)\<rparr>) a = (if a = k then b else bal_of d a)"
  by (simp add: bal_of_def)

end
