(* ===== verification/Transfers.thy ===== *)
theory Transfers
  imports Shadow
begin

text \<open>
  The transfer engine: \<open>createPendingTransfer\<close>, \<open>postTransfer\<close>,
  \<open>reverseTransfer\<close> and \<open>createTransfer\<close> of
  \<^verbatim>\<open>src/hooks/use-shadow-storage.ts\<close>. They run entirely in the client: each reads the
  hook's \<open>data\<close>, builds \<open>newData\<close> with object spreads and hands it to
  \<open>saveLocalData\<close>. The clock reading \<open>Date.now()\<close> is the parameter \<open>now\<close>.
  Results \<open>{ success: false, error }\<close> are \<open>Inl error\<close>; a missing transfer id makes
  post and reverse return without any change.
\<close>

subsection \<open>Operations\<close>

definition createPendingTransfer ::
  "millis \<Rightarrow> account_id \<Rightarrow> account_id \<Rightarrow> amount \<Rightarrow> client \<Rightarrow> (string + transfer) \<times> client" where
  "createPendingTransfer now from to amount c =
     (let d = data c;
          fromBalance = get_or (balances d) from zero_balance
      in if available fromBalance < amount
         then (Inl ''Insufficient available balance'', c)
         else
           (let transfer = \<lparr>tr_id = trf_id now, tr_from = from, tr_to = to, tr_amount = amount,
                             tr_type = ''TRANSFER'', tr_status = Pending, tr_timestamp = now\<rparr>;
                toBalance = get_or (balances d) to zero_balance;
                newData = d\<lparr>transfers := transfers d @ [transfer],
                  balances := (balances d)
                    (from \<mapsto> \<lparr>total = total fromBalance - amount,
                              available = available fromBalance - amount\<rparr>,
                     to \<mapsto> toBalance),
                  notifications := (notifications d)
                    (from \<mapsto> appended (notifications d) from (msg_sent_pending amount to),
                     to \<mapsto> appended (notifications d) to (msg_incoming_pending amount from))\<rparr>
            in (Inr transfer, saveLocalData newData c)))"

definition postTransfer :: "entry_id \<Rightarrow> client \<Rightarrow> client" where
  "postTransfer transferId c =
     (let d = data c
      in case find (\<lambda>t. tr_id t = transferId) (transfers d) of
           None \<Rightarrow> c
         | Some transfer \<Rightarrow>
             (let toBalance = get_or (balances d) (tr_to transfer) zero_balance;
                  newData = d\<lparr>
                    transfers := map (\<lambda>t. if tr_id t = transferId then t\<lparr>tr_status := Posted\<rparr> else t)
                                   (transfers d),
                    balances := (balances d)
                      (tr_to transfer \<mapsto> \<lparr>total = total toBalance + tr_amount transfer,
                                         available = available toBalance + tr_amount transfer\<rparr>),
                    notifications := (notifications d)
                      (tr_to transfer \<mapsto> appended (notifications d) (tr_to transfer)
                         (msg_transfer_available (tr_amount transfer) (tr_from transfer)))\<rparr>
              in saveLocalData newData c))"

definition reverseTransfer :: "entry_id \<Rightarrow> client \<Rightarrow> client" where
  "reverseTransfer transferId c =
     (let d = data c
      in case find (\<lambda>t. tr_id t = transferId) (transfers d) of
           None \<Rightarrow> c
         | Some transfer \<Rightarrow>
             (let fromBalance = get_or (balances d) (tr_from transfer) zero_balance;
                  newData = d\<lparr>
                    transfers := map (\<lambda>t. if tr_id t = transferId then t\<lparr>tr_status := Reversed\<rparr> else t)
                                   (transfers d),
                    balances := (balances d)
                      (tr_from transfer \<mapsto> \<lparr>total = total fromBalance + tr_amount transfer,
                                           available = available fromBalance + tr_amount transfer\<rparr>),
                    notifications := (notifications d)
                      (tr_from transfer \<mapsto> appended (notifications d) (tr_from transfer)
                         (msg_transfer_reversed (tr_amount transfer) (tr_to transfer)),
                       tr_to transfer \<mapsto> appended (notifications d) (tr_to transfer)
                         (msg_incoming_reversed (tr_amount transfer) (tr_from transfer)))\<rparr>
              in saveLocalData newData c))"

definition createTransfer ::
  "millis \<Rightarrow> account_id \<Rightarrow> account_id \<Rightarrow> amount \<Rightarrow> client \<Rightarrow> (string + unit) \<times> client" where
  "createTransfer now from to amount c =
     (let d = data c;
          fromBalance = get_or (balances d) from zero_balance
      in if available fromBalance < amount
         then (Inl ''You can't send shadow funds until they're confirmed.'', c)
         else
           (let transfer = \<lparr>tr_id = trf_id now, tr_from = from, tr_to = to, tr_amount = amount,
                             tr_type = ''TRANSFER'', tr_status = Posted, tr_timestamp = now\<rparr>;
                toBalance = get_or (balances d) to zero_balance;
                newData = d\<lparr>transfers := transfers d @ [transfer],
                  balances := (balances d)
                    (from \<mapsto> \<lparr>total = total fromBalance - amount,
                              available = available fromBalance - amount\<rparr>,
                     to \<mapsto> \<lparr>total = total toBalance + amount,
                            available = available toBalance + amount\<rparr>),
                  notifications := (notifications d)
                    (from \<mapsto> appended (notifications d) from (msg_sent amount to),
                     to \<mapsto> appended (notifications d) to (msg_received amount from))\<rparr>
            in (Inr (), saveLocalData newData c)))"

subsection \<open>The operations as steps\<close>

text \<open>The pages call the engine through these four entry points: the transfer page calls
  \<open>createPendingTransfer\<close>, the admin transactions page \<open>postTransfer\<close> and
  \<open>reverseTransfer\<close>; \<open>createTransfer\<close> is exported by the hook. A run is a sequence of
  such calls on one hook instance.\<close>

datatype transfer_op =
    CreatePending millis account_id account_id amount
  | PostT entry_id
  | ReverseT entry_id
  | CreateDirect millis account_id account_id amount

fun transfer_step :: "client \<Rightarrow> transfer_op \<Rightarrow> client" where
  "transfer_step c (CreatePending now from to x) = snd (createPendingTransfer now from to x c)"
| "transfer_step c (PostT i) = postTransfer i c"
| "transfer_step c (ReverseT i) = reverseTransfer i c"
| "transfer_step c (CreateDirect now from to x) = snd (createTransfer now from to x c)"

definition transfer_run :: "client \<Rightarrow> transfer_op list \<Rightarrow> client" where
  "transfer_run c ops = foldl transfer_step c ops"

text \<open>A hook instance whose \<open>acc-1\<close> holds 1000, all of it available: the starting
  point of the specification's scenarios.\<close>

definition demo_client :: client where
  "demo_client =
     \<lparr>data = INITIAL_DATA\<lparr>balances := [''acc-1'' \<mapsto> \<lparr>total = 1000, available = 1000\<rparr>]\<rparr>,
      isLoaded = True, store = \<lparr>ls_transfers = None, ls_notifications = None\<rparr>\<rparr>"

text \<open>The same instance after \<open>createPendingTransfer(acc-1, acc-2, 400)\<close> at time 5.\<close>

definition demo_pending :: client where
  "demo_pending = snd (createPendingTransfer 5 ''acc-1'' ''acc-2'' 400 demo_client)"

definition demo_transfer :: transfer where
  "demo_transfer = \<lparr>tr_id = trf_id 5, tr_from = ''acc-1'', tr_to = ''acc-2'', tr_amount = 400,
                    tr_type = ''TRANSFER'', tr_status = Pending, tr_timestamp = 5\<rparr>"

subsection \<open>Behaviour of each operation\<close>

text \<open>The characteristic equations: the result and the new balances of every account, on
  each branch of the code. They are the library the properties below are proved from.\<close>

lemma createPendingTransfer_insufficient [engine_simps]:
  "available (bal_of (data c) from) < amount \<Longrightarrow>
   createPendingTransfer now from to amount c = (Inl ''Insufficient available balance'', c)"
  by (simp add: createPendingTransfer_def bal_of_def)

lemma createPendingTransfer_success_result:
  "\<not> available (bal_of (data c) from) < amount \<Longrightarrow>
   fst (createPendingTransfer now from to amount c) =
     Inr \<lparr>tr_id = trf_id now, tr_from = from, tr_to = to, tr_amount = amount,
          tr_type = ''TRANSFER'', tr_status = Pending, tr_timestamp = now\<rparr>"
  by (simp add: createPendingTransfer_def bal_of_def Let_def)

lemma createPendingTransfer_success_data:
  assumes "\<not> available (bal_of (data c) from) < amount"
  shows "data (snd (createPendingTransfer now from to amount c)) =
    (data c)\<lparr>transfers := transfers (data c) @
       [\<lparr>tr_id = trf_id now, tr_from = from, tr_to = to, tr_amount = amount,
          tr_type = ''TRANSFER'', tr_status = Pending, tr_timestamp = now\<rparr>],
      balances := (balances (data c))
        (from \<mapsto> bal_shift (bal_of (data c) from) (- amount), to \<mapsto> bal_of (data c) to),
      notifications := (notifications (data c))
        (from \<mapsto> appended (notifications (data c)) from (msg_sent_pending amount to),
         to \<mapsto> appended (notifications (data c)) to (msg_incoming_pending amount from))\<rparr>"
  using assms by (simp add: createPendingTransfer_def bal_of_def Let_def bal_shift_def)

lemma createPendingTransfer_bal:
  assumes "\<not> available (bal_of (data c) from) < amount"
  shows "bal_of (data (snd (createPendingTransfer now from to amount c))) a =
    (if a = to then bal_of (data c) a
     else if a = from then bal_shift (bal_of (data c) from) (- amount)
     else bal_of (data c) a)"
  using assms by (simp add: createPendingTransfer_success_data bal_of_def)

lemma postTransfer_missing [engine_simps]:
  "find (\<lambda>t. tr_id t = tid) (transfers (data c)) = None \<Longrightarrow> postTransfer tid c = c"
  by (simp add: postTransfer_def)

lemma postTransfer_found_data:
  assumes "find (\<lambda>t. tr_id t = tid) (transfers (data c)) = Some t"
  shows "data (postTransfer tid c) =
    (data c)\<lparr>transfers := map (\<lambda>u. if tr_id u = tid then u\<lparr>tr_status := Posted\<rparr> else u)
                              (transfers (data c)),
      balances := (balances (data c)) (tr_to t \<mapsto> bal_shift (bal_of (data c) (tr_to t)) (tr_amount t)),
      notifications := (notifications (data c)) (tr_to t \<mapsto> appended (notifications (data c))
         (tr_to t) (msg_transfer_available (tr_amount t) (tr_from t)))\<rparr>"
  using assms by (simp add: postTransfer_def bal_of_def Let_def bal_shift_def)

lemma postTransfer_bal:
  "find (\<lambda>t. tr_id t = tid) (transfers (data c)) = Some t \<Longrightarrow>
   bal_of (data (postTransfer tid c)) a =
     (if a = tr_to t then bal_shift (bal_of (data c) a) (tr_amount t) else bal_of (data c) a)"
  by (simp add: postTransfer_found_data bal_of_def)

lemma reverseTransfer_missing [engine_simps]:
  "find (\<lambda>t. tr_id t = tid) (transfers (data c)) = None \<Longrightarrow> reverseTransfer tid c = c"
  by (simp add: reverseTransfer_def)

lemma reverseTransfer_found_data:
  assumes "find (\<lambda>t. tr_id t = tid) (transfers (data c)) = Some t"
  shows "data (reverseTransfer tid c) =
    (data c)\<lparr>transfers := map (\<lambda>u. if tr_id u = tid then u\<lparr>tr_status := Reversed\<rparr> else u)
                              (transfers (data c)),
      balances := (balances (data c))
        (tr_from t \<mapsto> bal_shift (bal_of (data c) (tr_from t)) (tr_amount t)),
      notifications := (notifications (data c))
        (tr_from t \<mapsto> appended (notifications (data c)) (tr_from t)
           (msg_transfer_reversed (tr_amount t) (tr_to t)),
         tr_to t \<mapsto> appended (notifications (data c)) (tr_to t)
           (msg_incoming_reversed (tr_amount t) (tr_from t)))\<rparr>"
  using assms by (simp add: reverseTransfer_def bal_of_def Let_def bal_shift_def)

lemma reverseTransfer_bal:
  "find (\<lambda>t. tr_id t = tid) (transfers (data c)) = Some t \<Longrightarrow>
   bal_of (data (reverseTransfer tid c)) a =
     (if a = tr_from t then bal_shift (bal_of (data c) a) (tr_amount t) else bal_of (data c) a)"
  by (simp add: reverseTransfer_found_data bal_of_def)

lemma createTransfer_insufficient [engine_simps]:
  "available (bal_of (data c) from) < amount \<Longrightarrow>
   createTransfer now from to amount c =
     (Inl ''You can't send shadow funds until they're confirmed.'', c)"
  by (simp add: createTransfer_def bal_of_def)

lemma createTransfer_bal:
  assumes "\<not> available (bal_of (data c) from) < amount"
  shows "bal_of (data (snd (createTransfer now from to amount c))) a =
    (if a = to then bal_shift (bal_of (data c) a) amount
     else if a = from then bal_shift (bal_of (data c) from) (- amount)
     else bal_of (data c) a)"
  using assms by (simp add: createTransfer_def bal_of_def Let_def bal_shift_def)

subsection \<open>Properties of the transfer engine\<close>

text \<open>C2: \<open>createPendingTransfer\<close> rejects the transfer exactly when the sender's
  available balance is below the amount, and a rejection returns the error message and
  leaves the hook's state and \<open>localStorage\<close> exactly as they were.\<close>

theorem createPendingTransfer_rejects_iff:
  "(\<exists>e. createPendingTransfer now from to amount c = (Inl e, c)) \<longleftrightarrow>
   available (bal_of (data c) from) < amount"
proof
  assume "\<exists>e. createPendingTransfer now from to amount c = (Inl e, c)"
  then have "\<not> (\<exists>t. fst (createPendingTransfer now from to amount c) = Inr t)" by auto
  then show "available (bal_of (data c) from) < amount"
    using createPendingTransfer_success_result by blast
next
  assume "available (bal_of (data c) from) < amount"
  then show "\<exists>e. createPendingTransfer now from to amount c = (Inl e, c)"
    by (simp add: createPendingTransfer_insufficient)
qed

subsection \<open>Every step moves balances in both fields together\<close>

lemma bal_shift_ex_refl: "\<exists>x. b = bal_shift b x"
  by (rule exI [of _ 0]) simp

lemma transfer_step_shifts:
  "\<exists>x. bal_of (data (transfer_step c op)) a = bal_shift (bal_of (data c) a) x"
proof (cases op)
  case (CreatePending now src dst x)
  show ?thesis
  proof (cases "available (bal_of (data c) src) < x")
    case True
    with CreatePending show ?thesis
      by (simp add: createPendingTransfer_insufficient bal_shift_ex_refl)
  next
    case False
    with CreatePending show ?thesis
      by (simp add: createPendingTransfer_bal bal_shift_ex_refl) blast
  qed
next
  case (PostT i)
  then show ?thesis
    by (cases "find (\<lambda>t. tr_id t = i) (transfers (data c))")
       (simp_all add: postTransfer_missing postTransfer_bal bal_shift_ex_refl, blast)
next
  case (ReverseT i)
  then show ?thesis
    by (cases "find (\<lambda>t. tr_id t = i) (transfers (data c))")
       (simp_all add: reverseTransfer_missing reverseTransfer_bal bal_shift_ex_refl, blast)
next
  case (CreateDirect now src dst x)
  show ?thesis
  proof (cases "available (bal_of (data c) src) < x")
    case True
    with CreateDirect show ?thesis
      by (simp add: createTransfer_insufficient bal_shift_ex_refl)
  next
    case False
    with CreateDirect show ?thesis
      by (simp add: createTransfer_bal bal_shift_ex_refl) blast
  qed
qed

lemma transfer_step_log:
  "log_extends (notifications (data c)) (notifications (data (transfer_step c op)))"
proof (cases op)
  case (CreatePending now src dst x)
  then show ?thesis
    by (cases "available (bal_of (data c) src) < x")
       (simp_all add: createPendingTransfer_insufficient createPendingTransfer_success_data)
next
  case (PostT i)
  then show ?thesis
    by (cases "find (\<lambda>t. tr_id t = i) (transfers (data c))")
       (simp_all add: postTransfer_missing postTransfer_found_data)
next
  case (ReverseT i)
  then show ?thesis
    by (cases "find (\<lambda>t. tr_id t = i) (transfers (data c))")
       (simp_all add: reverseTransfer_missing reverseTransfer_found_data)
next
  case (CreateDirect now src dst x)
  then show ?thesis
    by (cases "available (bal_of (data c) src) < x")
       (simp_all add: createTransfer_insufficient createTransfer_def bal_of_def Let_def)
qed

lemma transfer_run_Cons [simp]: "transfer_run c (op # ops) = transfer_run (transfer_step c op) ops"
  and transfer_run_Nil [simp]: "transfer_run c [] = c"
  by (simp_all add: transfer_run_def)

text \<open>C3: a successful \<open>createPendingTransfer\<close> between two different accounts debits
  the sender at once in both total and available (the hold), leaves the receiver and every
  other account untouched, and appends the new pending transfer of that amount.\<close>

theorem createPendingTransfer_hold:
  assumes "createPendingTransfer now from to amount c = (Inr t, c')" and "from \<noteq> to"
  shows "bal_of (data c') from = bal_shift (bal_of (data c) from) (- amount) \<and>
         bal_of (data c') to = bal_of (data c) to \<and>
         (\<forall>a. a \<noteq> from \<and> a \<noteq> to \<longrightarrow> bal_of (data c') a = bal_of (data c) a) \<and>
         transfers (data c') = transfers (data c) @ [t] \<and>
         tr_status t = Pending \<and> tr_amount t = amount"
proof -
  have ok: "\<not> available (bal_of (data c) from) < amount"
    using assms(1) createPendingTransfer_insufficient by fastforce
  then have c': "c' = snd (createPendingTransfer now from to amount c)"
    using assms(1) by simp
  have "fst (createPendingTransfer now from to amount c) = Inr t"
    using assms(1) by simp
  with createPendingTransfer_success_result [OF ok, of now to]
  have t: "t = \<lparr>tr_id = trf_id now, tr_from = from, tr_to = to, tr_amount = amount,
          tr_type = ''TRANSFER'', tr_status = Pending, tr_timestamp = now\<rparr>"
    by simp
  have "\<And>a. bal_of (data c') a =
      (if a = to then bal_of (data c) a
       else if a = from then bal_shift (bal_of (data c) from) (- amount) else bal_of (data c) a)"
    unfolding c' by (rule createPendingTransfer_bal [OF ok])
  moreover have "transfers (data c') = transfers (data c) @ [t]"
    unfolding c' t using ok by (simp add: createPendingTransfer_success_data)
  ultimately show ?thesis using assms(2) t by simp
qed

text \<open>C4: posting a transfer that is in the list credits its receiver by its amount in
  both total and available, leaves the sender (already debited at creation) and every
  other account unchanged, and marks the transfer posted.\<close>

theorem postTransfer_credits_receiver:
  assumes "find (\<lambda>t. tr_id t = tid) (transfers (data c)) = Some t"
    and "tr_from t \<noteq> tr_to t"
  shows "bal_of (data (postTransfer tid c)) (tr_to t) = bal_shift (bal_of (data c) (tr_to t)) (tr_amount t) \<and>
         bal_of (data (postTransfer tid c)) (tr_from t) = bal_of (data c) (tr_from t) \<and>
         (\<forall>a. a \<noteq> tr_to t \<longrightarrow> bal_of (data (postTransfer tid c)) a = bal_of (data c) a) \<and>
         find (\<lambda>u. tr_id u = tid) (transfers (data (postTransfer tid c))) = Some (t\<lparr>tr_status := Posted\<rparr>)"
proof -
  have "\<And>a. bal_of (data (postTransfer tid c)) a = (if a = tr_to t
          then bal_shift (bal_of (data c) a) (tr_amount t) else bal_of (data c) a)"
    by (rule postTransfer_bal [OF assms(1)])
  moreover have "find (\<lambda>u. tr_id u = tid) (transfers (data (postTransfer tid c)))
                 = Some (t\<lparr>tr_status := Posted\<rparr>)"
    using assms(1) by (simp add: postTransfer_found_data find_map_keyed [where key = tr_id])
  ultimately show ?thesis using assms(2) by simp
qed

text \<open>C5: reversing a transfer that is in the list credits its sender back by its amount in
  both total and available and marks it reversed; the receiver's balance is not touched,
  whether or not the transfer had been posted and credited to it.\<close>

theorem reverseTransfer_restores_sender:
  assumes "find (\<lambda>t. tr_id t = tid) (transfers (data c)) = Some t"
    and "tr_from t \<noteq> tr_to t"
  shows "bal_of (data (reverseTransfer tid c)) (tr_from t) = bal_shift (bal_of (data c) (tr_from t)) (tr_amount t) \<and>
         bal_of (data (reverseTransfer tid c)) (tr_to t) = bal_of (data c) (tr_to t) \<and>
         (\<forall>a. a \<noteq> tr_from t \<longrightarrow> bal_of (data (reverseTransfer tid c)) a = bal_of (data c) a) \<and>
         find (\<lambda>u. tr_id u = tid) (transfers (data (reverseTransfer tid c))) = Some (t\<lparr>tr_status := Reversed\<rparr>)"
proof -
  have "\<And>a. bal_of (data (reverseTransfer tid c)) a = (if a = tr_from t
          then bal_shift (bal_of (data c) a) (tr_amount t) else bal_of (data c) a)"
    by (rule reverseTransfer_bal [OF assms(1)])
  moreover have "find (\<lambda>u. tr_id u = tid) (transfers (data (reverseTransfer tid c)))
                 = Some (t\<lparr>tr_status := Reversed\<rparr>)"
    using assms(1) by (simp add: reverseTransfer_found_data find_map_keyed [where key = tr_id])
  ultimately show ?thesis using assms(2) by simp
qed

text \<open>Post and reverse with an id that names no transfer change nothing: the hook's
  state and \<open>localStorage\<close> stay as they were (the silent no-op of the specification).\<close>

theorem transfer_unknown_id_noop:
  assumes "tid \<notin> tr_id ` set (transfers (data c))"
  shows "postTransfer tid c = c \<and> reverseTransfer tid c = c"
proof -
  from assms have "find (\<lambda>t. tr_id t = tid) (transfers (data c)) = None"
    by (simp add: find_None_iff_keys)
  then show ?thesis by (simp add: postTransfer_missing reverseTransfer_missing)
qed

text \<open>C6: every sequence of transfer operations keeps \<open>available \<le> total\<close> for every
  account of the hook's balances, because every operation moves both fields of a balance
  by the same amount.\<close>

theorem transfer_run_balances_ok:
  "balances_ok (data c) \<Longrightarrow> balances_ok (data (transfer_run c ops))"
proof (induction ops arbitrary: c)
  case Nil
  then show ?case by simp
next
  case (Cons op ops)
  have "balances_ok (data (transfer_step c op))"
    using Cons.prems transfer_step_shifts by (rule balances_ok_shifted)
  then show ?case by (simp add: Cons.IH)
qed

text \<open>Over every sequence of transfer operations the notification log only grows:
  each account's earlier messages stay in place and in order.\<close>

theorem transfer_run_log_extends:
  "log_extends (notifications (data c)) (notifications (data (transfer_run c ops)))"
proof (induction ops arbitrary: c)
  case Nil
  then show ?case by simp
next
  case (Cons op ops)
  then show ?case
    using transfer_step_log [of c op] log_extends_trans by auto
qed

text \<open>C9: a successful \<open>createPendingTransfer\<close> appends one message to the sender's
  log (\<open>awaiting confirmation\<close>) and one to the receiver's (\<open>is being processed\<close>) and
  leaves every other log as it was. For a transfer to oneself the object literal writes the
  \<open>[to]\<close> key last, so the account gets the receiver's message only and the sender's
  message is lost.\<close>

theorem createPendingTransfer_notifications:
  assumes r: "createPendingTransfer now from to amount c = (Inr t, c')"
  shows "get_or (notifications (data c')) a [] =
           get_or (notifications (data c)) a [] @
             (if a = to then [msg_incoming_pending amount from]
              else if a = from then [msg_sent_pending amount to] else [])"
proof -
  have g: "\<not> available (bal_of (data c) from) < amount"
    using r createPendingTransfer_insufficient [of c "from" amount now "to"] by auto
  from r have "c' = snd (createPendingTransfer now from to amount c)" by simp
  then show ?thesis by (simp add: createPendingTransfer_success_data [OF g] appended_def)
qed

text \<open>C10: posting a listed transfer appends one message (\<open>is now available\<close>) to the
  receiver's log; reversing it appends one to the sender's (\<open>was reversed\<close>) and one to
  the receiver's (\<open>failed or was reversed\<close>), the receiver's last. No other log changes.\<close>

theorem settle_transfer_notifications:
  assumes f: "find (\<lambda>u. tr_id u = i) (transfers (data c)) = Some t"
  shows "get_or (notifications (data (postTransfer i c))) a [] =
           get_or (notifications (data c)) a [] @
             (if a = tr_to t then [msg_transfer_available (tr_amount t) (tr_from t)] else []) \<and>
         get_or (notifications (data (reverseTransfer i c))) a [] =
           get_or (notifications (data c)) a [] @
             (if a = tr_to t then [msg_incoming_reversed (tr_amount t) (tr_from t)]
              else if a = tr_from t then [msg_transfer_reversed (tr_amount t) (tr_to t)] else [])"
  by (simp add: postTransfer_found_data [OF f] reverseTransfer_found_data [OF f] appended_def)

subsection \<open>The specification's transfer scenario\<close>

lemma demo_client_guard: "\<not> available (bal_of (data demo_client) ''acc-1'') < 400"
  by (simp add: demo_client_def INITIAL_DATA_def bal_of_def)

lemma demo_client_bal:
  "bal_of (data demo_client) a =
     (if a = ''acc-1'' then \<lparr>total = 1000, available = 1000\<rparr> else zero_balance)"
  by (simp add: demo_client_def INITIAL_DATA_def bal_of_def)

lemma demo_client_transfers: "transfers (data demo_client) = []"
  by (simp add: demo_client_def INITIAL_DATA_def)

lemma demo_pending_result:
  "createPendingTransfer 5 ''acc-1'' ''acc-2'' 400 demo_client = (Inr demo_transfer, demo_pending)"
  using createPendingTransfer_success_result [OF demo_client_guard, of 5 "''acc-2''"]
  by (simp add: demo_pending_def demo_transfer_def prod_eq_iff)

lemma demo_pending_bal:
  "bal_of (data demo_pending) a =
     (if a = ''acc-1'' then \<lparr>total = 600, available = 600\<rparr> else zero_balance)"
  unfolding demo_pending_def
  by (simp add: createPendingTransfer_bal [OF demo_client_guard] demo_client_bal bal_shift_def
      zero_balance_def)

lemma demo_pending_transfers: "transfers (data demo_pending) = [demo_transfer]"
  unfolding demo_pending_def
  by (simp add: createPendingTransfer_success_data [OF demo_client_guard] demo_transfer_def
      demo_client_transfers)

lemma demo_pending_find: "find (\<lambda>t. tr_id t = trf_id 5) (transfers (data demo_pending)) = Some demo_transfer"
  by (simp add: demo_pending_transfers demo_transfer_def)

theorem createPendingTransfer_hold_witness:
  "bal_of (data demo_pending) ''acc-1'' = \<lparr>total = 600, available = 600\<rparr> \<and>
   bal_of (data demo_pending) ''acc-2'' = \<lparr>total = 0, available = 0\<rparr> \<and>
   transfers (data demo_pending) = [demo_transfer]"
proof -
  have "''acc-1'' \<noteq> ''acc-2''" by simp
  from createPendingTransfer_hold [OF demo_pending_result this]
  have "bal_of (data demo_pending) ''acc-1'' = bal_shift (bal_of (data demo_client) ''acc-1'') (- 400)"
    and "bal_of (data demo_pending) ''acc-2'' = bal_of (data demo_client) ''acc-2''"
    and "transfers (data demo_pending) = transfers (data demo_client) @ [demo_transfer]"
    by simp_all
  then show ?thesis
    by (simp add: demo_client_bal bal_shift_def zero_balance_def demo_client_transfers)
qed

theorem postTransfer_credits_receiver_witness:
  "bal_of (data (postTransfer (trf_id 5) demo_pending)) ''acc-2'' = \<lparr>total = 400, available = 400\<rparr> \<and>
   bal_of (data (postTransfer (trf_id 5) demo_pending)) ''acc-1'' = \<lparr>total = 600, available = 600\<rparr>"
proof -
  have "tr_from demo_transfer \<noteq> tr_to demo_transfer" by (simp add: demo_transfer_def)
  from postTransfer_credits_receiver [OF demo_pending_find this]
  show ?thesis by (simp add: demo_pending_bal demo_transfer_def bal_shift_def zero_balance_def)
qed

theorem reverseTransfer_restores_sender_witness:
  "bal_of (data (reverseTransfer (trf_id 5) demo_pending)) ''acc-1'' = \<lparr>total = 1000, available = 1000\<rparr> \<and>
   bal_of (data (reverseTransfer (trf_id 5) demo_pending)) ''acc-2'' = \<lparr>total = 0, available = 0\<rparr>"
proof -
  have "tr_from demo_transfer \<noteq> tr_to demo_transfer" by (simp add: demo_transfer_def)
  from reverseTransfer_restores_sender [OF demo_pending_find this]
  show ?thesis by (simp add: demo_pending_bal demo_transfer_def bal_shift_def zero_balance_def)
qed

theorem transfer_unknown_id_noop_witness:
  "postTransfer (trf_id 7) demo_pending = demo_pending \<and>
   reverseTransfer (trf_id 7) demo_pending = demo_pending"
proof -
  have "trf_id 7 \<notin> tr_id ` set (transfers (data demo_pending))"
    by (simp add: demo_pending_transfers demo_transfer_def trf_id_def digit_char_def)
  then show ?thesis by (rule transfer_unknown_id_noop)
qed

theorem transfer_run_balances_ok_witness:
  "balances_ok (data (transfer_run demo_client
     [CreatePending 5 ''acc-1'' ''acc-2'' 400, PostT (trf_id 5), ReverseT (trf_id 5)]))"
proof -
  have "balances_ok (data demo_client)"
    by (simp add: balances_ok_def demo_client_bal zero_balance_def)
  then show ?thesis by (rule transfer_run_balances_ok)
qed

theorem createPendingTransfer_notifications_witness:
  "get_or (notifications (data demo_pending)) ''acc-1'' [] = [msg_sent_pending 400 ''acc-2''] \<and>
   get_or (notifications (data demo_pending)) ''acc-2'' [] = [msg_incoming_pending 400 ''acc-1''] \<and>
   (\<exists>t c'. createPendingTransfer 5 ''acc-1'' ''acc-1'' 400 demo_client = (Inr t, c') \<and>
      get_or (notifications (data c')) ''acc-1'' [] = [msg_incoming_pending 400 ''acc-1''])"
proof -
  have n0: "get_or (notifications (data demo_client)) a [] = []" for a
    by (simp add: demo_client_def INITIAL_DATA_def get_or_def)
  have p1: "get_or (notifications (data demo_pending)) ''acc-1'' [] = [msg_sent_pending 400 ''acc-2'']"
    using createPendingTransfer_notifications [OF demo_pending_result, of "''acc-1''"] n0 by simp
  have p2: "get_or (notifications (data demo_pending)) ''acc-2'' [] = [msg_incoming_pending 400 ''acc-1'']"
    using createPendingTransfer_notifications [OF demo_pending_result, of "''acc-2''"] n0 by simp
  obtain t c' where r: "createPendingTransfer 5 ''acc-1'' ''acc-1'' 400 demo_client = (Inr t, c')"
    using createPendingTransfer_success_result [OF demo_client_guard, of 5 "''acc-1''"]
    by (metis prod.collapse)
  have "get_or (notifications (data c')) ''acc-1'' [] = [msg_incoming_pending 400 ''acc-1'']"
    using createPendingTransfer_notifications [OF r, of "''acc-1''"] n0 by simp
  with p1 p2 r show ?thesis by blast
qed

theorem settle_transfer_notifications_witness:
  "get_or (notifications (data (postTransfer (trf_id 5) demo_pending))) ''acc-2'' [] =
     [msg_incoming_pending 400 ''acc-1'', msg_transfer_available 400 ''acc-1''] \<and>
   get_or (notifications (data (reverseTransfer (trf_id 5) demo_pending))) ''acc-1'' [] =
     [msg_sent_pending 400 ''acc-2'', msg_transfer_reversed 400 ''acc-2'']"
proof -
  have n0: "get_or (notifications (data demo_client)) a [] = []" for a
    by (simp add: demo_client_def INITIAL_DATA_def get_or_def)
  have n1: "get_or (notifications (data demo_pending)) a [] =
      (if a = ''acc-2'' then [msg_incoming_pending 400 ''acc-1'']
       else if a = ''acc-1'' then [msg_sent_pending 400 ''acc-2''] else [])" for a
    unfolding demo_pending_def
    by (simp add: createPendingTransfer_success_data [OF demo_client_guard] appended_def n0)
  from settle_transfer_notifications [OF demo_pending_find, of "''acc-2''"]
       settle_transfer_notifications [OF demo_pending_find, of "''acc-1''"] n1
  show ?thesis by (simp add: demo_transfer_def)
qed

end
