(* ===== verification/Backend.thy ===== *)
theory Backend
  imports Ledger
begin

text \<open>
  The remote ledger service and its client \<^verbatim>\<open>src/lib/api.ts\<close>. The service behind
  \<open>API_BASE_URL\<close> is not part of the repository: its endpoints are modelled from the
  specification (sections 4.2, 6 and 7) as functions on a server state that holds the
  transaction list, a counter for fresh ids and whether the service is reachable. A
  response that is not \<open>ok\<close> makes every client function throw; a thrown error is an
  \<open>Inl\<close> value. The client functions of \<^verbatim>\<open>api.ts\<close> are modelled from their code:
  each issues one request; \<open>getAllBalances\<close> fetches the transactions, collects the
  distinct account ids in first-seen order (\<open>[...new Set(...)]\<close>) and computes each
  account's balance from its ledger with \<open>calculateBalanceFromLedger\<close>.
\<close>

subsection \<open>The service (modelled from the specification)\<close>

datatype api_error = InvalidAmount | NotFound | AlreadyReversed | Transport

record server =
  srv_transactions :: "transaction list"
  srv_next :: nat
  srv_up :: bool

definition srv_tx_id :: "nat \<Rightarrow> entry_id" where
  "srv_tx_id n = ''tx-'' @ string_of_nat n"

text \<open>\<open>POST /nip/credit\<close>: a positive amount creates a pending transaction with a fresh id.\<close>

definition srv_credit ::
  "millis \<Rightarrow> account_id \<Rightarrow> amount \<Rightarrow> server \<Rightarrow> (api_error + transaction) \<times> server" where
  "srv_credit now a x s =
     (if \<not> srv_up s then (Inl Transport, s)
      else if x \<le> 0 then (Inl InvalidAmount, s)
      else (let t = \<lparr>tx_id = srv_tx_id (srv_next s), tx_accountId = a, tx_amount = x,
                     tx_status = Pending, tx_timestamp = now\<rparr>
            in (Inr t, s\<lparr>srv_transactions := srv_transactions s @ [t],
                          srv_next := Suc (srv_next s)\<rparr>)))"

text \<open>\<open>POST /post/{id}\<close> and \<open>POST /reverse/{id}\<close>: an unknown id is \<open>NotFound\<close>, a
  reversed transaction admits no further transition (\<open>AlreadyReversed\<close>); otherwise the
  status is set and the updated transaction returned.\<close>

definition srv_transition ::
  "status \<Rightarrow> entry_id \<Rightarrow> server \<Rightarrow> (api_error + transaction) \<times> server" where
  "srv_transition st i s =
     (if \<not> srv_up s then (Inl Transport, s)
      else case find (\<lambda>t. tx_id t = i) (srv_transactions s) of
        None \<Rightarrow> (Inl NotFound, s)
      | Some t \<Rightarrow>
          (if tx_status t = Reversed then (Inl AlreadyReversed, s)
           else (Inr (t\<lparr>tx_status := st\<rparr>),
                 s\<lparr>srv_transactions := map (\<lambda>u. if tx_id u = i then u\<lparr>tx_status := st\<rparr> else u)
                                          (srv_transactions s)\<rparr>)))"

text \<open>\<open>GET /ledger/{accountId}\<close>: the account's transactions as ledger entries, with the
  status as its string.\<close>

definition entry_of_transaction :: "transaction \<Rightarrow> ledger_entry" where
  "entry_of_transaction t =
     \<lparr>le_id = tx_id t, le_accountId = tx_accountId t, le_amount = tx_amount t,
      le_type = ''CREDIT'', le_status = status_str (tx_status t), le_timestamp = tx_timestamp t\<rparr>"

definition srv_ledger :: "server \<Rightarrow> account_id \<Rightarrow> ledger_entry list" where
  "srv_ledger s a = map entry_of_transaction (filter (\<lambda>t. tx_accountId t = a) (srv_transactions s))"

subsection \<open>The client functions of api.ts\<close>

definition createCredit ::
  "millis \<Rightarrow> account_id \<Rightarrow> amount \<Rightarrow> server \<Rightarrow> (api_error + transaction) \<times> server" where
  "createCredit now accountId amount s = srv_credit now accountId amount s"

definition api_postTransaction :: "entry_id \<Rightarrow> server \<Rightarrow> (api_error + transaction) \<times> server" where
  "api_postTransaction txtId s = srv_transition Posted txtId s"

definition api_reverseTransaction :: "entry_id \<Rightarrow> server \<Rightarrow> (api_error + transaction) \<times> server" where
  "api_reverseTransaction txtId s = srv_transition Reversed txtId s"

text \<open>\<open>markAsProvisional\<close> (\<open>POST /provisional/{txtId}\<close>). The specification does not
  define this endpoint; following the client's comment (\<open>Mark transaction as provisional
  (pending)\<close>) it is the transition to pending, refused for a reversed transaction like the
  other two. No page calls it.\<close>

definition api_markAsProvisional :: "entry_id \<Rightarrow> server \<Rightarrow> (api_error + transaction) \<times> server" where
  "api_markAsProvisional txtId s = srv_transition Pending txtId s"

definition getAllTransactions :: "server \<Rightarrow> api_error + transaction list" where
  "getAllTransactions s = (if srv_up s then Inr (srv_transactions s) else Inl Transport)"

definition getAccountLedger :: "account_id \<Rightarrow> server \<Rightarrow> api_error + ledger_entry list" where
  "getAccountLedger accountId s = (if srv_up s then Inr (srv_ledger s accountId) else Inl Transport)"

text \<open>\<open>[...new Set(xs)]\<close>: the distinct elements in the order of their first occurrence.\<close>

definition set_spread :: "'a list \<Rightarrow> 'a list" where
  "set_spread xs = foldl (\<lambda>acc x. if x \<in> set acc then acc else acc @ [x]) [] xs"

text \<open>The \<open>for ... of accountIds\<close> loop of \<open>getAllBalances\<close>: one ledger request per
  account, stopping at the first failure.\<close>

fun balances_loop ::
  "server \<Rightarrow> account_id list \<Rightarrow> (account_id \<rightharpoonup> balance) \<Rightarrow> api_error + (account_id \<rightharpoonup> balance)" where
  "balances_loop s [] balances = Inr balances"
| "balances_loop s (accountId # rest) balances =
     (case getAccountLedger accountId s of
        Inl e \<Rightarrow> Inl e
      | Inr ledger \<Rightarrow> balances_loop s rest (balances(accountId \<mapsto> calculateBalanceFromLedger ledger)))"

definition getAllBalances :: "server \<Rightarrow> api_error + (account_id \<rightharpoonup> balance)" where
  "getAllBalances s =
     (case getAllTransactions s of
        Inl e \<Rightarrow> Inl e
      | Inr transactions \<Rightarrow> balances_loop s (set_spread (map tx_accountId transactions)) Map.empty)"

text \<open>Well-formedness of the service state: ids are distinct, and each was issued from the
  counter before its current value, so the next id is fresh.\<close>

definition srv_wf :: "server \<Rightarrow> bool" where
  "srv_wf s \<longleftrightarrow> distinct (map tx_id (srv_transactions s)) \<and>
                (\<forall>t \<in> set (srv_transactions s). \<exists>n < srv_next s. tx_id t = srv_tx_id n)"

subsection \<open>Lemmas\<close>

lemma set_foldl_spread:
  "set (foldl (\<lambda>acc x. if x \<in> set acc then acc else acc @ [x]) acc xs) = set acc \<union> set xs"
  by (induction xs arbitrary: acc) auto

lemma distinct_foldl_spread:
  "distinct acc \<Longrightarrow> distinct (foldl (\<lambda>acc x. if x \<in> set acc then acc else acc @ [x]) acc xs)"
  by (induction xs arbitrary: acc) auto

lemma set_spread_set [simp]: "set (set_spread xs) = set xs"
  by (simp add: set_spread_def set_foldl_spread)

lemma set_spread_distinct: "distinct (set_spread xs)"
  by (simp add: set_spread_def distinct_foldl_spread)

lemma balances_loop_up:
  "srv_up s \<Longrightarrow>
   balances_loop s as m = Inr (\<lambda>a. if a \<in> set as then Some (calculateBalanceFromLedger (srv_ledger s a)) else m a)"
proof (induction as arbitrary: m)
  case Nil
  then show ?case by simp
next
  case (Cons b as)
  then show ?case by (auto simp: getAccountLedger_def fun_eq_iff)
qed

lemma balances_loop_down: "\<not> srv_up s \<Longrightarrow> as \<noteq> [] \<Longrightarrow> balances_loop s as m = Inl Transport"
  by (cases as) (simp_all add: getAccountLedger_def)

lemma srv_ledger_absent:
  "a \<notin> tx_accountId ` set (srv_transactions s) \<Longrightarrow> srv_ledger s a = []"
  by (auto simp: srv_ledger_def filter_empty_conv)

text \<open>With the service reachable, \<open>getAllBalances\<close> yields the ledger balance of every
  account that has a transaction and nothing for the others; since an empty ledger gives
  the zero balance, reading it with the default gives the ledger balance of every account.\<close>

lemma getAllBalances_up:
  "srv_up s \<Longrightarrow>
   getAllBalances s = Inr (\<lambda>a. if a \<in> tx_accountId ` set (srv_transactions s)
                               then Some (calculateBalanceFromLedger (srv_ledger s a)) else None)"
  by (simp add: getAllBalances_def getAllTransactions_def balances_loop_up)

lemma getAllBalances_down: "\<not> srv_up s \<Longrightarrow> getAllBalances s = Inl Transport"
  by (simp add: getAllBalances_def getAllTransactions_def)

lemma get_or_getAllBalances:
  "srv_up s \<Longrightarrow> getAllBalances s = Inr bals \<Longrightarrow>
   get_or bals a zero_balance = calculateBalanceFromLedger (srv_ledger s a)"
  by (auto simp: getAllBalances_up get_or_def srv_ledger_absent)

text \<open>The balance of a ledger split around one entry, and the effect of replacing that
  entry: the shared step of every status transition.\<close>

lemma calculateBalanceFromLedger_mid:
  "calculateBalanceFromLedger (xs @ e # ys) =
     bal_add (bal_add (calculateBalanceFromLedger xs) (ledger_step zero_balance e))
       (calculateBalanceFromLedger ys)"
proof -
  have "calculateBalanceFromLedger (xs @ e # ys) =
        foldl ledger_step (ledger_step (calculateBalanceFromLedger xs) e) ys"
    by (simp add: calculateBalanceFromLedger_def)
  also have "\<dots> = bal_add (ledger_step (calculateBalanceFromLedger xs) e) (calculateBalanceFromLedger ys)"
    unfolding calculateBalanceFromLedger_def by (rule foldl_ledger_step)
  finally show ?thesis
    using ledger_step_bal_add [of "calculateBalanceFromLedger xs" e] by simp
qed

lemma calculateBalanceFromLedger_replace:
  "total (calculateBalanceFromLedger (xs @ e' # ys)) =
     total (calculateBalanceFromLedger (xs @ e # ys))
       - total (ledger_step zero_balance e) + total (ledger_step zero_balance e')"
  "available (calculateBalanceFromLedger (xs @ e' # ys)) =
     available (calculateBalanceFromLedger (xs @ e # ys))
       - available (ledger_step zero_balance e) + available (ledger_step zero_balance e')"
  by (simp_all add: calculateBalanceFromLedger_mid bal_add_def)

lemma ledger_step_entry:
  "ledger_step zero_balance (entry_of_transaction t) =
     (case tx_status t of
        Posted \<Rightarrow> \<lparr>total = tx_amount t, available = tx_amount t\<rparr>
      | Pending \<Rightarrow> \<lparr>total = tx_amount t, available = 0\<rparr>
      | Reversed \<Rightarrow> zero_balance)"
  by (cases "tx_status t") (simp_all add: ledger_step_def entry_of_transaction_def zero_balance_def)

text \<open>A successful transition changes one transaction, at its place in the list.\<close>

lemma srv_transition_Inr:
  assumes "srv_transition st i s = (Inr t', s')"
  obtains t where "srv_up s" and "find (\<lambda>t. tx_id t = i) (srv_transactions s) = Some t"
    and "tx_status t \<noteq> Reversed" and "t' = t\<lparr>tx_status := st\<rparr>"
    and "s' = s\<lparr>srv_transactions := map (\<lambda>u. if tx_id u = i then u\<lparr>tx_status := st\<rparr> else u)
                                        (srv_transactions s)\<rparr>"
proof (cases "srv_up s")
  case False
  with assms show ?thesis by (simp add: srv_transition_def)
next
  case up: True
  show ?thesis
  proof (cases "find (\<lambda>t. tx_id t = i) (srv_transactions s)")
    case None
    with up assms show ?thesis by (simp add: srv_transition_def)
  next
    case (Some t)
    with up assms that show ?thesis by (cases "tx_status t = Reversed") (simp_all add: srv_transition_def)
  qed
qed

lemma srv_ledger_transition:
  assumes "distinct (map tx_id (srv_transactions s))"
    and "find (\<lambda>t. tx_id t = i) (srv_transactions s) = Some t"
    and "s' = s\<lparr>srv_transactions := map (\<lambda>u. if tx_id u = i then u\<lparr>tx_status := st\<rparr> else u)
                                        (srv_transactions s)\<rparr>"
  shows "a \<noteq> tx_accountId t \<Longrightarrow> srv_ledger s' a = srv_ledger s a"
    and "\<exists>xs ys. srv_ledger s (tx_accountId t) = xs @ entry_of_transaction t # ys \<and>
           srv_ledger s' (tx_accountId t) = xs @ entry_of_transaction (t\<lparr>tx_status := st\<rparr>) # ys"
proof -
  obtain ys zs where sp: "srv_transactions s = ys @ t # zs"
    and "i \<notin> tx_id ` set ys" and "i \<notin> tx_id ` set zs"
    and mp: "map (\<lambda>u. if tx_id u = i then u\<lparr>tx_status := st\<rparr> else u) (srv_transactions s) =
             ys @ t\<lparr>tx_status := st\<rparr> # zs"
    by (rule map_keyed_distinct_split [OF assms(1,2), where f = "\<lambda>u. u\<lparr>tx_status := st\<rparr>"])
  have s': "srv_transactions s' = ys @ t\<lparr>tx_status := st\<rparr> # zs"
    using assms(3) mp by simp
  show "a \<noteq> tx_accountId t \<Longrightarrow> srv_ledger s' a = srv_ledger s a"
    unfolding srv_ledger_def s' sp by simp
  show "\<exists>xs ys. srv_ledger s (tx_accountId t) = xs @ entry_of_transaction t # ys \<and>
           srv_ledger s' (tx_accountId t) = xs @ entry_of_transaction (t\<lparr>tx_status := st\<rparr>) # ys"
    unfolding srv_ledger_def s' sp by (simp, blast)
qed


lemma calculateBalanceFromLedger_snoc:
  "calculateBalanceFromLedger (xs @ [e]) =
     bal_add (calculateBalanceFromLedger xs) (ledger_step zero_balance e)"
  using calculateBalanceFromLedger_mid [of xs e "[]"] by simp

lemma srv_ledger_credit:
  "srv_ledger (s\<lparr>srv_transactions := srv_transactions s @ [t], srv_next := n\<rparr>) b =
     srv_ledger s b @ (if tx_accountId t = b then [entry_of_transaction t] else [])"
  by (simp add: srv_ledger_def)

lemma srv_transition_ok:
  "srv_up s \<Longrightarrow> find (\<lambda>t. tx_id t = i) (srv_transactions s) = Some t \<Longrightarrow> tx_status t \<noteq> Reversed \<Longrightarrow>
   srv_transition st i s =
     (Inr (t\<lparr>tx_status := st\<rparr>),
      s\<lparr>srv_transactions := map (\<lambda>u. if tx_id u = i then u\<lparr>tx_status := st\<rparr> else u)
                                 (srv_transactions s)\<rparr>)"
  by (simp add: srv_transition_def)


lemma createCredit_down: "\<not> srv_up s \<Longrightarrow> createCredit now a x s = (Inl Transport, s)"
  by (simp add: createCredit_def srv_credit_def)

lemma createCredit_invalid: "srv_up s \<Longrightarrow> x \<le> 0 \<Longrightarrow> createCredit now a x s = (Inl InvalidAmount, s)"
  by (simp add: createCredit_def srv_credit_def)

lemma createCredit_ok:
  "srv_up s \<Longrightarrow> 0 < x \<Longrightarrow>
   createCredit now a x s =
     (Inr \<lparr>tx_id = srv_tx_id (srv_next s), tx_accountId = a, tx_amount = x,
           tx_status = Pending, tx_timestamp = now\<rparr>,
      s\<lparr>srv_transactions := srv_transactions s @
           [\<lparr>tx_id = srv_tx_id (srv_next s), tx_accountId = a, tx_amount = x,
             tx_status = Pending, tx_timestamp = now\<rparr>],
        srv_next := Suc (srv_next s)\<rparr>)"
  by (simp add: createCredit_def srv_credit_def Let_def)

lemma srv_tx_id_inj: "srv_tx_id m = srv_tx_id n \<longleftrightarrow> m = n"
  by (simp add: srv_tx_id_def string_of_nat_inj)

lemma tx_id_status_update [simp]:
  "tx_id \<circ> (\<lambda>u. if tx_id u = i then u\<lparr>tx_status := st\<rparr> else u) = tx_id"
  by (rule ext) simp

lemma set_status_update_ids:
  "t \<in> set (map (\<lambda>u. if tx_id u = i then u\<lparr>tx_status := st\<rparr> else u) xs) \<Longrightarrow>
   \<exists>u \<in> set xs. tx_id t = tx_id u"
  by (induction xs) auto

lemma srv_wf_credit: "srv_wf s \<Longrightarrow> srv_wf (snd (srv_credit now a x s))"
  by (auto simp: srv_wf_def srv_credit_def Let_def srv_tx_id_inj less_Suc_eq)

lemma srv_wf_transition: "srv_wf s \<Longrightarrow> srv_wf (snd (srv_transition st i s))"
  unfolding srv_wf_def srv_transition_def
  by (auto split: option.splits dest!: set_status_update_ids)

text \<open>Under that reading, marking a posted transaction provisional moves it back to pending:
  its amount leaves the available balance again while staying in the total.\<close>

lemma api_markAsProvisional_posted:
  assumes "srv_up s" and "find (\<lambda>t. tx_id t = i) (srv_transactions s) = Some t" and "tx_status t = Posted"
  shows "api_markAsProvisional i s =
           (Inr (t\<lparr>tx_status := Pending\<rparr>),
            s\<lparr>srv_transactions := map (\<lambda>u. if tx_id u = i then u\<lparr>tx_status := Pending\<rparr> else u)
                                     (srv_transactions s)\<rparr>)"
  using assms by (simp add: api_markAsProvisional_def srv_transition_def)

lemma srv_wf_markAsProvisional: "srv_wf s \<Longrightarrow> srv_wf (snd (api_markAsProvisional i s))"
  by (simp add: api_markAsProvisional_def srv_wf_transition)

subsection \<open>Properties of the service\<close>

text \<open>On the service a reversed transaction is terminal: posting or reversing it
  again is refused with \<open>AlreadyReversed\<close> and changes nothing, while a transaction that
  is not reversed can be posted or reversed.\<close>

theorem api_reversed_terminal:
  assumes "srv_up s" and "find (\<lambda>t. tx_id t = i) (srv_transactions s) = Some t"
  shows "(tx_status t = Reversed \<longrightarrow>
            api_postTransaction i s = (Inl AlreadyReversed, s) \<and>
            api_reverseTransaction i s = (Inl AlreadyReversed, s)) \<and>
         (tx_status t \<noteq> Reversed \<longrightarrow>
            (\<exists>s'. api_postTransaction i s = (Inr (t\<lparr>tx_status := Posted\<rparr>), s')) \<and>
            (\<exists>s'. api_reverseTransaction i s = (Inr (t\<lparr>tx_status := Reversed\<rparr>), s')))"
  using assms by (simp add: api_postTransaction_def api_reverseTransaction_def srv_transition_def)

text \<open>Witness, on a service with one reversed transaction.\<close>

theorem api_reversed_terminal_witness:
  "api_postTransaction ''tx-0''
     \<lparr>srv_transactions = [\<lparr>tx_id = ''tx-0'', tx_accountId = ''acc-1'', tx_amount = 7,
                           tx_status = Reversed, tx_timestamp = 0\<rparr>],
      srv_next = 1, srv_up = True\<rparr> =
   (Inl AlreadyReversed,
    \<lparr>srv_transactions = [\<lparr>tx_id = ''tx-0'', tx_accountId = ''acc-1'', tx_amount = 7,
                          tx_status = Reversed, tx_timestamp = 0\<rparr>],
     srv_next = 1, srv_up = True\<rparr>)"
proof -
  define s where "s = \<lparr>srv_transactions = [\<lparr>tx_id = ''tx-0'', tx_accountId = ''acc-1'', tx_amount = 7,
                                         tx_status = Reversed, tx_timestamp = 0\<rparr>],
                    srv_next = 1, srv_up = True\<rparr>"
  have "srv_up s" "find (\<lambda>t. tx_id t = ''tx-0'') (srv_transactions s) =
      Some \<lparr>tx_id = ''tx-0'', tx_accountId = ''acc-1'', tx_amount = 7, tx_status = Reversed, tx_timestamp = 0\<rparr>"
    by (simp_all add: s_def)
  from api_reversed_terminal [OF this] have "api_postTransaction ''tx-0'' s = (Inl AlreadyReversed, s)"
    by simp
  then show ?thesis by (simp only: s_def)
qed

end
