(* ===== verification/Storage.thy ===== *)
theory Storage
  imports Transfers Backend
begin

text \<open>
  The glue of \<^verbatim>\<open>src/hooks/use-shadow-storage.ts\<close> between the hook's state, the
  browser's \<open>localStorage\<close> and the remote service: \<open>loadData\<close>, the mount of a fresh
  hook instance (every page calls \<open>useShadowStorage()\<close> and loads on mount), and the
  three asynchronous transaction operations. Each transaction operation calls the service
  first; a thrown error leaves the hook's state alone and is rethrown (\<open>Inl\<close>). On
  success it appends a notification, saves, and reloads everything from the service. The
  state of the whole system is the pair of the service's state and the hook instance's.
\<close>

subsection \<open>Loading\<close>

text \<open>\<open>loadData\<close>: transactions and balances come from the service, transfers and
  notifications from \<open>localStorage\<close> (\<open>JSON.parse(... || "[]")\<close>); any failure
  replaces the whole state by \<open>INITIAL_DATA\<close>. Either way \<open>isLoaded\<close> becomes true.\<close>

definition loadData :: "server \<Rightarrow> client \<Rightarrow> client" where
  "loadData s c =
     (case getAllTransactions s of
        Inl _ \<Rightarrow> c\<lparr>data := INITIAL_DATA, isLoaded := True\<rparr>
      | Inr txs \<Rightarrow>
          (case getAllBalances s of
             Inl _ \<Rightarrow> c\<lparr>data := INITIAL_DATA, isLoaded := True\<rparr>
           | Inr bals \<Rightarrow>
               c\<lparr>data := \<lparr>transactions = txs, balances = bals,
                   transfers = (case ls_transfers (store c) of None \<Rightarrow> [] | Some ts \<Rightarrow> ts),
                   notifications = (case ls_notifications (store c) of
                                      None \<Rightarrow> notifications INITIAL_DATA | Some ns \<Rightarrow> ns)\<rparr>,
                 isLoaded := True\<rparr>))"

text \<open>A page mounts: a fresh instance starts from \<open>INITIAL_DATA\<close>, not loaded, over the
  browser's \<open>localStorage\<close>, and its effect calls \<open>loadData\<close>.\<close>

definition mount :: "server \<Rightarrow> local_storage \<Rightarrow> client" where
  "mount s ls = loadData s \<lparr>data = INITIAL_DATA, isLoaded = False, store = ls\<rparr>"

subsection \<open>Transaction operations\<close>

text \<open>Each operation is a \<open>useCallback\<close> closing over the \<open>data\<close> of the render that
  created it (its dependency list is \<open>[data, saveLocalData, loadData]\<close>): \<open>d\<close> below is that
  captured snapshot, read after the service's answer; \<open>c\<close> is the instance as it is when
  the answer arrives.\<close>

definition createTransaction_with ::
  "shadow_data \<Rightarrow> millis \<Rightarrow> account_id \<Rightarrow> amount \<Rightarrow> server \<times> client \<Rightarrow>
   (api_error + transaction) \<times> (server \<times> client)" where
  "createTransaction_with d now accountId amount sc =
     (let (s, c) = sc
      in case createCredit now accountId amount s of
           (Inl e, s') \<Rightarrow> (Inl e, (s', c))
         | (Inr transaction, s') \<Rightarrow>
             (let newData = d\<lparr>transactions := transactions d @ [transaction],
                    notifications := (notifications d)
                      (accountId \<mapsto> appended (notifications d) accountId
                         (msg_deposit_confirming amount))\<rparr>
              in (Inr transaction, (s', loadData s' (saveLocalData newData c)))))"

definition postTransaction_with ::
  "shadow_data \<Rightarrow> entry_id \<Rightarrow> server \<times> client \<Rightarrow> (api_error + unit) \<times> (server \<times> client)" where
  "postTransaction_with d transactionId sc =
     (let (s, c) = sc
      in case api_postTransaction transactionId s of
           (Inl e, s') \<Rightarrow> (Inl e, (s', c))
         | (Inr updatedTransaction, s') \<Rightarrow>
             (case find (\<lambda>t. tx_id t = transactionId) (transactions d) of
                   None \<Rightarrow> (Inr (), (s', c))
                 | Some transaction \<Rightarrow>
                     (let newData = d\<lparr>
                            transactions := map (\<lambda>t. if tx_id t = transactionId
                                                      then updatedTransaction else t) (transactions d),
                            notifications := (notifications d)
                              (tx_accountId transaction \<mapsto>
                                 appended (notifications d) (tx_accountId transaction)
                                   (msg_deposit_available (tx_amount transaction)))\<rparr>
                      in (Inr (), (s', loadData s' (saveLocalData newData c))))))"

definition reverseTransaction_with ::
  "shadow_data \<Rightarrow> entry_id \<Rightarrow> server \<times> client \<Rightarrow> (api_error + unit) \<times> (server \<times> client)" where
  "reverseTransaction_with d transactionId sc =
     (let (s, c) = sc
      in case api_reverseTransaction transactionId s of
           (Inl e, s') \<Rightarrow> (Inl e, (s', c))
         | (Inr updatedTransaction, s') \<Rightarrow>
             (case find (\<lambda>t. tx_id t = transactionId) (transactions d) of
                   None \<Rightarrow> (Inr (), (s', c))
                 | Some transaction \<Rightarrow>
                     (let newData = d\<lparr>
                            transactions := map (\<lambda>t. if tx_id t = transactionId
                                                      then updatedTransaction else t) (transactions d),
                            notifications := (notifications d)
                              (tx_accountId transaction \<mapsto>
                                 appended (notifications d) (tx_accountId transaction)
                                   (msg_deposit_reversed (tx_amount transaction)))\<rparr>
                      in (Inr (), (s', loadData s' (saveLocalData newData c))))))"

text \<open>Called from the current render, the closure sees the instance's current data.\<close>

definition createTransaction ::
  "millis \<Rightarrow> account_id \<Rightarrow> amount \<Rightarrow> server \<times> client \<Rightarrow>
   (api_error + transaction) \<times> (server \<times> client)" where
  "createTransaction now accountId amount sc =
     createTransaction_with (data (snd sc)) now accountId amount sc"

definition postTransaction ::
  "entry_id \<Rightarrow> server \<times> client \<Rightarrow> (api_error + unit) \<times> (server \<times> client)" where
  "postTransaction transactionId sc = postTransaction_with (data (snd sc)) transactionId sc"

definition reverseTransaction ::
  "entry_id \<Rightarrow> server \<times> client \<Rightarrow> (api_error + unit) \<times> (server \<times> client)" where
  "reverseTransaction transactionId sc = reverseTransaction_with (data (snd sc)) transactionId sc"

subsection \<open>Scenario states\<close>

text \<open>A reachable service holding one posted credit of 1000 for \<open>acc-1\<close>, and a
  browser whose \<open>localStorage\<close> is empty.\<close>

definition demo_server :: server where
  "demo_server =
     \<lparr>srv_transactions = [\<lparr>tx_id = ''tx-0'', tx_accountId = ''acc-1'', tx_amount = 1000,
                            tx_status = Posted, tx_timestamp = 0\<rparr>],
      srv_next = 1, srv_up = True\<rparr>"

definition empty_store :: local_storage where
  "empty_store = \<lparr>ls_transfers = None, ls_notifications = None\<rparr>"

text \<open>The same service after a second, still pending, credit of 500 for \<open>acc-1\<close>.\<close>

definition demo_server2 :: server where
  "demo_server2 =
     \<lparr>srv_transactions = [\<lparr>tx_id = ''tx-0'', tx_accountId = ''acc-1'', tx_amount = 1000,
                            tx_status = Posted, tx_timestamp = 0\<rparr>,
                          \<lparr>tx_id = ''tx-1'', tx_accountId = ''acc-1'', tx_amount = 500,
                            tx_status = Pending, tx_timestamp = 0\<rparr>],
      srv_next = 2, srv_up = True\<rparr>"

subsection \<open>Lemmas\<close>

lemma loadData_up:
  "srv_up s \<Longrightarrow> data (loadData s c) =
     \<lparr>transactions = srv_transactions s,
      balances = (\<lambda>a. if a \<in> tx_accountId ` set (srv_transactions s)
                      then Some (calculateBalanceFromLedger (srv_ledger s a)) else None),
      transfers = (case ls_transfers (store c) of None \<Rightarrow> [] | Some ts \<Rightarrow> ts),
      notifications = (case ls_notifications (store c) of
                         None \<Rightarrow> notifications INITIAL_DATA | Some ns \<Rightarrow> ns)\<rparr>"
  by (simp add: loadData_def getAllTransactions_def getAllBalances_up)

lemma loadData_down: "\<not> srv_up s \<Longrightarrow> data (loadData s c) = INITIAL_DATA"
  by (simp add: loadData_def getAllTransactions_def)

lemma loadData_store [simp]: "store (loadData s c) = store c"
  and loadData_isLoaded [simp]: "isLoaded (loadData s c) = True"
  by (simp_all add: loadData_def split: sum.splits)

lemma bal_of_loadData_up:
  "srv_up s \<Longrightarrow> bal_of (data (loadData s c)) a = calculateBalanceFromLedger (srv_ledger s a)"
  by (auto simp: loadData_up bal_of_def get_or_def srv_ledger_absent)

lemma transfers_loadData_up:
  "srv_up s \<Longrightarrow> ls_transfers (store c) = Some ts \<Longrightarrow> transfers (data (loadData s c)) = ts"
  by (simp add: loadData_up)

lemma createPendingTransfer_Inr:
  assumes "createPendingTransfer now from to x c = (Inr t, c')"
  shows "\<not> available (bal_of (data c) from) < x \<and>
         t = \<lparr>tr_id = trf_id now, tr_from = from, tr_to = to, tr_amount = x,
              tr_type = ''TRANSFER'', tr_status = Pending, tr_timestamp = now\<rparr> \<and>
         c' = snd (createPendingTransfer now from to x c)"
proof -
  have ok: "\<not> available (bal_of (data c) from) < x"
    using assms createPendingTransfer_insufficient by fastforce
  have "fst (createPendingTransfer now from to x c) = Inr t" using assms by simp
  with createPendingTransfer_success_result [OF ok, of now to] ok assms show ?thesis by simp
qed

lemma createPendingTransfer_transfers:
  assumes "createPendingTransfer now from to x c = (Inr t, c')"
  shows "transfers (data c') = transfers (data c) @ [t] \<and>
         ls_transfers (store c') = Some (transfers (data c) @ [t])"
  using createPendingTransfer_Inr [OF assms]
  by (simp add: createPendingTransfer_def bal_of_def Let_def)

lemma createPendingTransfer_ok_exists:
  "\<not> available (bal_of (data c) from) < x \<Longrightarrow>
   \<exists>t c'. createPendingTransfer now from to x c = (Inr t, c')"
  using createPendingTransfer_success_result [of c "from" x now to] by (metis prod.collapse)

subsection \<open>Reloading and the transfer hold\<close>

text \<open>C14: a reload forgets the transfer hold. After a successful
  \<open>createPendingTransfer\<close>, the next \<open>loadData\<close> (run on every page mount and after every
  transaction operation) keeps the new transfer, read back from \<open>localStorage\<close>, but sets
  every account's balance to the one its service ledger gives: the sender's debit is gone.\<close>

theorem reload_forgets_hold:
  assumes "createPendingTransfer now from to x c = (Inr t, c')" and "srv_up s"
  shows "t \<in> set (transfers (data (loadData s c'))) \<and>
         (\<forall>a. bal_of (data (loadData s c')) a = calculateBalanceFromLedger (srv_ledger s a))"
proof -
  have "ls_transfers (store c') = Some (transfers (data c) @ [t])"
    using createPendingTransfer_transfers [OF assms(1)] by simp
  with assms(2) show ?thesis by (simp add: transfers_loadData_up bal_of_loadData_up)
qed

text \<open>C13: because of this, funds can be spent twice: when the sender's ledger has at
  least \<open>x\<close> available, a pending transfer of \<open>x\<close> succeeds, and after the page is
  mounted again a second pending transfer of \<open>x\<close> succeeds too; both are kept.\<close>

theorem reload_allows_double_spend:
  assumes "srv_up s" and "x \<le> available (calculateBalanceFromLedger (srv_ledger s a))"
  shows "\<exists>t1 c1 t2 c2.
           createPendingTransfer n1 a b x (mount s st) = (Inr t1, c1) \<and>
           createPendingTransfer n2 a b x (mount s (store c1)) = (Inr t2, c2) \<and>
           transfers (data c2) =
             (case ls_transfers st of None \<Rightarrow> [] | Some ts \<Rightarrow> ts) @ [t1, t2]"
proof -
  have g: "\<not> available (bal_of (data (mount s ls)) a) < x" for ls
    using assms by (simp add: mount_def bal_of_loadData_up)
  obtain t1 c1 where r1: "createPendingTransfer n1 a b x (mount s st) = (Inr t1, c1)"
    using createPendingTransfer_ok_exists [OF g] by blast
  obtain t2 c2 where r2: "createPendingTransfer n2 a b x (mount s (store c1)) = (Inr t2, c2)"
    using createPendingTransfer_ok_exists [OF g] by blast
  have "transfers (data (mount s st)) = (case ls_transfers st of None \<Rightarrow> [] | Some ts \<Rightarrow> ts)"
    using assms(1) by (simp add: mount_def loadData_up)
  moreover have "transfers (data (mount s (store c1))) = transfers (data (mount s st)) @ [t1]"
    using assms(1) createPendingTransfer_transfers [OF r1] by (simp add: mount_def loadData_up)
  moreover have "transfers (data c2) = transfers (data (mount s (store c1))) @ [t2]"
    using createPendingTransfer_transfers [OF r2] by simp
  ultimately show ?thesis using r1 r2 by auto
qed
lemma demo_server_ledger:
  "calculateBalanceFromLedger (srv_ledger demo_server a) =
     (if a = ''acc-1'' then \<lparr>total = 1000, available = 1000\<rparr> else zero_balance)"
  by (simp add: demo_server_def srv_ledger_def entry_of_transaction_def calculateBalanceFromLedger_def
      ledger_step_def zero_balance_def)

lemma demo_server_up: "srv_up demo_server"
  by (simp add: demo_server_def)

lemma demo_mount_bal:
  "bal_of (data (mount demo_server st)) a =
     (if a = ''acc-1'' then \<lparr>total = 1000, available = 1000\<rparr> else zero_balance)"
  by (simp add: mount_def bal_of_loadData_up demo_server_up demo_server_ledger)

theorem reload_forgets_hold_witness:
  "demo_transfer \<in> set (transfers (data (loadData demo_server
      (snd (createPendingTransfer 5 ''acc-1'' ''acc-2'' 400 (mount demo_server empty_store)))))) \<and>
   bal_of (data (snd (createPendingTransfer 5 ''acc-1'' ''acc-2'' 400 (mount demo_server empty_store))))
     ''acc-1'' = \<lparr>total = 600, available = 600\<rparr> \<and>
   bal_of (data (loadData demo_server
      (snd (createPendingTransfer 5 ''acc-1'' ''acc-2'' 400 (mount demo_server empty_store)))))
     ''acc-1'' = \<lparr>total = 1000, available = 1000\<rparr>"
proof -
  have g: "\<not> available (bal_of (data (mount demo_server empty_store)) ''acc-1'') < 400"
    by (simp add: demo_mount_bal)
  have r: "createPendingTransfer 5 ''acc-1'' ''acc-2'' 400 (mount demo_server empty_store) =
      (Inr demo_transfer, snd (createPendingTransfer 5 ''acc-1'' ''acc-2'' 400 (mount demo_server empty_store)))"
    using createPendingTransfer_success_result [OF g, of 5 "''acc-2''"]
    by (simp add: demo_transfer_def prod_eq_iff)
  note up = demo_server_up
  from reload_forgets_hold [OF r up] show ?thesis
    using createPendingTransfer_bal [OF g] by (simp add: demo_mount_bal demo_server_ledger bal_shift_def)
qed

theorem reload_allows_double_spend_witness:
  "total (calculateBalanceFromLedger (srv_ledger demo_server ''acc-1'')) = 1000 \<and>
   (\<exists>t1 c1 t2 c2.
      createPendingTransfer 5 ''acc-1'' ''acc-2'' 1000 (mount demo_server empty_store) = (Inr t1, c1) \<and>
      createPendingTransfer 6 ''acc-1'' ''acc-2'' 1000 (mount demo_server (store c1)) = (Inr t2, c2) \<and>
      transfers (data c2) = [t1, t2] \<and> tr_amount t1 + tr_amount t2 = 2000)"
proof -
  note up = demo_server_up
  have x: "(1000::int) \<le> available (calculateBalanceFromLedger (srv_ledger demo_server ''acc-1''))"
    by (simp add: demo_server_ledger)
  from reload_allows_double_spend [OF up x, of 5 "''acc-2''" empty_store 6]
  obtain t1 c1 t2 c2 where
    r1: "createPendingTransfer 5 ''acc-1'' ''acc-2'' 1000 (mount demo_server empty_store) = (Inr t1, c1)"
    and r2: "createPendingTransfer 6 ''acc-1'' ''acc-2'' 1000 (mount demo_server (store c1)) = (Inr t2, c2)"
    and ts: "transfers (data c2) = [t1, t2]"
    by (auto simp: empty_store_def)
  have "tr_amount t1 = 1000" "tr_amount t2 = 1000"
    using createPendingTransfer_Inr [OF r1] createPendingTransfer_Inr [OF r2] by simp_all
  with r1 r2 ts show ?thesis by (auto simp: demo_server_ledger)
qed


lemma transfers_loadData_empty:
  "ls_transfers (store c) = Some [] \<Longrightarrow> transfers (data (loadData s c)) = []"
  by (cases "srv_up s") (simp_all add: loadData_up loadData_down INITIAL_DATA_def)

lemma postTransaction_found:
  "api_postTransaction i s = (Inr t', s') \<Longrightarrow> find (\<lambda>t. tx_id t = i) (transactions (data c)) = Some u \<Longrightarrow>
   \<exists>c''. postTransaction i (s, c) = (Inr (), (s', loadData s' c''))"
  by (auto simp: postTransaction_def postTransaction_with_def Let_def)

lemma reverseTransaction_found:
  "api_reverseTransaction i s = (Inr t', s') \<Longrightarrow> find (\<lambda>t. tx_id t = i) (transactions (data c)) = Some u \<Longrightarrow>
   \<exists>c''. reverseTransaction i (s, c) = (Inr (), (s', loadData s' c''))"
  by (auto simp: reverseTransaction_def reverseTransaction_with_def Let_def)

text \<open>The balances a reload computes after one server-side status change of \<open>t\<close> from
  its old status to \<open>st\<close>: only the owner's balance moves, by the difference of the two
  ledger contributions.\<close>

lemma bal_of_after_transition:
  assumes "srv_up s" and "distinct (map tx_id (srv_transactions s))"
    and "find (\<lambda>t. tx_id t = i) (srv_transactions s) = Some t"
    and "s' = s\<lparr>srv_transactions := map (\<lambda>u. if tx_id u = i then u\<lparr>tx_status := st\<rparr> else u)
                                        (srv_transactions s)\<rparr>"
  shows "a \<noteq> tx_accountId t \<Longrightarrow>
           bal_of (data (loadData s' c)) a = calculateBalanceFromLedger (srv_ledger s a)"
    and "total (bal_of (data (loadData s' c)) (tx_accountId t)) =
           total (calculateBalanceFromLedger (srv_ledger s (tx_accountId t)))
           - total (ledger_step zero_balance (entry_of_transaction t))
           + total (ledger_step zero_balance (entry_of_transaction (t\<lparr>tx_status := st\<rparr>)))"
    and "available (bal_of (data (loadData s' c)) (tx_accountId t)) =
           available (calculateBalanceFromLedger (srv_ledger s (tx_accountId t)))
           - available (ledger_step zero_balance (entry_of_transaction t))
           + available (ledger_step zero_balance (entry_of_transaction (t\<lparr>tx_status := st\<rparr>)))"
proof -
  have up: "srv_up s'" using assms(1,4) by simp
  show "a \<noteq> tx_accountId t \<Longrightarrow>
          bal_of (data (loadData s' c)) a = calculateBalanceFromLedger (srv_ledger s a)"
    using srv_ledger_transition(1) [OF assms(2-4)] up by (simp add: bal_of_loadData_up)
  obtain xs ys where l: "srv_ledger s (tx_accountId t) = xs @ entry_of_transaction t # ys"
    and l': "srv_ledger s' (tx_accountId t) = xs @ entry_of_transaction (t\<lparr>tx_status := st\<rparr>) # ys"
    using srv_ledger_transition(2) [OF assms(2-4)] by blast
  show "total (bal_of (data (loadData s' c)) (tx_accountId t)) =
           total (calculateBalanceFromLedger (srv_ledger s (tx_accountId t)))
           - total (ledger_step zero_balance (entry_of_transaction t))
           + total (ledger_step zero_balance (entry_of_transaction (t\<lparr>tx_status := st\<rparr>)))"
    unfolding bal_of_loadData_up [OF up] l l' by (rule calculateBalanceFromLedger_replace(1))
  show "available (bal_of (data (loadData s' c)) (tx_accountId t)) =
           available (calculateBalanceFromLedger (srv_ledger s (tx_accountId t)))
           - available (ledger_step zero_balance (entry_of_transaction t))
           + available (ledger_step zero_balance (entry_of_transaction (t\<lparr>tx_status := st\<rparr>)))"
    unfolding bal_of_loadData_up [OF up] l l' by (rule calculateBalanceFromLedger_replace(2))
qed

subsection \<open>Deposits, posting and reversal\<close>

text \<open>C19: a positive deposit creates a pending transaction on the service; after the
  reload the account's total has grown by the amount and its available balance is unchanged,
  and every other account keeps its ledger balance.\<close>

theorem createTransaction_deposit_pending:
  assumes "srv_up s" and "0 < x"
  shows "\<exists>t s' c'. createTransaction now a x (s, c) = (Inr t, (s', c')) \<and>
           tx_status t = Pending \<and> tx_amount t = x \<and> tx_accountId t = a \<and>
           bal_of (data c') a =
             \<lparr>total = total (calculateBalanceFromLedger (srv_ledger s a)) + x,
              available = available (calculateBalanceFromLedger (srv_ledger s a))\<rparr> \<and>
           (\<forall>b. b \<noteq> a \<longrightarrow> bal_of (data c') b = calculateBalanceFromLedger (srv_ledger s b))"
  using assms
  by (simp add: createTransaction_def createTransaction_with_def createCredit_ok Let_def bal_of_loadData_up srv_ledger_credit
      calculateBalanceFromLedger_snoc ledger_step_entry bal_add_def)


text \<open>C20: posting a pending deposit on the service moves its amount into the account's
  available balance at the next reload, leaving the total and every other account alone
  (when the hook's list holds the transaction, which triggers the reload).\<close>

theorem postTransaction_makes_available:
  assumes "srv_up s" and "distinct (map tx_id (srv_transactions s))"
    and "find (\<lambda>t. tx_id t = i) (srv_transactions s) = Some t" and "tx_status t = Pending"
    and "find (\<lambda>t. tx_id t = i) (transactions (data c)) = Some u"
  shows "\<exists>s' c'. postTransaction i (s, c) = (Inr (), (s', c')) \<and>
           bal_of (data c') (tx_accountId t) =
             \<lparr>total = total (calculateBalanceFromLedger (srv_ledger s (tx_accountId t))),
              available = available (calculateBalanceFromLedger (srv_ledger s (tx_accountId t)))
                          + tx_amount t\<rparr> \<and>
           (\<forall>a. a \<noteq> tx_accountId t \<longrightarrow>
                bal_of (data c') a = calculateBalanceFromLedger (srv_ledger s a))"
proof -
  define s' where "s' = s\<lparr>srv_transactions := map (\<lambda>u. if tx_id u = i then u\<lparr>tx_status := Posted\<rparr> else u)
                                                 (srv_transactions s)\<rparr>"
  have "api_postTransaction i s = (Inr (t\<lparr>tx_status := Posted\<rparr>), s')"
    using assms(1,3,4) by (simp add: api_postTransaction_def srv_transition_ok s'_def)
  from postTransaction_found [OF this assms(5)]
  obtain c'' where r: "postTransaction i (s, c) = (Inr (), (s', loadData s' c''))" by blast
  note b = bal_of_after_transition [OF assms(1-3) s'_def, where c = c'']
  have "bal_of (data (loadData s' c'')) (tx_accountId t) =
          \<lparr>total = total (calculateBalanceFromLedger (srv_ledger s (tx_accountId t))),
           available = available (calculateBalanceFromLedger (srv_ledger s (tx_accountId t)))
                       + tx_amount t\<rparr>"
    using b(2,3) assms(4) by (intro balance_eqI) (simp_all add: ledger_step_entry)
  with r b(1) show ?thesis by blast
qed

text \<open>C21: reversing a deposit that is not yet reversed takes its whole contribution out
  of the account's balance at the next reload: the amount leaves the total, and leaves the
  available balance too when the deposit had been posted.\<close>

theorem reverseTransaction_removes_contribution:
  assumes "srv_up s" and "distinct (map tx_id (srv_transactions s))"
    and "find (\<lambda>t. tx_id t = i) (srv_transactions s) = Some t" and "tx_status t \<noteq> Reversed"
    and "find (\<lambda>t. tx_id t = i) (transactions (data c)) = Some u"
  shows "\<exists>s' c'. reverseTransaction i (s, c) = (Inr (), (s', c')) \<and>
           bal_of (data c') (tx_accountId t) =
             \<lparr>total = total (calculateBalanceFromLedger (srv_ledger s (tx_accountId t))) - tx_amount t,
              available = available (calculateBalanceFromLedger (srv_ledger s (tx_accountId t)))
                          - (if tx_status t = Posted then tx_amount t else 0)\<rparr> \<and>
           (\<forall>a. a \<noteq> tx_accountId t \<longrightarrow>
                bal_of (data c') a = calculateBalanceFromLedger (srv_ledger s a))"
proof -
  define s' where "s' = s\<lparr>srv_transactions := map (\<lambda>u. if tx_id u = i then u\<lparr>tx_status := Reversed\<rparr> else u)
                                                 (srv_transactions s)\<rparr>"
  have "api_reverseTransaction i s = (Inr (t\<lparr>tx_status := Reversed\<rparr>), s')"
    using assms(1,3,4) by (simp add: api_reverseTransaction_def srv_transition_ok s'_def)
  from reverseTransaction_found [OF this assms(5)]
  obtain c'' where r: "reverseTransaction i (s, c) = (Inr (), (s', loadData s' c''))" by blast
  note b = bal_of_after_transition [OF assms(1-3) s'_def, where c = c'']
  have "bal_of (data (loadData s' c'')) (tx_accountId t) =
          \<lparr>total = total (calculateBalanceFromLedger (srv_ledger s (tx_accountId t))) - tx_amount t,
           available = available (calculateBalanceFromLedger (srv_ledger s (tx_accountId t)))
                       - (if tx_status t = Posted then tx_amount t else 0)\<rparr>"
    using b(2,3) assms(4) by (intro balance_eqI) (cases "tx_status t"; simp add: ledger_step_entry)+
  with r b(1) show ?thesis by blast
qed

text \<open>C15: a service outage at mount, followed by a deposit once the service is back,
  erases the transfers kept in \<open>localStorage\<close>: the failed load replaced the state by
  \<open>INITIAL_DATA\<close>, and the deposit's \<open>saveLocalData\<close> writes its empty transfer list
  back, whatever the browser held before.\<close>

theorem outage_then_deposit_erases_transfers:
  assumes "\<not> srv_up s"
    and "createTransaction now a x (s\<lparr>srv_up := True\<rparr>, mount s st) = (Inr t, (s', c'))"
  shows "ls_transfers (store c') = Some [] \<and> transfers (data c') = []"
proof -
  have d: "data (mount s st) = INITIAL_DATA" using assms(1) by (simp add: mount_def loadData_down)
  have x: "0 < x"
    using assms(2) createCredit_invalid [of "s\<lparr>srv_up := True\<rparr>" x now a]
    by (cases "x \<le> 0") (simp_all add: createTransaction_def createTransaction_with_def)
  have "ls_transfers (store c') = Some []"
    using assms(2) x d by (auto simp: createTransaction_def createTransaction_with_def createCredit_ok Let_def INITIAL_DATA_def)
  moreover have "transfers (data c') = []"
    using assms(2) x d
    by (auto simp: createTransaction_def createTransaction_with_def createCredit_ok Let_def INITIAL_DATA_def transfers_loadData_empty)
  ultimately show ?thesis by blast
qed


subsection \<open>Witnesses\<close>

lemma demo_server2_facts:
  "srv_up demo_server2" "distinct (map tx_id (srv_transactions demo_server2))"
  "calculateBalanceFromLedger (srv_ledger demo_server2 ''acc-1'') = \<lparr>total = 1500, available = 1000\<rparr>"
  by (simp_all add: demo_server2_def srv_ledger_def entry_of_transaction_def
      calculateBalanceFromLedger_def ledger_step_def zero_balance_def)

lemma demo_mount2_transactions:
  "transactions (data (mount demo_server2 st)) = srv_transactions demo_server2"
  by (simp add: mount_def loadData_up demo_server2_facts)

theorem createTransaction_deposit_pending_witness:
  "\<exists>t s' c'. createTransaction 5 ''acc-1'' 300 (demo_server, mount demo_server empty_store) = (Inr t, (s', c')) \<and>
     bal_of (data c') ''acc-1'' = \<lparr>total = 1300, available = 1000\<rparr> \<and>
     bal_of (data c') ''acc-2'' = \<lparr>total = 0, available = 0\<rparr>"
proof -
  have x: "(0::int) < 300" by simp
  from createTransaction_deposit_pending [OF demo_server_up x,
      where now = 5 and a = "''acc-1''" and c = "mount demo_server empty_store"]
  show ?thesis by (auto simp: demo_server_ledger zero_balance_def)
qed

theorem postTransaction_makes_available_witness:
  "\<exists>s' c'. postTransaction ''tx-1'' (demo_server2, mount demo_server2 empty_store) = (Inr (), (s', c')) \<and>
     bal_of (data c') ''acc-1'' = \<lparr>total = 1500, available = 1500\<rparr>"
proof -
  have f: "find (\<lambda>t. tx_id t = ''tx-1'') (srv_transactions demo_server2) =
      Some \<lparr>tx_id = ''tx-1'', tx_accountId = ''acc-1'', tx_amount = 500, tx_status = Pending, tx_timestamp = 0\<rparr>"
    by (simp add: demo_server2_def)
  have l: "find (\<lambda>t. tx_id t = ''tx-1'') (transactions (data (mount demo_server2 empty_store))) =
      Some \<lparr>tx_id = ''tx-1'', tx_accountId = ''acc-1'', tx_amount = 500, tx_status = Pending, tx_timestamp = 0\<rparr>"
    by (simp add: demo_mount2_transactions f)
  from postTransaction_makes_available [OF demo_server2_facts(1,2) f _ l]
  show ?thesis by (auto simp: demo_server2_facts(3))
qed

theorem reverseTransaction_removes_contribution_witness:
  "\<exists>s' c'. reverseTransaction ''tx-0'' (demo_server2, mount demo_server2 empty_store) = (Inr (), (s', c')) \<and>
     bal_of (data c') ''acc-1'' = \<lparr>total = 500, available = 0\<rparr>"
proof -
  have f: "find (\<lambda>t. tx_id t = ''tx-0'') (srv_transactions demo_server2) =
      Some \<lparr>tx_id = ''tx-0'', tx_accountId = ''acc-1'', tx_amount = 1000, tx_status = Posted, tx_timestamp = 0\<rparr>"
    by (simp add: demo_server2_def)
  have l: "find (\<lambda>t. tx_id t = ''tx-0'') (transactions (data (mount demo_server2 empty_store))) =
      Some \<lparr>tx_id = ''tx-0'', tx_accountId = ''acc-1'', tx_amount = 1000, tx_status = Posted, tx_timestamp = 0\<rparr>"
    by (simp add: demo_mount2_transactions f)
  from reverseTransaction_removes_contribution [OF demo_server2_facts(1,2) f _ l]
  show ?thesis by (auto simp: demo_server2_facts(3))
qed

theorem outage_then_deposit_erases_transfers_witness:
  "\<exists>t s' c'.
     createTransaction 5 ''acc-1'' 100
       ((demo_server\<lparr>srv_up := False\<rparr>)\<lparr>srv_up := True\<rparr>,
        mount (demo_server\<lparr>srv_up := False\<rparr>)
          \<lparr>ls_transfers = Some [demo_transfer], ls_notifications = None\<rparr>) = (Inr t, (s', c')) \<and>
     ls_transfers (store c') = Some []"
proof -
  have down: "\<not> srv_up (demo_server\<lparr>srv_up := False\<rparr>)" by simp
  obtain r s' c' where r: "createTransaction 5 ''acc-1'' 100
       ((demo_server\<lparr>srv_up := False\<rparr>)\<lparr>srv_up := True\<rparr>,
        mount (demo_server\<lparr>srv_up := False\<rparr>)
          \<lparr>ls_transfers = Some [demo_transfer], ls_notifications = None\<rparr>) = (r, (s', c'))"
    by (metis prod.collapse)
  then obtain t where "r = Inr t"
    by (cases r) (auto simp: createTransaction_def createTransaction_with_def createCredit_ok Let_def)
  with r outage_then_deposit_erases_transfers [OF down] show ?thesis by blast
qed


lemma notifications_loadData_save:
  "srv_up s \<Longrightarrow> notifications (data (loadData s (saveLocalData nd c))) = notifications nd"
  by (simp add: loadData_up)

lemma api_transition_up:
  "api_postTransaction i s = (Inr t, s') \<Longrightarrow> srv_up s'"
  "api_reverseTransaction i s = (Inr t, s') \<Longrightarrow> srv_up s'"
  by (auto simp: api_postTransaction_def api_reverseTransaction_def elim!: srv_transition_Inr)

lemma createTransaction_log_extends:
  "log_extends (notifications (data c)) (notifications (data (snd (snd (createTransaction now a x (s, c))))))"
proof (cases "srv_up s \<and> 0 < x")
  case True
  then show ?thesis
    by (simp add: createTransaction_def createTransaction_with_def createCredit_ok Let_def notifications_loadData_save)
next
  case False
  then have "fst (createCredit now a x s) \<noteq> Inr t" for t
    by (cases "srv_up s") (auto simp: createCredit_down createCredit_invalid)
  then show ?thesis
    by (cases "createCredit now a x s") (auto simp: createTransaction_def createTransaction_with_def split: sum.splits)
qed

lemma postTransaction_log_extends:
  "log_extends (notifications (data c)) (notifications (data (snd (snd (postTransaction i (s, c))))))"
proof (cases "api_postTransaction i s")
  case (Pair r s')
  show ?thesis
  proof (cases r)
    case (Inr t)
    with Pair have "srv_up s'" by (simp add: api_transition_up)
    with Pair Inr show ?thesis
      by (simp add: postTransaction_def postTransaction_with_def Let_def notifications_loadData_save split: option.splits)
  qed (simp add: Pair postTransaction_def postTransaction_with_def)
qed

lemma reverseTransaction_log_extends:
  "log_extends (notifications (data c)) (notifications (data (snd (snd (reverseTransaction i (s, c))))))"
proof (cases "api_reverseTransaction i s")
  case (Pair r s')
  show ?thesis
  proof (cases r)
    case (Inr t)
    with Pair have "srv_up s'" by (simp add: api_transition_up)
    with Pair Inr show ?thesis
      by (simp add: reverseTransaction_def reverseTransaction_with_def Let_def notifications_loadData_save split: option.splits)
  qed (simp add: Pair reverseTransaction_def reverseTransaction_with_def)
qed

subsection \<open>Transfer ids\<close>

text \<open>C32: transfer ids come from the clock alone: two transfers created within the
  same millisecond get the same id, the list then has duplicate ids, and every later
  \<open>postTransfer\<close> or \<open>reverseTransfer\<close> of that id finds the first of the two.\<close>

theorem transfer_id_collision:
  assumes r1: "createPendingTransfer now a b x c = (Inr t1, c1)"
    and r2: "createPendingTransfer now a' b' y c1 = (Inr t2, c2)"
    and fresh: "trf_id now \<notin> tr_id ` set (transfers (data c))"
  shows "tr_id t1 = tr_id t2 \<and> \<not> distinct (map tr_id (transfers (data c2))) \<and>
         find (\<lambda>t. tr_id t = tr_id t2) (transfers (data c2)) = Some t1"
proof -
  have i1: "tr_id t1 = trf_id now" and i2: "tr_id t2 = trf_id now"
    using createPendingTransfer_Inr [OF r1] createPendingTransfer_Inr [OF r2] by simp_all
  have ts: "transfers (data c2) = transfers (data c) @ [t1, t2]"
    using createPendingTransfer_transfers [OF r1] createPendingTransfer_transfers [OF r2] by simp
  have "find (\<lambda>t. tr_id t = trf_id now) (transfers (data c)) = None"
    using fresh by (simp add: find_None_iff_keys)
  then show ?thesis using i1 i2 ts by (simp add: find_append_fresh)
qed

theorem transfer_id_collision_witness:
  "\<exists>t1 c1 t2 c2. createPendingTransfer 5 ''acc-1'' ''acc-2'' 100 demo_client = (Inr t1, c1) \<and>
     createPendingTransfer 5 ''acc-1'' ''acc-3'' 200 c1 = (Inr t2, c2) \<and>
     tr_id t1 = tr_id t2 \<and> tr_to t1 \<noteq> tr_to t2 \<and>
     find (\<lambda>t. tr_id t = tr_id t2) (transfers (data c2)) = Some t1"
proof -
  have g1: "\<not> available (bal_of (data demo_client) ''acc-1'') < 100" by (simp add: demo_client_bal)
  obtain t1 c1 where r1: "createPendingTransfer 5 ''acc-1'' ''acc-2'' 100 demo_client = (Inr t1, c1)"
    using createPendingTransfer_ok_exists [OF g1] by blast
  have "bal_of (data c1) ''acc-1'' = \<lparr>total = 900, available = 900\<rparr>"
    using createPendingTransfer_Inr [OF r1] createPendingTransfer_bal [OF g1, of 5 "''acc-2''" "''acc-1''"]
    by (simp add: demo_client_bal bal_shift_def)
  then have g2: "\<not> available (bal_of (data c1) ''acc-1'') < 200" by simp
  obtain t2 c2 where r2: "createPendingTransfer 5 ''acc-1'' ''acc-3'' 200 c1 = (Inr t2, c2)"
    using createPendingTransfer_ok_exists [OF g2] by blast
  have fresh: "trf_id 5 \<notin> tr_id ` set (transfers (data demo_client))"
    by (simp add: demo_client_transfers)
  have "tr_to t1 \<noteq> tr_to t2"
    using createPendingTransfer_Inr [OF r1] createPendingTransfer_Inr [OF r2] by simp
  with r1 r2 transfer_id_collision [OF r1 r2 fresh] show ?thesis by blast
qed


subsection \<open>Two pages over one \<open>localStorage\<close>\<close>

text \<open>C16: hook instances of two open pages share \<open>localStorage\<close> but not their state.
  When page B creates a pending transfer and page A, loaded before it, then makes a deposit,
  A's \<open>saveLocalData\<close> writes A's transfer list: B's transfer is erased from
  \<open>localStorage\<close>, and A's reload shows the list A had loaded.\<close>

theorem other_page_deposit_erases_transfer:
  assumes up: "srv_up s" and x: "0 < y"
    and rB: "createPendingTransfer now a b x (mount s ls) = (Inr t, cB)"
    and fresh: "t \<notin> set (transfers (data (mount s ls)))"
    and rA: "createTransaction n2 a' y (s, (mount s ls)\<lparr>store := store cB\<rparr>) = (Inr tx, (s', cA))"
  shows "t \<in> set (the (ls_transfers (store cB))) \<and>
         ls_transfers (store cA) = Some (transfers (data (mount s ls))) \<and>
         t \<notin> set (transfers (data cA))"
proof -
  have "ls_transfers (store cB) = Some (transfers (data (mount s ls)) @ [t])"
    using createPendingTransfer_transfers [OF rB] by simp
  moreover have "ls_transfers (store cA) = Some (transfers (data (mount s ls)))"
    using rA up x by (auto simp: createTransaction_def createTransaction_with_def createCredit_ok Let_def)
  moreover have "srv_up s'"
    using rA up x by (auto simp: createTransaction_def createTransaction_with_def createCredit_ok Let_def)
  moreover have "transfers (data cA) = transfers (data (mount s ls))"
    using rA up x by (auto simp: createTransaction_def createTransaction_with_def createCredit_ok Let_def loadData_up)
  ultimately show ?thesis using fresh by simp
qed

theorem other_page_deposit_erases_transfer_witness:
  "\<exists>t cB tx s' cA.
     createPendingTransfer 5 ''acc-1'' ''acc-2'' 400 (mount demo_server empty_store) = (Inr t, cB) \<and>
     createTransaction 6 ''acc-2'' 50 (demo_server, (mount demo_server empty_store)\<lparr>store := store cB\<rparr>) =
       (Inr tx, (s', cA)) \<and>
     t \<in> set (the (ls_transfers (store cB))) \<and> ls_transfers (store cA) = Some []"
proof -
  have g: "\<not> available (bal_of (data (mount demo_server empty_store)) ''acc-1'') < 400"
    by (simp add: demo_mount_bal)
  obtain t cB where rB: "createPendingTransfer 5 ''acc-1'' ''acc-2'' 400 (mount demo_server empty_store) = (Inr t, cB)"
    using createPendingTransfer_ok_exists [OF g] by blast
  have e: "transfers (data (mount demo_server empty_store)) = []"
    by (simp add: mount_def loadData_up demo_server_up empty_store_def)
  obtain r s' cA where rA: "createTransaction 6 ''acc-2'' 50
      (demo_server, (mount demo_server empty_store)\<lparr>store := store cB\<rparr>) = (r, (s', cA))"
    by (metis prod.collapse)
  then obtain tx where "r = Inr tx"
    by (cases r) (auto simp: createTransaction_def createTransaction_with_def createCredit_ok demo_server_up Let_def)
  with rA have rA': "createTransaction 6 ''acc-2'' 50
      (demo_server, (mount demo_server empty_store)\<lparr>store := store cB\<rparr>) = (Inr tx, (s', cA))" by simp
  have y: "(0::int) < 50" by simp
  from other_page_deposit_erases_transfer [OF demo_server_up y rB _ rA'] e rB rA' show ?thesis by auto
qed

end
