(* ===== verification/Typing.thy ===== *)
theory Typing
  imports Storage
begin

text \<open>
  Conformance of the values the program stores to the TypeScript interfaces they are read
  back as. A transfer's \<open>type\<close> is the literal type \<open>"TRANSFER"\<close> and its id is built as
  \<open>`trf-${Date.now()}`\<close>; JSON in \<open>localStorage\<close> is not checked when it is parsed
  back, so conformance must be kept by every write. The lemmas show that the transfer
  operations, \<open>loadData\<close> and the transaction operations keep it; the page models use
  them.
\<close>

definition transfer_typed :: "transfer \<Rightarrow> bool" where
  "transfer_typed t \<longleftrightarrow> tr_type t = ''TRANSFER'' \<and> take 4 (tr_id t) = ''trf-''"

text \<open>A hook instance conforms when its transfers and those stored in \<open>localStorage\<close> do.\<close>

definition client_typed :: "client \<Rightarrow> bool" where
  "client_typed c \<longleftrightarrow>
     list_all transfer_typed (transfers (data c)) \<and>
     (case ls_transfers (store c) of None \<Rightarrow> True | Some ts \<Rightarrow> list_all transfer_typed ts)"


subsection \<open>Lemmas\<close>

lemma transfer_typed_status [simp]: "transfer_typed (t\<lparr>tr_status := st\<rparr>) = transfer_typed t"
  by (simp add: transfer_typed_def)

lemma list_all_status_update [simp]:
  "list_all transfer_typed (map (\<lambda>u. if tr_id u = i then u\<lparr>tr_status := st\<rparr> else u) ts) =
   list_all transfer_typed ts"
  by (induction ts) simp_all

lemma transfer_typed_new [simp]:
  "transfer_typed \<lparr>tr_id = trf_id now, tr_from = a, tr_to = b, tr_amount = x,
                   tr_type = ''TRANSFER'', tr_status = st, tr_timestamp = now\<rparr>"
  by (simp add: transfer_typed_def trf_id_def)

lemma client_typed_save:
  "list_all transfer_typed (transfers d) \<Longrightarrow> client_typed (saveLocalData d c)"
  by (simp add: client_typed_def)

lemma client_typed_loadData: "client_typed c \<Longrightarrow> client_typed (loadData s c)"
  by (cases "srv_up s")
     (auto simp: client_typed_def loadData_up loadData_down INITIAL_DATA_def split: option.splits)

lemma client_typed_transfer_step: "client_typed c \<Longrightarrow> client_typed (transfer_step c op)"
proof (cases op)
  case (CreatePending now src dst x)
  assume c: "client_typed c"
  then show ?thesis using CreatePending
    by (cases "available (bal_of (data c) src) < x")
       (auto simp: createPendingTransfer_def Let_def bal_of_def client_typed_def)
next
  case (PostT i)
  assume c: "client_typed c"
  then show ?thesis using PostT
    by (auto simp: postTransfer_def Let_def client_typed_def split: option.splits)
next
  case (ReverseT i)
  assume c: "client_typed c"
  then show ?thesis using ReverseT
    by (auto simp: reverseTransfer_def Let_def client_typed_def split: option.splits)
next
  case (CreateDirect now src dst x)
  assume c: "client_typed c"
  then show ?thesis using CreateDirect
    by (auto simp: createTransfer_def Let_def client_typed_def)
qed

text \<open>A transaction operation run from a captured snapshot \<open>d\<close> saves \<open>d\<close>'s transfers,
  so the snapshot must conform as well.\<close>

lemma client_typed_createTransaction_with:
  "client_typed c \<Longrightarrow> list_all transfer_typed (transfers d) \<Longrightarrow>
   client_typed (snd (snd (createTransaction_with d now a x (s, c))))"
  by (cases "createCredit now a x s")
     (auto simp: createTransaction_with_def Let_def client_typed_def loadData_def INITIAL_DATA_def
        split: sum.splits option.splits)

lemma client_typed_postTransaction_with:
  "client_typed c \<Longrightarrow> list_all transfer_typed (transfers d) \<Longrightarrow>
   client_typed (snd (snd (postTransaction_with d i (s, c))))"
  by (cases "api_postTransaction i s")
     (auto simp: postTransaction_with_def Let_def client_typed_def loadData_def INITIAL_DATA_def
        split: sum.splits option.splits)

lemma client_typed_reverseTransaction_with:
  "client_typed c \<Longrightarrow> list_all transfer_typed (transfers d) \<Longrightarrow>
   client_typed (snd (snd (reverseTransaction_with d i (s, c))))"
  by (cases "api_reverseTransaction i s")
     (auto simp: reverseTransaction_with_def Let_def client_typed_def loadData_def INITIAL_DATA_def
        split: sum.splits option.splits)

lemma client_typed_data: "client_typed c \<Longrightarrow> list_all transfer_typed (transfers (data c))"
  by (simp add: client_typed_def)

end
