(* ===== verification/Async.thy ===== *)
theory Async
  imports Typing
begin

text \<open>
  Interleaving of the hook's asynchronous calls on one page. \<open>createTransaction\<close>,
  \<open>postTransaction\<close> and \<open>reverseTransaction\<close> are \<open>useCallback\<close> closures over the
  \<open>data\<close> of the render that created them; a click calls the closure of the current
  render, which sends the request and waits. Meanwhile the admin may click again: another
  transaction button (a second call from the same render) or a transfer button, whose
  handler is synchronous. When an answer arrives, the waiting call resumes with the
  snapshot it captured, saves it and reloads. A page is the pair of service and hook
  instance together with the calls in flight, each with its snapshot; an event issues a
  call, completes one of those in flight (the service handles a request when its answer
  arrives, so requests are served in completion order), or runs a transfer click.
  Reachable page states are an inductive predicate over these events.
\<close>

datatype hook_call =
    CallCreate millis account_id amount
  | CallPost entry_id
  | CallReverse entry_id

text \<open>What the resumed call does, from its snapshot \<open>d\<close>; its result or error goes to the
  page's handler (a toast) and is dropped here.\<close>

fun run_call :: "shadow_data \<Rightarrow> hook_call \<Rightarrow> server \<times> client \<Rightarrow> server \<times> client" where
  "run_call d (CallCreate now accountId amount) sc = snd (createTransaction_with d now accountId amount sc)"
| "run_call d (CallPost i) sc = snd (postTransaction_with d i sc)"
| "run_call d (CallReverse i) sc = snd (reverseTransaction_with d i sc)"

record page_state =
  pg_sc :: "server \<times> client"
  pg_flight :: "(shadow_data \<times> hook_call) list"

datatype page_event = Issue hook_call | Complete nat | Click transfer_op

text \<open>A call the page can issue from the data of its current render: a deposit from the
  create form, and a post or a reverse from the \<open>onPost\<close> and \<open>onReverse\<close> of the card of a
  transaction listed in \<open>data.transactions\<close>.\<close>

fun issuable :: "shadow_data \<Rightarrow> hook_call \<Rightarrow> bool" where
  "issuable d (CallCreate now accountId amount) = True"
| "issuable d (CallPost i) = list_ex (\<lambda>t. tx_id t = i) (transactions d)"
| "issuable d (CallReverse i) = list_ex (\<lambda>t. tx_id t = i) (transactions d)"

definition remove_at :: "nat \<Rightarrow> 'a list \<Rightarrow> 'a list" where
  "remove_at n xs = take n xs @ drop (Suc n) xs"

fun page_step :: "page_state \<Rightarrow> page_event \<Rightarrow> page_state option" where
  "page_step p (Issue k) =
     (if issuable (data (snd (pg_sc p))) k
      then Some (p\<lparr>pg_flight := pg_flight p @ [(data (snd (pg_sc p)), k)]\<rparr>) else None)"
| "page_step p (Complete n) =
     (if n < length (pg_flight p)
      then (case pg_flight p ! n of
              (d, k) \<Rightarrow> Some \<lparr>pg_sc = run_call d k (pg_sc p), pg_flight = remove_at n (pg_flight p)\<rparr>)
      else None)"
| "page_step p (Click op) = Some (p\<lparr>pg_sc := (fst (pg_sc p), transfer_step (snd (pg_sc p)) op)\<rparr>)"

fun page_run :: "page_state \<Rightarrow> page_event list \<Rightarrow> page_state option" where
  "page_run p [] = Some p"
| "page_run p (e # es) = (case page_step p e of None \<Rightarrow> None | Some p' \<Rightarrow> page_run p' es)"

definition page_mount :: "server \<Rightarrow> local_storage \<Rightarrow> page_state" where
  "page_mount s ls = \<lparr>pg_sc = (s, mount s ls), pg_flight = []\<rparr>"

definition store_typed :: "local_storage \<Rightarrow> bool" where
  "store_typed ls \<longleftrightarrow> (case ls_transfers ls of None \<Rightarrow> True | Some ts \<Rightarrow> list_all transfer_typed ts)"


text \<open>A call that succeeds and writes: the service accepts it and, for post and reverse,
  the snapshot lists the transaction.\<close>

fun call_writes :: "shadow_data \<Rightarrow> hook_call \<Rightarrow> server \<Rightarrow> bool" where
  "call_writes d (CallCreate now accountId amount) s = (\<not> isl (fst (createCredit now accountId amount s)))"
| "call_writes d (CallPost i) s =
     (\<not> isl (fst (api_postTransaction i s)) \<and> list_ex (\<lambda>t. tx_id t = i) (transactions d))"
| "call_writes d (CallReverse i) s =
     (\<not> isl (fst (api_reverseTransaction i s)) \<and> list_ex (\<lambda>t. tx_id t = i) (transactions d))"


subsection \<open>Lemmas\<close>

lemma page_step_Complete_Some:
  assumes "page_step p (Complete n) = Some p'"
  obtains d k where "n < length (pg_flight p)" and "pg_flight p ! n = (d, k)"
    and "p' = \<lparr>pg_sc = run_call d k (pg_sc p), pg_flight = remove_at n (pg_flight p)\<rparr>"
  using assms by (auto split: if_splits prod.splits)

lemma run_call_server: "fst (run_call d k (s, c)) = snd (case k of
     CallCreate now a x \<Rightarrow> createCredit now a x s
   | CallPost i \<Rightarrow> api_postTransaction i s
   | CallReverse i \<Rightarrow> api_reverseTransaction i s)"
proof (cases k)
  case (CallCreate now a x)
  then show ?thesis
    by (cases "createCredit now a x s") (auto simp: createTransaction_with_def split: sum.splits)
next
  case (CallPost i)
  then show ?thesis
    by (cases "api_postTransaction i s")
       (auto simp: postTransaction_with_def Let_def split: sum.splits option.splits)
next
  case (CallReverse i)
  then show ?thesis
    by (cases "api_reverseTransaction i s")
       (auto simp: reverseTransaction_with_def Let_def split: sum.splits option.splits)
qed

lemma srv_wf_run_call: "srv_wf (fst sc) \<Longrightarrow> srv_wf (fst (run_call d k sc))"
  by (cases sc; cases k)
     (simp_all only: run_call_server hook_call.case fst_conv createCredit_def api_postTransaction_def
        api_reverseTransaction_def srv_wf_credit srv_wf_transition)

lemma client_typed_run_call:
  "client_typed (snd sc) \<Longrightarrow> list_all transfer_typed (transfers d) \<Longrightarrow> client_typed (snd (run_call d k sc))"
  by (cases sc; cases k)
     (simp_all add: client_typed_createTransaction_with client_typed_postTransaction_with
        client_typed_reverseTransaction_with)



lemma client_typed_mount: "store_typed ls \<Longrightarrow> client_typed (mount s ls)"
  unfolding mount_def
  by (rule client_typed_loadData) (simp add: client_typed_def store_typed_def INITIAL_DATA_def)

lemma createCredit_Inr_up: "createCredit now a x s = (Inr t, s') \<Longrightarrow> srv_up s'"
  by (auto simp: createCredit_def srv_credit_def Let_def split: if_splits)

lemma srv_transition_Inr_up: "srv_transition st i s = (Inr t, s') \<Longrightarrow> srv_up s'"
  by (erule srv_transition_Inr) simp

lemma sum_not_isl: "\<not> isl r \<Longrightarrow> (\<And>t. r = Inr t \<Longrightarrow> P) \<Longrightarrow> P"
  by (cases r) simp_all

text \<open>A call that writes resumes by saving its snapshot with its transactions replaced and
  one message added, then reloads from a reachable service.\<close>

lemma run_call_writes:
  assumes "call_writes d k s"
  obtains s' txs a m where
    "run_call d k (s, c) = (s', loadData s' (saveLocalData (d\<lparr>transactions := txs,
        notifications := (notifications d)(a \<mapsto> appended (notifications d) a m)\<rparr>) c))"
    and "srv_up s'"
proof (cases k)
  case (CallCreate now a x)
  obtain r s' where cc: "createCredit now a x s = (r, s')" by fastforce
  with assms CallCreate obtain t where "r = Inr t" by (auto elim: sum_not_isl)
  with cc have "createCredit now a x s = (Inr t, s')" by simp
  then show ?thesis using CallCreate that createCredit_Inr_up
    by (simp add: createTransaction_with_def)
next
  case (CallPost i)
  obtain r s' where ap: "api_postTransaction i s = (r, s')" by fastforce
  with assms CallPost obtain u where "r = Inr u" by (auto elim: sum_not_isl)
  with ap have ap': "api_postTransaction i s = (Inr u, s')" by simp
  from assms CallPost obtain t where f: "find (\<lambda>t. tx_id t = i) (transactions d) = Some t"
    by (auto simp: list_ex_iff find_None_iff2 split: option.splits)
       (metis (mono_tags, lifting) find_None_iff option.exhaust)
  show ?thesis using CallPost ap' f that srv_transition_Inr_up [of Posted i s u s'] ap'
    by (simp add: postTransaction_with_def api_postTransaction_def)
next
  case (CallReverse i)
  obtain r s' where ap: "api_reverseTransaction i s = (r, s')" by fastforce
  with assms CallReverse obtain u where "r = Inr u" by (auto elim: sum_not_isl)
  with ap have ap': "api_reverseTransaction i s = (Inr u, s')" by simp
  from assms CallReverse obtain t where f: "find (\<lambda>t. tx_id t = i) (transactions d) = Some t"
    by (auto simp: list_ex_iff find_None_iff2 split: option.splits)
       (metis (mono_tags, lifting) find_None_iff option.exhaust)
  show ?thesis using CallReverse ap' f that srv_transition_Inr_up [of Reversed i s u s'] ap'
    by (simp add: reverseTransaction_with_def api_reverseTransaction_def)
qed

text \<open>Without overlap the model is the sequential one of \<open>Storage\<close>: a call issued and
  answered before anything else happens is the operation on the current data.\<close>

lemma run_call_current:
  "run_call (data (snd sc)) (CallCreate now a x) sc = snd (createTransaction now a x sc)"
  "run_call (data (snd sc)) (CallPost i) sc = snd (postTransaction i sc)"
  "run_call (data (snd sc)) (CallReverse i) sc = snd (reverseTransaction i sc)"
  by (simp_all add: createTransaction_def postTransaction_def reverseTransaction_def)

lemma page_sequential:
  "issuable (data (snd (pg_sc p))) k \<Longrightarrow>
   page_run p [Issue k, Complete (length (pg_flight p))] =
     Some \<lparr>pg_sc = run_call (data (snd (pg_sc p))) k (pg_sc p), pg_flight = pg_flight p\<rparr>"
  by (simp add: remove_at_def)








subsection \<open>Properties of interleaved calls\<close>


text \<open>C17: a transaction call that succeeds resumes from the snapshot of the render that
  issued it: the hook's transfers and those in \<open>localStorage\<close> become the snapshot's, so
  every transfer click made while the call was in flight is undone, and the notifications
  become the snapshot's with the call's one message added, so every message written
  meanwhile (by a transfer or by another call) is lost.\<close>

theorem complete_restores_snapshot:
  assumes st: "page_step p (Complete n) = Some p'" and dk: "pg_flight p ! n = (d, k)"
    and w: "call_writes d k (fst (pg_sc p))"
  shows "transfers (data (snd (pg_sc p'))) = transfers d \<and>
         ls_transfers (store (snd (pg_sc p'))) = Some (transfers d) \<and>
         (\<exists>a m. notifications (data (snd (pg_sc p'))) =
                  (notifications d)(a \<mapsto> appended (notifications d) a m))"
proof -
  obtain s c where sc: "pg_sc p = (s, c)" by fastforce
  from st obtain d' k' where "pg_flight p ! n = (d', k')"
    and p': "p' = \<lparr>pg_sc = run_call d' k' (pg_sc p), pg_flight = remove_at n (pg_flight p)\<rparr>"
    by (rule page_step_Complete_Some)
  with dk have p'': "pg_sc p' = run_call d k (s, c)" by (simp add: sc)
  from w sc have "call_writes d k s" by simp
  then obtain s' txs a m where
    r: "run_call d k (s, c) = (s', loadData s' (saveLocalData (d\<lparr>transactions := txs,
          notifications := (notifications d)(a \<mapsto> appended (notifications d) a m)\<rparr>) c))"
    and up: "srv_up s'"
    by (rule run_call_writes)
  define nd where "nd = d\<lparr>transactions := txs,
          notifications := (notifications d)(a \<mapsto> appended (notifications d) a m)\<rparr>"
  have "notifications (data (loadData s' (saveLocalData nd c))) = notifications nd"
    by (rule notifications_loadData_save [OF up])
  moreover have "transfers (data (loadData s' (saveLocalData nd c))) = transfers nd"
    by (rule transfers_loadData_up [OF up]) (simp add: saveLocalData_def)
  moreover have "ls_transfers (store (loadData s' (saveLocalData nd c))) = Some (transfers nd)"
    by (simp add: saveLocalData_def)
  ultimately show ?thesis
    unfolding p'' r nd_def [symmetric] by (auto simp: nd_def)
qed

subsection \<open>Witnesses\<close>



theorem complete_restores_snapshot_witness:
  "\<exists>p2 p3. page_run (page_mount demo_server empty_store)
             [Issue (CallCreate 7 ''acc-1'' 300), Click (CreatePending 8 ''acc-1'' ''acc-2'' 400)] = Some p2 \<and>
           transfers (data (snd (pg_sc p2))) \<noteq> [] \<and>
           page_step p2 (Complete 0) = Some p3 \<and>
           transfers (data (snd (pg_sc p3))) = [] \<and> ls_transfers (store (snd (pg_sc p3))) = Some []"
proof -
  define c0 where "c0 = mount demo_server empty_store"
  have g: "\<not> available (bal_of (data c0) ''acc-1'') < 400" by (simp add: c0_def demo_mount_bal)
  obtain t c1 where r: "createPendingTransfer 8 ''acc-1'' ''acc-2'' 400 c0 = (Inr t, c1)"
    using createPendingTransfer_ok_exists [OF g] by blast
  have t0: "transfers (data c0) = []"
    by (simp add: c0_def mount_def loadData_up demo_server_up empty_store_def)
  define p2 where "p2 = \<lparr>pg_sc = (demo_server, c1), pg_flight = [(data c0, CallCreate 7 ''acc-1'' 300)]\<rparr>"
  have run: "page_run (page_mount demo_server empty_store)
               [Issue (CallCreate 7 ''acc-1'' 300), Click (CreatePending 8 ''acc-1'' ''acc-2'' 400)] = Some p2"
    using r by (simp add: page_mount_def p2_def c0_def)
  have ne: "transfers (data c1) \<noteq> []" using createPendingTransfer_transfers [OF r] by simp
  obtain p3 where st: "page_step p2 (Complete 0) = Some p3" by (simp add: p2_def)
  have dk: "pg_flight p2 ! 0 = (data c0, CallCreate 7 ''acc-1'' 300)" by (simp add: p2_def)
  have w: "call_writes (data c0) (CallCreate 7 ''acc-1'' 300) (fst (pg_sc p2))"
    by (simp add: p2_def createCredit_ok demo_server_up)
  from complete_restores_snapshot [OF st dk w] t0
  have "transfers (data (snd (pg_sc p3))) = [] \<and> ls_transfers (store (snd (pg_sc p3))) = Some []"
    by simp
  then show ?thesis using run ne st by (auto simp: p2_def)
qed

end
