(* ===== verification/TransferSpec.thy ===== *)
theory TransferSpec
  imports Transfers
begin

text \<open>
  The specification's account of transfers (section 4.1 of the spec) as an abstract
  model, and how the engine of \<^verbatim>\<open>src/hooks/use-shadow-storage.ts\<close> relates to it.
  The specification derives every balance from the entries: a transfer debits its sender
  in both fields unless it is reversed, and credits its receiver in both fields once it is
  posted. \<open>implements base d\<close> says the hook's stored balances are exactly that derivation
  applied on top of \<open>base\<close> (the balances the transactions give). The refinement theorem
  shows that every run of operations the pages can issue keeps this relation, provided a
  transfer is reversed only while it is pending, the two parties differ and each clock
  reading is fresh. The remaining theorems show what happens outside these conditions:
  reversing a posted transfer, posting a reversed one, and a transfer to oneself.
\<close>

subsection \<open>The abstract specification\<close>

definition transfer_effect :: "account_id \<Rightarrow> transfer \<Rightarrow> amount" where
  "transfer_effect a t =
     (if tr_from t = a \<and> tr_status t \<noteq> Reversed then - tr_amount t else 0) +
     (if tr_to t = a \<and> tr_status t = Posted then tr_amount t else 0)"

definition spec_balance :: "(account_id \<Rightarrow> balance) \<Rightarrow> transfer list \<Rightarrow> account_id \<Rightarrow> balance" where
  "spec_balance base ts a = bal_shift (base a) (sum_list (map (transfer_effect a) ts))"

definition implements :: "(account_id \<Rightarrow> balance) \<Rightarrow> shadow_data \<Rightarrow> bool" where
  "implements base d \<longleftrightarrow>
     (\<forall>a. bal_of d a = spec_balance base (transfers d) a) \<and> distinct (map tr_id (transfers d))"

text \<open>The conditions under which the pages call the engine and the specification promises
  its derivation: the transfer page offers only other accounts as recipients, the admin
  card offers \<open>Post\<close> only on a pending transfer, and here reversal too is restricted to
  pending transfers.\<close>

fun ui_guard :: "shadow_data \<Rightarrow> transfer_op \<Rightarrow> bool" where
  "ui_guard d (CreatePending now from to x) \<longleftrightarrow> from \<noteq> to \<and> trf_id now \<notin> tr_id ` set (transfers d)"
| "ui_guard d (PostT i) \<longleftrightarrow>
     (case find (\<lambda>t. tr_id t = i) (transfers d) of None \<Rightarrow> True | Some t \<Rightarrow> tr_status t = Pending)"
| "ui_guard d (ReverseT i) \<longleftrightarrow>
     (case find (\<lambda>t. tr_id t = i) (transfers d) of None \<Rightarrow> True | Some t \<Rightarrow> tr_status t = Pending)"
| "ui_guard d (CreateDirect now from to x) \<longleftrightarrow> from \<noteq> to \<and> trf_id now \<notin> tr_id ` set (transfers d)"

fun guarded_run :: "client \<Rightarrow> transfer_op list \<Rightarrow> bool" where
  "guarded_run c [] = True"
| "guarded_run c (op # ops) = (ui_guard (data c) op \<and> guarded_run (transfer_step c op) ops)"

text \<open>The base balances of the scenario: \<open>acc-1\<close> holds 1000, nothing else.\<close>

definition demo_base :: "account_id \<Rightarrow> balance" where
  "demo_base a = (if a = ''acc-1'' then \<lparr>total = 1000, available = 1000\<rparr> else zero_balance)"

subsection \<open>Lemmas\<close>

lemma status_update_key [simp]: "tr_id (u\<lparr>tr_status := s\<rparr>) = tr_id u"
  by simp

lemma sum_effect_status_update:
  assumes "distinct (map tr_id ts)" and "find (\<lambda>t. tr_id t = i) ts = Some t"
  shows "sum_list (map (transfer_effect a)
            (map (\<lambda>u. if tr_id u = i then u\<lparr>tr_status := s\<rparr> else u) ts)) =
         sum_list (map (transfer_effect a) ts) +
         (transfer_effect a (t\<lparr>tr_status := s\<rparr>) - transfer_effect a t)"
proof -
  obtain ys zs where "ts = ys @ t # zs"
    and "map (\<lambda>u. if tr_id u = i then u\<lparr>tr_status := s\<rparr> else u) ts = ys @ t\<lparr>tr_status := s\<rparr> # zs"
    using map_keyed_distinct_split [OF assms, of "\<lambda>u. u\<lparr>tr_status := s\<rparr>"] by blast
  then show ?thesis by simp
qed

lemma distinct_status_update:
  "distinct (map tr_id (map (\<lambda>u. if tr_id u = i then u\<lparr>tr_status := s\<rparr> else u) ts))
   \<longleftrightarrow> distinct (map tr_id ts)"
proof -
  have "map tr_id (map (\<lambda>u. if tr_id u = i then u\<lparr>tr_status := s\<rparr> else u) ts) = map tr_id ts"
    by (induction ts) auto
  then show ?thesis by (simp only:)
qed

lemma spec_balance_shift:
  "spec_balance base (ts @ [t]) a = bal_shift (spec_balance base ts a) (transfer_effect a t)"
  by (simp add: spec_balance_def)

lemma implements_unchanged_step:
  "transfer_step c op = c \<Longrightarrow> implements base (data c) \<Longrightarrow> implements base (data (transfer_step c op))"
  by simp

lemma implements_create:
  assumes "implements base (data c)" and "from \<noteq> to"
    and "trf_id now \<notin> tr_id ` set (transfers (data c))"
    and ok: "\<not> available (bal_of (data c) from) < x"
  shows "implements base (data (snd (createPendingTransfer now from to x c)))"
proof -
  let ?t = "\<lparr>tr_id = trf_id now, tr_from = from, tr_to = to, tr_amount = x,
             tr_type = ''TRANSFER'', tr_status = Pending, tr_timestamp = now\<rparr>"
  have ts: "transfers (data (snd (createPendingTransfer now from to x c))) = transfers (data c) @ [?t]"
    using ok by (simp add: createPendingTransfer_success_data)
  have "bal_of (data (snd (createPendingTransfer now from to x c))) a =
        spec_balance base (transfers (data c) @ [?t]) a" for a
    using assms by (simp add: createPendingTransfer_bal spec_balance_shift implements_def
        transfer_effect_def)
  with ts assms(1,3) show ?thesis by (simp add: implements_def)
qed

lemma implements_create_direct:
  assumes "implements base (data c)" and "from \<noteq> to"
    and "trf_id now \<notin> tr_id ` set (transfers (data c))"
    and ok: "\<not> available (bal_of (data c) from) < x"
  shows "implements base (data (snd (createTransfer now from to x c)))"
proof -
  let ?t = "\<lparr>tr_id = trf_id now, tr_from = from, tr_to = to, tr_amount = x,
             tr_type = ''TRANSFER'', tr_status = Posted, tr_timestamp = now\<rparr>"
  have ts: "transfers (data (snd (createTransfer now from to x c))) = transfers (data c) @ [?t]"
    using ok by (simp add: createTransfer_def bal_of_def Let_def)
  have "bal_of (data (snd (createTransfer now from to x c))) a =
        spec_balance base (transfers (data c) @ [?t]) a" for a
    using assms by (simp add: createTransfer_bal spec_balance_shift implements_def
        transfer_effect_def)
  with ts assms(1,3) show ?thesis by (simp add: implements_def)
qed

lemma implements_post:
  assumes "implements base (data c)" and f: "find (\<lambda>t. tr_id t = i) (transfers (data c)) = Some t"
    and "tr_status t = Pending"
  shows "implements base (data (postTransfer i c))"
proof -
  have d: "distinct (map tr_id (transfers (data c)))" using assms(1) by (simp add: implements_def)
  have ts: "transfers (data (postTransfer i c)) =
      map (\<lambda>u. if tr_id u = i then u\<lparr>tr_status := Posted\<rparr> else u) (transfers (data c))"
    using f by (simp add: postTransfer_found_data)
  have "bal_of (data (postTransfer i c)) a = spec_balance base (transfers (data (postTransfer i c))) a" for a
  proof -
    have "bal_of (data (postTransfer i c)) a = (if a = tr_to t
            then bal_shift (bal_of (data c) a) (tr_amount t) else bal_of (data c) a)"
      by (rule postTransfer_bal [OF f])
    then show ?thesis
      using assms(1,3) sum_effect_status_update [OF d f, of a Posted] unfolding ts
      by (simp add: implements_def spec_balance_def transfer_effect_def)
  qed
  moreover have "distinct (map tr_id (transfers (data (postTransfer i c))))"
    unfolding ts using d by (simp only: distinct_status_update)
  ultimately show ?thesis by (simp add: implements_def)
qed

lemma implements_reverse:
  assumes "implements base (data c)" and f: "find (\<lambda>t. tr_id t = i) (transfers (data c)) = Some t"
    and "tr_status t = Pending"
  shows "implements base (data (reverseTransfer i c))"
proof -
  have d: "distinct (map tr_id (transfers (data c)))" using assms(1) by (simp add: implements_def)
  have ts: "transfers (data (reverseTransfer i c)) =
      map (\<lambda>u. if tr_id u = i then u\<lparr>tr_status := Reversed\<rparr> else u) (transfers (data c))"
    using f by (simp add: reverseTransfer_found_data)
  have "bal_of (data (reverseTransfer i c)) a = spec_balance base (transfers (data (reverseTransfer i c))) a" for a
  proof -
    have "bal_of (data (reverseTransfer i c)) a = (if a = tr_from t
            then bal_shift (bal_of (data c) a) (tr_amount t) else bal_of (data c) a)"
      by (rule reverseTransfer_bal [OF f])
    then show ?thesis
      using assms(1,3) sum_effect_status_update [OF d f, of a Reversed] unfolding ts
      by (simp add: implements_def spec_balance_def transfer_effect_def)
  qed
  moreover have "distinct (map tr_id (transfers (data (reverseTransfer i c))))"
    unfolding ts using d by (simp only: distinct_status_update)
  ultimately show ?thesis by (simp add: implements_def)
qed

lemma implements_step:
  assumes "implements base (data c)" and "ui_guard (data c) op"
  shows "implements base (data (transfer_step c op))"
proof (cases op)
  case (CreatePending now src dst x)
  with assms show ?thesis
    by (cases "available (bal_of (data c) src) < x")
       (simp_all add: createPendingTransfer_insufficient implements_create)
next
  case (PostT i)
  with assms show ?thesis
    by (cases "find (\<lambda>t. tr_id t = i) (transfers (data c))")
       (simp_all add: postTransfer_missing implements_post)
next
  case (ReverseT i)
  with assms show ?thesis
    by (cases "find (\<lambda>t. tr_id t = i) (transfers (data c))")
       (simp_all add: reverseTransfer_missing implements_reverse)
next
  case (CreateDirect now src dst x)
  with assms show ?thesis
    by (cases "available (bal_of (data c) src) < x")
       (simp_all add: createTransfer_insufficient implements_create_direct)
qed

lemma implements_demo_client: "implements demo_base (data demo_client)"
  by (simp add: implements_def spec_balance_def demo_base_def demo_client_bal demo_client_transfers)

lemma implements_demo_pending: "implements demo_base (data demo_pending)"
proof -
  have fresh: "trf_id 5 \<notin> tr_id ` set (transfers (data demo_client))"
    by (simp add: demo_client_transfers)
  show ?thesis
    unfolding demo_pending_def
    by (rule implements_create [OF implements_demo_client _ fresh demo_client_guard]) simp
qed

lemma demo_posted_find:
  "find (\<lambda>t. tr_id t = trf_id 5) (transfers (data (postTransfer (trf_id 5) demo_pending))) =
   Some (demo_transfer\<lparr>tr_status := Posted\<rparr>)"
  by (simp add: postTransfer_found_data [OF demo_pending_find] demo_pending_transfers
      demo_transfer_def)

subsection \<open>Refinement\<close>

text \<open>C1: every run of transfer operations issued under the pages' conditions (recipient
  different from the sender, fresh clock reading, post and reverse only on a pending
  transfer) keeps the hook's stored balances equal to the specification's derivation from
  the transfer list, and keeps the transfer ids distinct.\<close>

theorem guarded_run_implements:
  "implements base (data c) \<Longrightarrow> guarded_run c ops \<Longrightarrow> implements base (data (transfer_run c ops))"
proof (induction ops arbitrary: c)
  case Nil
  then show ?case by simp
next
  case (Cons op ops)
  from Cons.prems have "implements base (data (transfer_step c op))"
    by (simp add: implements_step)
  with Cons.prems Cons.IH show ?case by simp
qed

theorem guarded_run_implements_witness:
  "implements demo_base (data (transfer_run demo_client
     [CreatePending 5 ''acc-1'' ''acc-2'' 400, PostT (trf_id 5)]))"
proof -
  have "transfer_step demo_client (CreatePending 5 ''acc-1'' ''acc-2'' 400) = demo_pending"
    by (simp add: demo_pending_def)
  then have "guarded_run demo_client [CreatePending 5 ''acc-1'' ''acc-2'' 400, PostT (trf_id 5)]"
    by (simp add: demo_client_transfers demo_pending_find demo_transfer_def)
  with implements_demo_client show ?thesis by (rule guarded_run_implements)
qed

subsection \<open>Outside the conditions\<close>

text \<open>C7: reversing a transfer that has already been posted breaks the specification's
  derivation: the sender is credited back but the receiver keeps the credit, so when the
  specification held before, it fails after, for any transfer with a nonzero amount
  between two different accounts.\<close>

theorem reverseTransfer_posted_breaks_refinement:
  assumes impl: "implements base (data c)"
    and f: "find (\<lambda>t. tr_id t = i) (transfers (data c)) = Some t"
    and "tr_status t = Posted" and "tr_from t \<noteq> tr_to t" and "tr_amount t \<noteq> 0"
  shows "\<not> implements base (data (reverseTransfer i c))"
proof
  assume impl': "implements base (data (reverseTransfer i c))"
  have d: "distinct (map tr_id (transfers (data c)))" using impl by (simp add: implements_def)
  have ts: "transfers (data (reverseTransfer i c)) =
      map (\<lambda>u. if tr_id u = i then u\<lparr>tr_status := Reversed\<rparr> else u) (transfers (data c))"
    using f by (simp add: reverseTransfer_found_data)
  have "bal_of (data (reverseTransfer i c)) (tr_to t) = bal_of (data c) (tr_to t)"
    using reverseTransfer_bal [OF f, of "tr_to t"] assms(4) by simp
  also have "\<dots> = spec_balance base (transfers (data c)) (tr_to t)"
    using impl by (simp add: implements_def)
  finally have "spec_balance base (transfers (data (reverseTransfer i c))) (tr_to t)
              = spec_balance base (transfers (data c)) (tr_to t)"
    using impl' by (simp add: implements_def)
  then show False
    using sum_effect_status_update [OF d f, of "tr_to t" Reversed] assms(3-5) unfolding ts
    by (simp add: spec_balance_def transfer_effect_def bal_shift_def)
qed

theorem reverseTransfer_posted_breaks_refinement_witness:
  "\<not> implements demo_base (data (reverseTransfer (trf_id 5) (postTransfer (trf_id 5) demo_pending)))"
proof -
  have "implements demo_base (data (postTransfer (trf_id 5) demo_pending))"
    by (rule implements_post [OF implements_demo_pending demo_pending_find])
       (simp add: demo_transfer_def)
  moreover have "tr_status (demo_transfer\<lparr>tr_status := Posted\<rparr>) = Posted"
    and "tr_from (demo_transfer\<lparr>tr_status := Posted\<rparr>) \<noteq> tr_to (demo_transfer\<lparr>tr_status := Posted\<rparr>)"
    and "tr_amount (demo_transfer\<lparr>tr_status := Posted\<rparr>) \<noteq> 0"
    by (simp_all add: demo_transfer_def)
  ultimately show ?thesis
    by (rule reverseTransfer_posted_breaks_refinement [OF _ demo_posted_find])
qed

text \<open>C8: \<open>createPendingTransfer\<close> does not reject a transfer to the sender itself. The
  object literal writes the debited balance under \<open>[from]\<close> and then the old balance
  under \<open>[to]\<close>, the same key, so the debit is lost; posting the transfer then credits the
  account: the account gains the amount from nothing.\<close>

theorem self_transfer_creates_value:
  assumes r: "createPendingTransfer now a a x c = (Inr t, c')"
    and fresh: "trf_id now \<notin> tr_id ` set (transfers (data c))"
  shows "bal_of (data c') a = bal_of (data c) a \<and>
         bal_of (data (postTransfer (tr_id t) c')) a = bal_shift (bal_of (data c) a) x"
proof -
  have ok: "\<not> available (bal_of (data c) a) < x"
    using r createPendingTransfer_insufficient by fastforce
  then have c': "c' = snd (createPendingTransfer now a a x c)" using r by simp
  have "fst (createPendingTransfer now a a x c) = Inr t" using r by simp
  with createPendingTransfer_success_result [OF ok, of now a]
  have t: "t = \<lparr>tr_id = trf_id now, tr_from = a, tr_to = a, tr_amount = x,
          tr_type = ''TRANSFER'', tr_status = Pending, tr_timestamp = now\<rparr>" by simp
  have b: "bal_of (data c') a = bal_of (data c) a"
    unfolding c' using createPendingTransfer_bal [OF ok, of now a a] by simp
  have "find (\<lambda>u. tr_id u = tr_id t) (transfers (data c')) = Some t"
    using fresh ok unfolding c' t
    by (simp add: createPendingTransfer_success_data find_append_fresh find_None_iff_keys)
  from postTransfer_bal [OF this, of a] b t show ?thesis by simp
qed

theorem self_transfer_creates_value_witness:
  "bal_of (data (snd (createPendingTransfer 5 ''acc-1'' ''acc-1'' 400 demo_client))) ''acc-1'' =
     \<lparr>total = 1000, available = 1000\<rparr> \<and>
   bal_of (data (postTransfer (trf_id 5) (snd (createPendingTransfer 5 ''acc-1'' ''acc-1'' 400 demo_client))))
     ''acc-1'' = \<lparr>total = 1400, available = 1400\<rparr>"
proof -
  let ?t = "\<lparr>tr_id = trf_id 5, tr_from = ''acc-1'', tr_to = ''acc-1'', tr_amount = 400::int,
             tr_type = ''TRANSFER'', tr_status = Pending, tr_timestamp = 5::nat\<rparr>"
  have r: "createPendingTransfer 5 ''acc-1'' ''acc-1'' 400 demo_client =
           (Inr ?t, snd (createPendingTransfer 5 ''acc-1'' ''acc-1'' 400 demo_client))"
    using createPendingTransfer_success_result [OF demo_client_guard, of 5 "''acc-1''"]
    by (simp add: prod_eq_iff)
  have "trf_id 5 \<notin> tr_id ` set (transfers (data demo_client))"
    by (simp add: demo_client_transfers)
  from self_transfer_creates_value [OF r this] show ?thesis
    by (simp add: demo_client_bal bal_shift_def)
qed


text \<open>C22: \<open>createPendingTransfer\<close> does not check that the amount is positive (the
  specification requires \<open>amount > 0\<close>; only the transfer page checks it). A negative
  amount passes the balance guard whenever the sender's available balance is not negative,
  and the "debit" then raises the sender's balance.\<close>

theorem createPendingTransfer_negative_amount:
  assumes "x < 0" and "0 \<le> available (bal_of (data c) from)" and "from \<noteq> to"
  shows "\<exists>t c'. createPendingTransfer now from to x c = (Inr t, c') \<and>
           bal_of (data c') from = bal_shift (bal_of (data c) from) (- x) \<and> 0 < - x"
proof -
  have g: "\<not> available (bal_of (data c) from) < x" using assms(1,2) by linarith
  have "createPendingTransfer now from to x c =
          (Inr \<lparr>tr_id = trf_id now, tr_from = from, tr_to = to, tr_amount = x,
                tr_type = ''TRANSFER'', tr_status = Pending, tr_timestamp = now\<rparr>,
           snd (createPendingTransfer now from to x c))"
    using createPendingTransfer_success_result [OF g, of now to] by (simp add: prod_eq_iff)
  moreover have "bal_of (data (snd (createPendingTransfer now from to x c))) from =
                 bal_shift (bal_of (data c) from) (- x)"
    using createPendingTransfer_bal [OF g, of now to "from"] assms(3) by simp
  ultimately show ?thesis using assms(1) by auto
qed

theorem createPendingTransfer_negative_amount_witness:
  "\<exists>t c'. createPendingTransfer 5 ''acc-1'' ''acc-2'' (-300) demo_client = (Inr t, c') \<and>
     bal_of (data c') ''acc-1'' = \<lparr>total = 1300, available = 1300\<rparr>"
proof -
  have "(-300::int) < 0" "0 \<le> available (bal_of (data demo_client) ''acc-1'')" "''acc-1'' \<noteq> ''acc-2''"
    by (simp_all add: demo_client_bal)
  from createPendingTransfer_negative_amount [OF this, of 5] show ?thesis
    by (auto simp: demo_client_bal)
qed

end
