(* ===== verification/Pages.thy ===== *)
theory Pages
  imports TransferSpec Storage
begin

text \<open>
  The logic the pages and components run on the hook's data before rendering or before
  calling the engine: the transfer page's validation (\<^verbatim>\<open>src/app/user/[id]/transfer/page.tsx\<close>)
  with JavaScript's \<open>Number.parseInt\<close>, the buttons of the transfer card
  (\<^verbatim>\<open>src/components/transfer-card.tsx\<close>), the admin transactions page's combined list, its
  statistics and its action handlers (\<^verbatim>\<open>src/app/admin/transactions/page.tsx\<close>), the admin
  dashboard's counters (\<^verbatim>\<open>src/app/admin/page.tsx\<close>), the user dashboard's lists
  (\<^verbatim>\<open>src/app/user/[id]/page.tsx\<close>) and the transfers list (\<^verbatim>\<open>src/components/transfers-list.tsx\<close>).
  Rendering itself is not modelled.
\<close>

subsection \<open>\<open>Number.parseInt\<close>\<close>

text \<open>\<open>parseInt(string)\<close> with no radix: leading white space is skipped, an optional
  sign is read, a \<open>0x\<close>/\<open>0X\<close> prefix selects radix 16 (otherwise 10), and the longest
  prefix of digits of the radix is read; no digit at all gives \<open>NaN\<close> (\<open>None\<close>). The white
  space modelled is the ASCII one (characters are bytes here); numbers are exact integers.\<close>

definition js_space :: "char \<Rightarrow> bool" where
  "js_space c \<longleftrightarrow> c \<in> set [CHR 0x20, CHR 0x09, CHR 0x0A, CHR 0x0B, CHR 0x0C, CHR 0x0D]"

definition js_digit_value :: "nat \<Rightarrow> char \<Rightarrow> nat option" where
  "js_digit_value r c =
     (let n = of_char c :: nat;
          v = (if 48 \<le> n \<and> n \<le> 57 then Some (n - 48)
               else if 97 \<le> n \<and> n \<le> 122 then Some (n - 87)
               else if 65 \<le> n \<and> n \<le> 90 then Some (n - 55)
               else None)
      in case v of Some d \<Rightarrow> if d < r then Some d else None | None \<Rightarrow> None)"

fun js_digits :: "nat \<Rightarrow> string \<Rightarrow> nat list" where
  "js_digits r [] = []"
| "js_digits r (c # cs) = (case js_digit_value r c of None \<Rightarrow> [] | Some d \<Rightarrow> d # js_digits r cs)"

definition digits_val :: "nat \<Rightarrow> nat list \<Rightarrow> nat" where
  "digits_val r ds = foldl (\<lambda>n d. n * r + d) 0 ds"

definition js_sign :: "string \<Rightarrow> int \<times> string" where
  "js_sign s = (case s of c # r \<Rightarrow> if c = CHR ''-'' then (-1, r) else if c = CHR ''+'' then (1, r) else (1, s)
                        | [] \<Rightarrow> (1, []))"

definition js_radix :: "string \<Rightarrow> nat \<times> string" where
  "js_radix s = (case s of c # x # r \<Rightarrow> if c = CHR ''0'' \<and> (x = CHR ''x'' \<or> x = CHR ''X'') then (16, r) else (10, s)
                         | _ \<Rightarrow> (10, s))"

definition parseInt :: "string \<Rightarrow> int option" where
  "parseInt s =
     (let (sign, s2) = js_sign (dropWhile js_space s);
          (r, s3) = js_radix s2;
          ds = js_digits r s3
      in if ds = [] then None else Some (sign * int (digits_val r ds)))"

text \<open>Strings of decimal digits.\<close>

abbreviation decimal_digits :: "string \<Rightarrow> bool" where
  "decimal_digits s \<equiv> set s \<subseteq> set ''0123456789''"

subsection \<open>The transfer page\<close>

text \<open>The recipient select offers the accounts that have a balance, the page's own
  account excluded (\<open>availableAccounts\<close>).\<close>

definition availableAccount :: "shadow_data \<Rightarrow> account_id \<Rightarrow> account_id \<Rightarrow> bool" where
  "availableAccount d accountId acc \<longleftrightarrow> balances d acc \<noteq> None \<and> acc \<noteq> accountId"

text \<open>\<open>handleTransfer\<close>: the recipient must be chosen, \<open>parseInt(amount)\<close> must be a number
  other than 0 and not negative; then \<open>createPendingTransfer\<close> runs, its error (or
  \<open>"Transfer failed"\<close> for an empty one) becoming the toast.\<close>

definition handleTransfer ::
  "millis \<Rightarrow> account_id \<Rightarrow> account_id \<Rightarrow> string \<Rightarrow> client \<Rightarrow> (string + transfer) \<times> client" where
  "handleTransfer now accountId recipient amount c =
     (if recipient = [] then (Inl ''Please select a recipient'', c)
      else case parseInt amount of
        None \<Rightarrow> (Inl ''Please enter a valid amount'', c)
      | Some transferAmount \<Rightarrow>
          (if transferAmount \<le> 0 then (Inl ''Please enter a valid amount'', c)
           else case createPendingTransfer now accountId recipient transferAmount c of
             (Inl e, c') \<Rightarrow> (Inl (if e = [] then ''Transfer failed'' else e), c')
           | (Inr t, c') \<Rightarrow> (Inr t, c')))"

subsection \<open>The transfer card\<close>

datatype card_action = PostAction | ReverseAction

primrec action_target :: "card_action \<Rightarrow> status" where
  "action_target PostAction = Posted"
| "action_target ReverseAction = Reversed"

text \<open>The buttons: none unless admin and not reversed; Post only when pending; Reverse.\<close>

definition card_actions :: "bool \<Rightarrow> status \<Rightarrow> card_action list" where
  "card_actions isAdmin st =
     (if isAdmin \<and> st \<noteq> Reversed then (if st = Pending then [PostAction] else []) @ [ReverseAction]
      else [])"

subsection \<open>Lists of the admin and user pages\<close>

text \<open>An entry of a combined list (\<open>itemType\<close> or \<open>type\<close> of the pages).\<close>

datatype item = TxItem transaction | TrItem transfer

fun item_status :: "item \<Rightarrow> status" where
  "item_status (TxItem t) = tx_status t"
| "item_status (TrItem t) = tr_status t"

fun item_amount :: "item \<Rightarrow> amount" where
  "item_amount (TxItem t) = tx_amount t"
| "item_amount (TrItem t) = tr_amount t"

fun item_timestamp :: "item \<Rightarrow> millis" where
  "item_timestamp (TxItem t) = tx_timestamp t"
| "item_timestamp (TrItem t) = tr_timestamp t"

text \<open>\<open>.sort((a, b) => time(b) - time(a))\<close>: newest first; the sort is stable, as
  \<open>sort_key\<close> is.\<close>

definition newest_first :: "item list \<Rightarrow> item list" where
  "newest_first xs = sort_key (\<lambda>i. - int (item_timestamp i)) xs"

definition allItems :: "shadow_data \<Rightarrow> item list" where
  "allItems d = newest_first (map TxItem (transactions d) @ map TrItem (transfers d))"

record admin_stats =
  totalTransactions :: nat
  totalTransfers :: nat
  pendingCount :: nat
  postedCount :: nat
  reversedCount :: nat
  totalVolume :: amount
  pendingVolume :: amount

definition stats :: "shadow_data \<Rightarrow> admin_stats" where
  "stats d =
     (let items = allItems d
      in \<lparr>totalTransactions = length (transactions d),
          totalTransfers = length (transfers d),
          pendingCount = length (filter (\<lambda>i. item_status i = Pending) items),
          postedCount = length (filter (\<lambda>i. item_status i = Posted) items),
          reversedCount = length (filter (\<lambda>i. item_status i = Reversed) items),
          totalVolume = foldl (\<lambda>sum i. sum + item_amount i) 0 (filter (\<lambda>i. item_status i = Posted) items),
          pendingVolume = foldl (\<lambda>sum i. sum + item_amount i) 0 (filter (\<lambda>i. item_status i = Pending) items)\<rparr>)"

text \<open>The admin dashboard's four counters.\<close>

definition dashboard_stats :: "shadow_data \<Rightarrow> nat list" where
  "dashboard_stats d =
     [length (transactions d),
      length (filter (\<lambda>t. tx_status t = Pending) (transactions d)),
      length (filter (\<lambda>t. tx_status t = Posted) (transactions d)),
      length (filter (\<lambda>t. tx_status t = Reversed) (transactions d))]"

text \<open>The admin page's handlers: the transaction ones await the operation and toast its
  outcome; the transfer ones call the operation and toast success unconditionally.\<close>

datatype admin_action = PostTx entry_id | ReverseTx entry_id | PostTr entry_id | ReverseTr entry_id

fun admin_handle :: "admin_action \<Rightarrow> server \<times> client \<Rightarrow> string \<times> (server \<times> client)" where
  "admin_handle (PostTx i) sc =
     (case postTransaction i sc of
        (Inl _, sc') \<Rightarrow> (''Failed to post transaction'', sc')
      | (Inr _, sc') \<Rightarrow> (''Transaction posted successfully'', sc'))"
| "admin_handle (ReverseTx i) sc =
     (case reverseTransaction i sc of
        (Inl _, sc') \<Rightarrow> (''Failed to reverse transaction'', sc')
      | (Inr _, sc') \<Rightarrow> (''Transaction reversed successfully'', sc'))"
| "admin_handle (PostTr i) (s, c) = (''Transfer posted successfully'', (s, postTransfer i c))"
| "admin_handle (ReverseTr i) (s, c) = (''Transfer reversed successfully'', (s, reverseTransfer i c))"

text \<open>The user dashboard of account \<open>a\<close>.\<close>

record user_view =
  uv_balance :: balance
  uv_notifications :: "string list"
  userTransactions :: "transaction list"
  postedIncomingTransfers :: "transfer list"
  allCredits :: "item list"
  pendingIncomingTransfers :: "transfer list"
  userOutgoingTransfers :: "transfer list"

definition user_page :: "shadow_data \<Rightarrow> account_id \<Rightarrow> user_view" where
  "user_page d accountId =
     (let userTxs = filter (\<lambda>t. tx_accountId t = accountId) (transactions d);
          postedIn = filter (\<lambda>t. tr_to t = accountId \<and> tr_status t = Posted) (transfers d)
      in \<lparr>uv_balance = bal_of d accountId,
          uv_notifications = get_or (notifications d) accountId [],
          userTransactions = userTxs,
          postedIncomingTransfers = postedIn,
          allCredits = newest_first (map TxItem userTxs @ map TrItem postedIn),
          pendingIncomingTransfers = filter (\<lambda>t. tr_to t = accountId \<and> tr_status t = Pending) (transfers d),
          userOutgoingTransfers = filter (\<lambda>t. tr_from t = accountId) (transfers d)\<rparr>)"

text \<open>The transfers list component: the account's transfers, sent or received.\<close>

definition userTransfers :: "transfer list \<Rightarrow> account_id \<Rightarrow> transfer list" where
  "userTransfers ts accountId = filter (\<lambda>t. tr_from t = accountId \<or> tr_to t = accountId) ts"

definition isSent :: "transfer \<Rightarrow> account_id \<Rightarrow> bool" where
  "isSent t accountId \<longleftrightarrow> tr_from t = accountId"


subsection \<open>Lemmas on parseInt\<close>

lemma js_digit_value_decimal:
  "c \<in> set ''0123456789'' \<Longrightarrow> js_digit_value 10 c = Some (digit_value c)"
  by (auto simp: js_digit_value_def digit_value_def)

lemma js_digits_decimal: "decimal_digits s \<Longrightarrow> js_digits 10 s = map digit_value s"
  by (induction s) (simp_all add: js_digit_value_decimal)

lemma digits_val_foldl:
  "foldl (\<lambda>n d. n * 10 + d) a (map digit_value s) = foldl (\<lambda>acc c. 10 * acc + digit_value c) a s"
  by (induction s arbitrary: a) (simp_all add: mult.commute)

lemma digits_val_decimal: "digits_val 10 (map digit_value s) = nat_of_digits s"
  by (simp add: digits_val_def nat_of_digits_def digits_val_foldl)

lemma string_of_nat_nonempty: "string_of_nat n \<noteq> []"
  by (cases "n < 10") (simp_all add: string_of_nat_large)

lemma decimal_prefix_free:
  "decimal_digits (c # r) \<Longrightarrow> c \<noteq> CHR ''-'' \<and> c \<noteq> CHR ''+'' \<and> \<not> js_space c \<and>
     (\<forall>x r'. r = x # r' \<longrightarrow> x \<noteq> CHR ''x'' \<and> x \<noteq> CHR ''X'')"
  by (auto simp: js_space_def)

lemma parseInt_decimal:
  assumes "decimal_digits s" and "s \<noteq> []"
  shows "parseInt s = Some (int (nat_of_digits s))"
    and "parseInt (CHR ''-'' # s) = Some (- int (nat_of_digits s))"
proof -
  obtain c r where s: "s = c # r" using assms(2) by (cases s) auto
  note pf = decimal_prefix_free [OF assms(1)[unfolded s]]
  have sp: "dropWhile js_space s = s" and sg: "js_sign s = (1, s)"
    using pf s by (simp_all add: js_sign_def)
  have rd: "js_radix s = (10, s)"
    using pf s by (cases r) (auto simp: js_radix_def)
  have ds: "js_digits 10 s = map digit_value s" by (rule js_digits_decimal [OF assms(1)])
  show "parseInt s = Some (int (nat_of_digits s))"
    using assms(2) by (simp add: parseInt_def sp sg rd ds digits_val_decimal)
  show "parseInt (CHR ''-'' # s) = Some (- int (nat_of_digits s))"
    using assms(2) by (simp add: parseInt_def js_space_def js_sign_def rd ds digits_val_decimal)
qed

subsection \<open>Lemmas on the pages\<close>

lemma createPendingTransfer_Inl_unchanged:
  "createPendingTransfer now f t x c = (Inl e, c') \<Longrightarrow> c' = c"
  by (simp add: createPendingTransfer_def Let_def split: if_splits)

lemma length_status_partition:
  "length (filter (\<lambda>i. f i = Pending) xs) + length (filter (\<lambda>i. f i = Posted) xs) +
   length (filter (\<lambda>i. f i = Reversed) xs) = length xs"
proof (induction xs)
  case Nil
  then show ?case by simp
next
  case (Cons x xs)
  then show ?case by (cases "f x") simp_all
qed

lemma mset_filter_newest_first: "mset (filter P (newest_first xs)) = mset (filter P xs)"
  by (simp add: newest_first_def mset_filter)

lemma sum_list_mset_eq:
  "mset xs = mset ys \<Longrightarrow> sum_list (map (f :: 'a \<Rightarrow> int) xs) = sum_list (map f ys)"
proof -
  assume "mset xs = mset ys"
  then have "mset (map f xs) = mset (map f ys)" by simp
  then show ?thesis by (metis sum_mset_sum_list)
qed

lemma length_filter_newest_first: "length (filter P (newest_first xs)) = length (filter P xs)"
  using mset_filter_newest_first [of P xs] by (metis size_mset)

lemma sum_filter_newest_first:
  "sum_list (map (f :: item \<Rightarrow> int) (filter P (newest_first xs))) = sum_list (map f (filter P xs))"
  by (rule sum_list_mset_eq [OF mset_filter_newest_first])

lemma foldl_add_sum_list:
  "foldl (\<lambda>sum i. sum + item_amount i) a xs = a + sum_list (map item_amount xs)"
  by (induction xs arbitrary: a) (simp_all add: algebra_simps)

lemma item_sum_TxItem:
  "sum_list (map item_amount (filter (\<lambda>i. item_status i = st) (map TxItem txs))) =
   sum_list (map tx_amount (filter (\<lambda>t. tx_status t = st) txs))"
  by (induction txs) simp_all

lemma item_sum_TrItem:
  "sum_list (map item_amount (filter (\<lambda>i. item_status i = st) (map TrItem trs))) =
   sum_list (map tr_amount (filter (\<lambda>t. tr_status t = st) trs))"
  by (induction trs) simp_all

lemma demo_pending_has_acc2: "balances (data demo_pending) ''acc-2'' \<noteq> None"
  by (simp add: demo_pending_def createPendingTransfer_success_data [OF demo_client_guard])

lemma parseInt_100: "parseInt ''100'' = Some 100"
  using parseInt_decimal(1) [of "''100''"] by (simp add: nat_of_digits_def digit_value_def)

subsection \<open>Properties of the pages\<close>

lemma parseInt_string_of_nat:
  "parseInt (string_of_nat n) = Some (int n) \<and> parseInt (CHR ''-'' # string_of_nat n) = Some (- int n)"
  using parseInt_decimal [OF string_of_nat_digits string_of_nat_nonempty]
  by (simp add: nat_of_digits_string_of_nat)

text \<open>C28: the transfer page hands a positive decimal amount typed by the user to
  \<open>createPendingTransfer\<close> unchanged (\<open>parseInt\<close> reads every decimal numeral back), and
  refuses its negation.\<close>

theorem handleTransfer_decimal:
  assumes "0 < n" and "r \<noteq> []"
  shows "handleTransfer now a r (string_of_nat n) c =
           (case createPendingTransfer now a r (int n) c of
              (Inl e, c') \<Rightarrow> (Inl (if e = [] then ''Transfer failed'' else e), c')
            | (Inr t, c') \<Rightarrow> (Inr t, c')) \<and>
         handleTransfer now a r (CHR ''-'' # string_of_nat n) c = (Inl ''Please enter a valid amount'', c)"
  using assms by (simp add: handleTransfer_def parseInt_string_of_nat)

text \<open>C23: a transfer submitted from the transfer page has a recipient, the positive
  amount \<open>parseInt\<close> read from the input, the page's account as sender, and is the result of
  \<open>createPendingTransfer\<close>; when the recipient comes from the page's select, it is not a
  transfer to the sender itself.\<close>

theorem handleTransfer_safe:
  assumes "handleTransfer now a r amt c = (Inr t, c')"
  shows "r \<noteq> [] \<and> parseInt amt = Some (tr_amount t) \<and> 0 < tr_amount t \<and> tr_from t = a \<and>
         tr_to t = r \<and> createPendingTransfer now a r (tr_amount t) c = (Inr t, c') \<and>
         (availableAccount (data c) a r \<longrightarrow> tr_from t \<noteq> tr_to t)"
proof -
  obtain x where r: "r \<noteq> []" and p: "parseInt amt = Some x" and x: "0 < x"
    and cp: "createPendingTransfer now a r x c = (Inr t, c')"
    using assms by (auto simp: handleTransfer_def split: if_splits option.splits sum.splits prod.splits)
  have "tr_amount t = x \<and> tr_from t = a \<and> tr_to t = r"
    using createPendingTransfer_Inr [OF cp] by simp
  with r p x cp show ?thesis by (auto simp: availableAccount_def)
qed

lemma js_digits_stop:
  "decimal_digits ds \<Longrightarrow> js_digit_value 10 ch = None \<Longrightarrow>
   js_digits 10 (ds @ ch # rest) = map digit_value ds"
  by (induction ds) (simp_all add: js_digit_value_decimal)

lemma parseInt_decimal_prefix:
  assumes ds: "decimal_digits ds" "ds \<noteq> []" and ch: "js_digit_value 10 ch = None"
    and hex: "ch \<noteq> CHR ''x''" "ch \<noteq> CHR ''X''"
  shows "parseInt (ds @ ch # rest) = parseInt ds"
proof -
  obtain d r where s: "ds = d # r" using ds(2) by (cases ds) auto
  note pf = decimal_prefix_free [OF ds(1)[unfolded s]]
  have sp: "dropWhile js_space (ds @ ch # rest) = ds @ ch # rest"
    and sg: "js_sign (ds @ ch # rest) = (1, ds @ ch # rest)"
    using pf s by (simp_all add: js_sign_def)
  have rd: "js_radix (ds @ ch # rest) = (10, ds @ ch # rest)"
    using pf s hex by (cases r) (auto simp: js_radix_def)
  have "parseInt (ds @ ch # rest) = Some (int (nat_of_digits ds))"
    using ds(2) by (simp add: parseInt_def sp sg rd js_digits_stop [OF ds(1) ch] digits_val_decimal)
  then show ?thesis using parseInt_decimal(1) [OF ds] by simp
qed

text \<open>C29: \<open>parseInt\<close> reads only the leading digits, so whatever follows a decimal
  numeral from the first character that is not a digit on (other than an \<open>x\<close> that would
  select radix 16) is ignored: the transfer page treats \<open>ds\<close> followed by anything as
  \<open>ds\<close>. The number input's value \<open>1e3\<close> (one thousand) transfers 1 and \<open>2.9\<close>
  transfers 2.\<close>

theorem handleTransfer_truncates_input:
  assumes "decimal_digits ds" "ds \<noteq> []" "js_digit_value 10 ch = None"
    and "ch \<noteq> CHR ''x''" "ch \<noteq> CHR ''X''"
  shows "handleTransfer now a r (ds @ ch # rest) c = handleTransfer now a r ds c"
  using parseInt_decimal_prefix [OF assms] by (simp add: handleTransfer_def)

text \<open>C24: the transfer card offers an admin exactly the transitions of the lifecycle
  from the transfer's status, and a user none.\<close>

theorem card_actions_lifecycle:
  "set (card_actions True st) = {act. status_step st (action_target act)} \<and> card_actions False st = []"
proof -
  have "act \<in> set (card_actions True st) \<longleftrightarrow> status_step st (action_target act)" for act
    by (cases st; cases act) (simp_all add: card_actions_def)
  then show ?thesis by (auto simp: card_actions_def)
qed

text \<open>C25: the statistics of the admin pages: the pending, posted and reversed counts
  add up to the number of entries, and the two volumes are the sums of the posted and of
  the pending amounts of transactions and transfers; sorting the combined list does not
  change them.\<close>

theorem stats_sound:
  "pendingCount (stats d) + postedCount (stats d) + reversedCount (stats d) =
     totalTransactions (stats d) + totalTransfers (stats d) \<and>
   totalVolume (stats d) =
     sum_list (map tx_amount (filter (\<lambda>t. tx_status t = Posted) (transactions d))) +
     sum_list (map tr_amount (filter (\<lambda>t. tr_status t = Posted) (transfers d))) \<and>
   pendingVolume (stats d) =
     sum_list (map tx_amount (filter (\<lambda>t. tx_status t = Pending) (transactions d))) +
     sum_list (map tr_amount (filter (\<lambda>t. tr_status t = Pending) (transfers d))) \<and>
   sum_list (tl (dashboard_stats d)) = hd (dashboard_stats d)"
proof -
  have "length (filter (\<lambda>i. item_status i = Pending) (allItems d)) +
        length (filter (\<lambda>i. item_status i = Posted) (allItems d)) +
        length (filter (\<lambda>i. item_status i = Reversed) (allItems d)) =
        length (transactions d) + length (transfers d)"
    using length_status_partition [of item_status "map TxItem (transactions d) @ map TrItem (transfers d)"]
    by (simp add: allItems_def length_filter_newest_first)
  moreover have "sum_list (tl (dashboard_stats d)) = hd (dashboard_stats d)"
    using length_status_partition [of tx_status "transactions d"] by (simp add: dashboard_stats_def)
  ultimately show ?thesis
    by (simp add: stats_def Let_def allItems_def foldl_add_sum_list sum_filter_newest_first
        item_sum_TxItem item_sum_TrItem)
qed

subsection \<open>Witnesses\<close>

theorem handleTransfer_safe_witness:
  "\<exists>t c'. handleTransfer 6 ''acc-1'' ''acc-2'' ''100'' demo_pending = (Inr t, c') \<and>
     tr_amount t = 100 \<and> tr_from t \<noteq> tr_to t"
proof -
  have g: "\<not> available (bal_of (data demo_pending) ''acc-1'') < 100" by (simp add: demo_pending_bal)
  obtain t c' where cp: "createPendingTransfer 6 ''acc-1'' ''acc-2'' 100 demo_pending = (Inr t, c')"
    using createPendingTransfer_ok_exists [OF g] by blast
  then have h: "handleTransfer 6 ''acc-1'' ''acc-2'' ''100'' demo_pending = (Inr t, c')"
    by (simp add: handleTransfer_def parseInt_100)
  have "availableAccount (data demo_pending) ''acc-1'' ''acc-2''"
    by (simp add: availableAccount_def demo_pending_has_acc2)
  with handleTransfer_safe [OF h] h show ?thesis by (auto simp: parseInt_100)
qed

theorem handleTransfer_decimal_witness:
  "handleTransfer 6 ''acc-1'' ''acc-2'' (string_of_nat 700) demo_pending =
     (Inl ''Insufficient available balance'', demo_pending)"
proof -
  have "(0::nat) < 700" "''acc-2'' \<noteq> []" by simp_all
  from handleTransfer_decimal [OF this, of 6 "''acc-1''" demo_pending] show ?thesis
    by (simp add: createPendingTransfer_insufficient demo_pending_bal)
qed

theorem handleTransfer_truncates_input_witness:
  "handleTransfer 6 ''acc-1'' ''acc-2'' ''1e3'' demo_pending = handleTransfer 6 ''acc-1'' ''acc-2'' ''1'' demo_pending \<and>
   handleTransfer 6 ''acc-1'' ''acc-2'' ''2.9'' demo_pending = handleTransfer 6 ''acc-1'' ''acc-2'' ''2'' demo_pending"
proof -
  have e: "js_digit_value 10 (CHR ''e'') = None" and p: "js_digit_value 10 (CHR ''.'') = None"
    by (simp_all add: js_digit_value_def)
  have "handleTransfer 6 ''acc-1'' ''acc-2'' (''1'' @ CHR ''e'' # ''3'') demo_pending =
        handleTransfer 6 ''acc-1'' ''acc-2'' ''1'' demo_pending"
    by (rule handleTransfer_truncates_input) (simp_all add: e)
  moreover have "handleTransfer 6 ''acc-1'' ''acc-2'' (''2'' @ CHR ''.'' # ''9'') demo_pending =
        handleTransfer 6 ''acc-1'' ''acc-2'' ''2'' demo_pending"
    by (rule handleTransfer_truncates_input) (simp_all add: p)
  ultimately show ?thesis by simp
qed

end
