(* ===== verification/Views.thy ===== *)
theory Views
  imports Pages
begin

text \<open>
  What the pages render from the hook's data, as values: the texts and conditional parts
  of the transfer page (\<^verbatim>\<open>src/app/user/[id]/transfer/page.tsx\<close>), the notification panel
  and its open/closed state (\<^verbatim>\<open>src/components/notification-panel.tsx\<close>), the sections of
  the user dashboard (\<^verbatim>\<open>src/app/user/[id]/page.tsx\<close>) with its refresh button and tabs, the statistic cards and item list
  of the admin pages (\<^verbatim>\<open>src/app/admin/transactions/page.tsx\<close>,
  \<^verbatim>\<open>src/app/admin/page.tsx\<close>), and the admin's clicks on a transfer card's buttons.
  A number inside JSX renders as its decimal string; \<open>toLocaleString\<close> as in
  \<open>Format\<close>. Styling, icons and motion are not modelled.
\<close>

subsection \<open>The transfer page\<close>

definition bulb :: string where
  "bulb = [CHR 0xF0, CHR 0x9F, CHR 0x92, CHR 0xA1]"

record transfer_form_view =
  tf_available :: string
  tf_pending_hint :: "string option"
  tf_send_disabled :: bool
  tf_button :: string

text \<open>The available balance, the hint shown while part of the total is not yet available,
  and the Send button, disabled while loading or while a field is empty.\<close>

definition transfer_page_view ::
  "shadow_data \<Rightarrow> account_id \<Rightarrow> account_id \<Rightarrow> string \<Rightarrow> bool \<Rightarrow> transfer_form_view" where
  "transfer_page_view d accountId recipient amount isLoading =
     (let currentBalance = bal_of d accountId
      in \<lparr>tf_available = naira_amount (available currentBalance),
          tf_pending_hint =
            (if available currentBalance < total currentBalance
             then Some (bulb @ '' '' @ naira_amount (total currentBalance - available currentBalance)
                        @ '' pending confirmation'')
             else None),
          tf_send_disabled = (isLoading \<or> recipient = [] \<or> amount = []),
          tf_button = (if isLoading then ''Processing...'' else ''Send'')\<rparr>)"

subsection \<open>The notification panel\<close>

record panel =
  isOpen :: bool
  displayNotifications :: "string list"

definition panel_mount :: "string list \<Rightarrow> panel" where
  "panel_mount props = \<lparr>isOpen = False, displayNotifications = props\<rparr>"

text \<open>The bell toggles the panel, the X closes it, and the effect on \<open>[notifications]\<close>
  copies new props into the displayed list.\<close>

datatype panel_event = BellClick | CloseClick | PropsChange "string list"

fun panel_step :: "panel \<Rightarrow> panel_event \<Rightarrow> panel" where
  "panel_step p BellClick = p\<lparr>isOpen := \<not> isOpen p\<rparr>"
| "panel_step p CloseClick = p\<lparr>isOpen := False\<rparr>"
| "panel_step p (PropsChange props) = p\<lparr>displayNotifications := props\<rparr>"

datatype panel_body = PanelClosed | NoNotifications | NotificationList "string list"

record panel_view =
  badge :: "string option"
  body :: panel_body

definition panel_render :: "panel \<Rightarrow> panel_view" where
  "panel_render p =
     \<lparr>badge = (if 0 < length (displayNotifications p)
               then Some (string_of_nat (length (displayNotifications p))) else None),
      body = (if \<not> isOpen p then PanelClosed
              else if length (displayNotifications p) = 0 then NoNotifications
              else NotificationList (displayNotifications p))\<rparr>"

subsection \<open>The user dashboard\<close>

datatype tab = CreditsTab | TransfersTab

datatype dash_node =
    PanelN "string list"
  | BalanceN amount amount
  | PendingIncomingN "string list"
  | CreditCards "item list"
  | OutgoingCards "transfer list"
  | EmptyStateN string string

text \<open>The panel, the balance card, the pending incoming transfers when there are any, and
  the active tab: the credits or the sent transfers, or an empty state.\<close>

definition user_dashboard_view :: "shadow_data \<Rightarrow> account_id \<Rightarrow> tab \<Rightarrow> dash_node list" where
  "user_dashboard_view d accountId activeTab =
     (let v = user_page d accountId
      in [PanelN (uv_notifications v), BalanceN (total (uv_balance v)) (available (uv_balance v))] @
         (if 0 < length (pendingIncomingTransfers v)
          then [PendingIncomingN (map (\<lambda>t. naira_amount (tr_amount t) @ '' from '' @ tr_from t)
                                      (pendingIncomingTransfers v))]
          else []) @
         (case activeTab of
            CreditsTab \<Rightarrow>
              (if length (allCredits v) = 0
               then [EmptyStateN ''No Credits'' ''Your credits will appear here'']
               else [CreditCards (allCredits v)])
          | TransfersTab \<Rightarrow>
              (if length (userOutgoingTransfers v) = 0
               then [EmptyStateN ''No Transfers'' ''Your sent transfers will appear here'']
               else [OutgoingCards (userOutgoingTransfers v)])))"

text \<open>The dashboard's own state: the refresh spinner and the active tab. \<open>handleRefresh\<close>
  sets the spinner and clears it 500 ms later; it does not call \<open>loadData\<close>, so the hook's
  data is left as it is.\<close>

record dash_ui =
  isRefreshing :: bool
  activeTab :: tab

definition dash_ui_init :: dash_ui where
  "dash_ui_init = \<lparr>isRefreshing = False, activeTab = CreditsTab\<rparr>"

datatype dash_event = RefreshClick | RefreshTimeout | TabClick tab

fun dash_step :: "client \<times> dash_ui \<Rightarrow> dash_event \<Rightarrow> client \<times> dash_ui" where
  "dash_step (c, u) RefreshClick = (c, u\<lparr>isRefreshing := True\<rparr>)"
| "dash_step (c, u) RefreshTimeout = (c, u\<lparr>isRefreshing := False\<rparr>)"
| "dash_step (c, u) (TabClick t) = (c, u\<lparr>activeTab := t\<rparr>)"

subsection \<open>The admin pages\<close>

datatype admin_node = StatCard string string string | AdminEmpty string string | AdminItems "item list"

definition admin_transactions_view :: "shadow_data \<Rightarrow> admin_node list" where
  "admin_transactions_view d =
     (let items = allItems d; st = stats d
      in [StatCard ''Total Items'' (string_of_nat (length items))
            (string_of_nat (totalTransactions st) @ '' transactions, '' @
             string_of_nat (totalTransfers st) @ '' transfers''),
          StatCard ''Pending'' (string_of_nat (pendingCount st)) (naira_amount (pendingVolume st)),
          StatCard ''Posted'' (string_of_nat (postedCount st)) (naira_amount (totalVolume st)),
          StatCard ''Reversed'' (string_of_nat (reversedCount st)) ''Cancelled items''] @
         (if length items = 0
          then [AdminEmpty ''No Transactions'' ''Create a transaction to get started'']
          else [AdminItems items]))"

definition admin_dashboard_view :: "shadow_data \<Rightarrow> (string \<times> string) list" where
  "admin_dashboard_view d =
     zip [''Total Transactions'', ''Pending'', ''Posted'', ''Reversed'']
         (map string_of_nat (dashboard_stats d))"

text \<open>A click of the admin on a button of the card of transfer \<open>i\<close>: only a button the card
  shows can be clicked, and it runs the page's handler.\<close>

definition admin_click ::
  "server \<times> client \<Rightarrow> entry_id \<Rightarrow> card_action \<Rightarrow> (server \<times> client) option" where
  "admin_click sc i act =
     (case find (\<lambda>t. tr_id t = i) (transfers (data (snd sc))) of
        None \<Rightarrow> None
      | Some t \<Rightarrow>
          (if act \<in> set (card_actions True (tr_status t))
           then Some (snd (admin_handle (case act of PostAction \<Rightarrow> PostTr i | ReverseAction \<Rightarrow> ReverseTr i) sc))
           else None))"

text \<open>How many transitions of the lifecycle are still possible from a status.\<close>

primrec status_rank :: "status \<Rightarrow> nat" where
  "status_rank Pending = 2"
| "status_rank Posted = 1"
| "status_rank Reversed = 0"

fun admin_clicks :: "server \<times> client \<Rightarrow> entry_id \<Rightarrow> card_action list \<Rightarrow> (server \<times> client) option" where
  "admin_clicks sc i [] = Some sc"
| "admin_clicks sc i (act # acts) =
     (case admin_click sc i act of None \<Rightarrow> None | Some sc' \<Rightarrow> admin_clicks sc' i acts)"


subsection \<open>Lemmas\<close>

lemma card_action_step:
  "act \<in> set (card_actions True st) \<Longrightarrow> status_step st (action_target act)"
  by (cases st; cases act) (simp_all add: card_actions_def)

lemma status_step_rank: "status_step a b \<Longrightarrow> status_rank b < status_rank a"
  by (cases a; cases b) simp_all

lemma find_status_update:
  "find (\<lambda>t. tr_id t = i) (transfers (data c)) = Some t \<Longrightarrow>
   find (\<lambda>u. tr_id u = i) (map (\<lambda>u. if tr_id u = i then u\<lparr>tr_status := st\<rparr> else u) (transfers (data c))) =
     Some (t\<lparr>tr_status := st\<rparr>)"
  by (simp add: find_map_keyed)

lemma admin_click_Some:
  assumes "admin_click sc i act = Some sc'"
  obtains t where "find (\<lambda>t. tr_id t = i) (transfers (data (snd sc))) = Some t"
    and "status_step (tr_status t) (action_target act)"
    and "find (\<lambda>u. tr_id u = i) (transfers (data (snd sc'))) = Some (t\<lparr>tr_status := action_target act\<rparr>)"
proof -
  obtain s c where sc: "sc = (s, c)" by fastforce
  from assms obtain t where f: "find (\<lambda>t. tr_id t = i) (transfers (data c)) = Some t"
    and a: "act \<in> set (card_actions True (tr_status t))"
    by (auto simp: admin_click_def sc split: option.splits if_splits)
  have "find (\<lambda>u. tr_id u = i) (transfers (data (snd sc'))) = Some (t\<lparr>tr_status := action_target act\<rparr>)"
    using assms f a
    by (cases act) (auto simp: admin_click_def sc postTransfer_found_data reverseTransfer_found_data
        find_status_update)
  with f show ?thesis by (intro that [OF _ card_action_step [OF a]]) (simp_all add: sc)
qed

lemma admin_clicks_bound:
  "admin_clicks sc i acts = Some sc' \<Longrightarrow> find (\<lambda>t. tr_id t = i) (transfers (data (snd sc))) = Some t \<Longrightarrow>
   length acts \<le> status_rank (tr_status t)"
proof (induction acts arbitrary: sc t)
  case Nil
  then show ?case by simp
next
  case (Cons act acts)
  from Cons.prems(1) obtain sc1 where c1: "admin_click sc i act = Some sc1"
    and rest: "admin_clicks sc1 i acts = Some sc'"
    by (auto split: option.splits)
  from c1 obtain t0 where f0: "find (\<lambda>t. tr_id t = i) (transfers (data (snd sc))) = Some t0"
    and st: "status_step (tr_status t0) (action_target act)"
    and f1: "find (\<lambda>u. tr_id u = i) (transfers (data (snd sc1))) = Some (t0\<lparr>tr_status := action_target act\<rparr>)"
    by (rule admin_click_Some)
  have "t0 = t" using f0 Cons.prems(2) by simp
  moreover have "length acts \<le> status_rank (action_target act)"
    using Cons.IH [OF rest f1] by simp
  ultimately show ?case using status_step_rank [OF st] by simp
qed

lemma admin_click_reverse:
  assumes "find (\<lambda>t. tr_id t = i) (transfers (data c)) = Some t" and "tr_status t \<noteq> Reversed"
  shows "admin_click (s, c) i ReverseAction =
           Some (s, reverseTransfer i c) \<and>
         find (\<lambda>u. tr_id u = i) (transfers (data (reverseTransfer i c))) = Some (t\<lparr>tr_status := Reversed\<rparr>)"
  using assms by (simp add: admin_click_def card_actions_def reverseTransfer_found_data find_status_update)

lemma mount_bal_of:
  "srv_up s \<Longrightarrow> bal_of (data (mount s ls)) a = calculateBalanceFromLedger (srv_ledger s a)"
  by (simp add: mount_def bal_of_loadData_up)

lemma srv_ledger_pending_sum:
  "sum_list (map le_amount (filter is_pending_entry (srv_ledger s a))) =
   sum_list (map tx_amount (filter (\<lambda>t. tx_accountId t = a \<and> tx_status t = Pending) (srv_transactions s)))"
proof -
  have "is_pending_entry (entry_of_transaction t) \<longleftrightarrow> tx_status t = Pending" for t
    by (cases "tx_status t") (simp_all add: is_pending_entry_def entry_of_transaction_def)
  then show ?thesis
    by (simp add: srv_ledger_def filter_map comp_def filter_filter entry_of_transaction_def conj_commute)
qed

text \<open>The refresh button shows no change made on the service since the mount: after an
  admin posts the pending deposit of \<open>demo_server2\<close>, a user page mounted before keeps
  showing 1000 available through a refresh, while a reload would show 1500.\<close>

lemma refresh_keeps_stale_balance:
  "fst (foldl dash_step (mount demo_server2 empty_store, dash_ui_init) [RefreshClick, RefreshTimeout]) =
     mount demo_server2 empty_store \<and>
   bal_of (data (mount demo_server2 empty_store)) ''acc-1'' = \<lparr>total = 1500, available = 1000\<rparr> \<and>
   bal_of (data (loadData (snd (api_postTransaction ''tx-1'' demo_server2)) (mount demo_server2 empty_store)))
     ''acc-1'' = \<lparr>total = 1500, available = 1500\<rparr>"
proof -
  have s': "snd (api_postTransaction ''tx-1'' demo_server2) =
      demo_server2\<lparr>srv_transactions := [\<lparr>tx_id = ''tx-0'', tx_accountId = ''acc-1'', tx_amount = 1000,
                            tx_status = Posted, tx_timestamp = 0\<rparr>,
                          \<lparr>tx_id = ''tx-1'', tx_accountId = ''acc-1'', tx_amount = 500,
                            tx_status = Posted, tx_timestamp = 0\<rparr>]\<rparr>"
    by (simp add: api_postTransaction_def srv_transition_def demo_server2_def)
  show ?thesis
    unfolding s'
    by (simp add: mount_def bal_of_loadData_up demo_server2_facts srv_ledger_def entry_of_transaction_def
        calculateBalanceFromLedger_def ledger_step_def zero_balance_def demo_server2_def)
qed

text \<open>The transfer handlers of the admin page toast success whatever happened: for an id
  that names no transfer nothing changes and the toast still says it was posted or
  reversed.\<close>

lemma admin_transfer_toast_unknown:
  assumes "i \<notin> tr_id ` set (transfers (data c))"
  shows "admin_handle (PostTr i) (s, c) = (''Transfer posted successfully'', (s, c)) \<and>
         admin_handle (ReverseTr i) (s, c) = (''Transfer reversed successfully'', (s, c))"
  using transfer_unknown_id_noop [OF assms] by simp

subsection \<open>Properties of the views\<close>

text \<open>C33: every transfer the admin page lists gets settled, and the admin's clicks on its
  card end: whatever buttons are clicked, at most two clicks are possible (each follows a
  step of the lifecycle), and at most one click of Reverse brings the transfer to the
  reversed status, where its card shows no button.\<close>

theorem admin_clicks_settle:
  assumes "find (\<lambda>t. tr_id t = i) (transfers (data c)) = Some t"
  shows "(\<forall>acts sc'. admin_clicks (s, c) i acts = Some sc' \<longrightarrow> length acts \<le> 2) \<and>
         (\<exists>acts s' c'. admin_clicks (s, c) i acts = Some (s', c') \<and> length acts \<le> 1 \<and>
            find (\<lambda>u. tr_id u = i) (transfers (data c')) = Some (t\<lparr>tr_status := Reversed\<rparr>) \<and>
            card_actions True (tr_status (t\<lparr>tr_status := Reversed\<rparr>)) = [])"
proof -
  have "status_rank (tr_status t) \<le> 2" by (cases "tr_status t") simp_all
  then have bound: "\<forall>acts sc'. admin_clicks (s, c) i acts = Some sc' \<longrightarrow> length acts \<le> 2"
    using admin_clicks_bound [of "(s, c)" i _ _ t] assms by fastforce
  show ?thesis
  proof (cases "tr_status t = Reversed")
    case True
    then have "admin_clicks (s, c) i [] = Some (s, c) \<and>
        find (\<lambda>u. tr_id u = i) (transfers (data c)) = Some (t\<lparr>tr_status := Reversed\<rparr>)"
      using assms by simp
    with bound show ?thesis by (fastforce simp: card_actions_def)
  next
    case False
    from admin_click_reverse [OF assms False, of s]
    have "admin_clicks (s, c) i [ReverseAction] = Some (s, reverseTransfer i c) \<and>
          find (\<lambda>u. tr_id u = i) (transfers (data (reverseTransfer i c))) = Some (t\<lparr>tr_status := Reversed\<rparr>)"
      by simp
    with bound show ?thesis by (fastforce simp: card_actions_def)
  qed
qed

text \<open>C34: after a page mounts on a reachable service, the transfer page's hint
  "pending confirmation" appears exactly when the account has pending deposits on the
  service, and shows their sum: pending transfers never contribute to it, since a transfer
  moves total and available together.\<close>

theorem transfer_page_pending_hint:
  assumes "srv_up s"
  shows "tf_pending_hint (transfer_page_view (data (mount s ls)) a r amt busy) =
           (let p = sum_list (map tx_amount
                      (filter (\<lambda>t. tx_accountId t = a \<and> tx_status t = Pending) (srv_transactions s)))
            in if 0 < p then Some (bulb @ '' '' @ naira_amount p @ '' pending confirmation'') else None)"
proof -
  have "total (bal_of (data (mount s ls)) a) - available (bal_of (data (mount s ls)) a) =
        sum_list (map tx_amount (filter (\<lambda>t. tx_accountId t = a \<and> tx_status t = Pending) (srv_transactions s)))"
    using assms by (simp add: mount_bal_of calculateBalanceFromLedger_gap srv_ledger_pending_sum)
  then show ?thesis by (simp add: transfer_page_view_def Let_def)
qed

subsection \<open>Witnesses\<close>

theorem admin_clicks_settle_witness:
  "(\<exists>acts s' c'. admin_clicks (demo_server, demo_pending) (trf_id 5) acts = Some (s', c') \<and>
      length acts \<le> 1 \<and>
      find (\<lambda>u. tr_id u = trf_id 5) (transfers (data c')) = Some (demo_transfer\<lparr>tr_status := Reversed\<rparr>)) \<and>
   admin_clicks (demo_server, demo_pending) (trf_id 5) [PostAction, PostAction] = None"
proof -
  have f: "find (\<lambda>t. tr_id t = trf_id 5) (transfers (data demo_pending)) = Some demo_transfer"
    by (rule demo_pending_find)
  have "admin_clicks (demo_server, demo_pending) (trf_id 5) [PostAction, PostAction] = None"
  proof -
    have p: "admin_click (demo_server, demo_pending) (trf_id 5) PostAction =
               Some (demo_server, postTransfer (trf_id 5) demo_pending)"
      using f by (simp add: admin_click_def card_actions_def demo_transfer_def)
    have "find (\<lambda>u. tr_id u = trf_id 5) (transfers (data (postTransfer (trf_id 5) demo_pending))) =
          Some (demo_transfer\<lparr>tr_status := Posted\<rparr>)"
      using f by (simp add: postTransfer_found_data find_status_update)
    then have "admin_click (demo_server, postTransfer (trf_id 5) demo_pending) (trf_id 5) PostAction = None"
      by (simp add: admin_click_def card_actions_def)
    with p show ?thesis by simp
  qed
  with admin_clicks_settle [OF f, of demo_server] show ?thesis by blast
qed

theorem transfer_page_pending_hint_witness:
  "tf_pending_hint (transfer_page_view (data (mount demo_server2 empty_store)) ''acc-1'' [] [] False) =
     Some (bulb @ '' '' @ naira_amount 500 @ '' pending confirmation'')"
proof -
  have "srv_up demo_server2" by (rule demo_server2_facts(1))
  from transfer_page_pending_hint [OF this, of empty_store "''acc-1''" "[]" "[]" False]
  show ?thesis by (simp add: demo_server2_def)
qed

end
