(* ===== verification/Forms.thy ===== *)
theory Forms
  imports Views Complex_Main
begin

text \<open>
  The admin's create page (\<^verbatim>\<open>src/app/admin/create/page.tsx\<close>), the transfer card
  (\<^verbatim>\<open>src/components/transfer-card.tsx\<close>) and the transfers list
  (\<^verbatim>\<open>src/components/transfers-list.tsx\<close>). The create page's amount is an
  \<open><input type="number" min="1" step="100">\<close>; what it may hold and when the browser lets
  the form submit follow the HTML standard: the value is sanitised to a valid
  floating-point number or the empty string, and a value below \<open>min\<close> or off the step grid
  (whose base is \<open>min\<close>) blocks the submit before \<open>handleSubmit\<close> runs. Numbers are exact
  rationals; \<open>Number()\<close> of a sanitised value is the value it denotes.
\<close>

subsection \<open>The number input\<close>

definition html_digit :: "char \<Rightarrow> bool" where
  "html_digit ch \<longleftrightarrow> ch \<in> set ''0123456789''"

text \<open>An optional exponent: \<open>e\<close> or \<open>E\<close>, an optional sign, one or more digits.\<close>

definition html_exponent :: "string \<Rightarrow> int option" where
  "html_exponent s =
     (if s = [] then Some 0
      else if hd s \<in> set ''eE'' then
        (let r = tl s;
             sg = (if take 1 r = ''-'' then -1 else 1 :: int);
             ds = (if take 1 r = ''-'' \<or> take 1 r = ''+'' then drop 1 r else r)
         in if ds \<noteq> [] \<and> list_all html_digit ds then Some (sg * int (nat_of_digits ds)) else None)
      else None)"

text \<open>A valid floating-point number: an optional \<open>-\<close>, digits, an optional \<open>.\<close> followed by
  digits (one of the two digit runs present), an optional exponent; its value.\<close>

definition html_float :: "string \<Rightarrow> rat option" where
  "html_float s =
     (let neg = (take 1 s = ''-'');
          s1 = (if neg then drop 1 s else s);
          ip = takeWhile html_digit s1;
          s2 = dropWhile html_digit s1;
          dot = (take 1 s2 = ''.'');
          fp = (if dot then takeWhile html_digit (drop 1 s2) else []);
          s3 = (if dot then dropWhile html_digit (drop 1 s2) else s2)
      in if (ip = [] \<and> fp = []) \<or> (dot \<and> fp = []) then None
         else map_option (\<lambda>e. (if neg then -1 else 1) * of_nat (nat_of_digits (ip @ fp)) / 10 ^ length fp *
                              (if 0 \<le> e then 10 ^ nat e else inverse (10 ^ nat (- e))))
                (html_exponent s3))"

text \<open>The value sanitisation of a number input, applied to what is typed.\<close>

definition sanitize_number :: "string \<Rightarrow> string" where
  "sanitize_number v = (if html_float v = None then [] else v)"

definition step_aligned :: "rat \<Rightarrow> rat \<Rightarrow> rat \<Rightarrow> bool" where
  "step_aligned base step x \<longleftrightarrow> of_int \<lfloor>(x - base) / step\<rfloor> = (x - base) / step"

text \<open>Constraint validation: no range underflow and no step mismatch (the empty value, of
  an input that is not \<open>required\<close>, suffers neither).\<close>

definition number_input_valid :: "rat \<Rightarrow> rat \<Rightarrow> string \<Rightarrow> bool" where
  "number_input_valid mn step v =
     (case html_float v of None \<Rightarrow> True | Some x \<Rightarrow> mn \<le> x \<and> step_aligned mn step x)"

text \<open>\<open>Number(amount)\<close> of a value the input holds; \<open>None\<close> for a string it cannot hold.\<close>

definition js_Number :: "string \<Rightarrow> rat option" where
  "js_Number v = (if v = [] then Some 0 else html_float v)"

subsection \<open>The create page\<close>

record create_form =
  cf_accountId :: account_id
  cf_amount :: string
  cf_isSubmitting :: bool

definition create_form_init :: create_form where
  "create_form_init = \<lparr>cf_accountId = ''acc-demo-1'', cf_amount = [], cf_isSubmitting = False\<rparr>"

definition create_options :: "account_id list" where
  "create_options = [''acc-demo-1'', ''acc-demo-2'']"

definition create_select :: "create_form \<Rightarrow> account_id \<Rightarrow> create_form" where
  "create_select f a = (if a \<in> set create_options then f\<lparr>cf_accountId := a\<rparr> else f)"

definition create_input :: "create_form \<Rightarrow> string \<Rightarrow> create_form" where
  "create_input f v = f\<lparr>cf_amount := sanitize_number v\<rparr>"

definition create_amount_valid :: "string \<Rightarrow> bool" where
  "create_amount_valid v = number_input_valid 1 100 v"

text \<open>The toasts of \<open>handleSubmit\<close>. The engine takes integer amounts, so a non-integer
  amount reaching \<open>createTransaction\<close> is reported as outside the model
  (\<open>create_submit_safe\<close> shows it never happens).\<close>

datatype create_outcome =
    SubmitBlocked
  | InvalidAmountToast
  | CreatedToast string
  | FailedToast
  | AmountOutsideModel string

definition create_handleSubmit ::
  "millis \<Rightarrow> create_form \<Rightarrow> server \<times> client \<Rightarrow> create_outcome \<times> create_form \<times> (server \<times> client)" where
  "create_handleSubmit now f sc =
     (let amount = cf_amount f; accountId = cf_accountId f
      in if amount = [] \<or> (case js_Number amount of None \<Rightarrow> False | Some x \<Rightarrow> x \<le> 0)
         then (InvalidAmountToast, f, sc)
         else (case js_Number amount of
                 None \<Rightarrow> (AmountOutsideModel amount, f, sc)
               | Some x \<Rightarrow>
                   if of_int \<lfloor>x\<rfloor> \<noteq> x then (AmountOutsideModel amount, f, sc)
                   else (case createTransaction now accountId \<lfloor>x\<rfloor> sc of
                           (Inr _, sc') \<Rightarrow> (CreatedToast (''Transaction created for '' @ accountId),
                                            f\<lparr>cf_amount := []\<rparr>, sc')
                         | (Inl _, sc') \<Rightarrow> (FailedToast, f, sc'))))"

text \<open>Pressing \<open>Create Transaction\<close>: the browser validates the amount first.\<close>

definition create_submit ::
  "millis \<Rightarrow> create_form \<Rightarrow> server \<times> client \<Rightarrow> create_outcome \<times> create_form \<times> (server \<times> client)" where
  "create_submit now f sc =
     (if create_amount_valid (cf_amount f) then create_handleSubmit now f sc else (SubmitBlocked, f, sc))"

text \<open>What the create page shows: the account select with its two options, the amount
  field, and the button, disabled with the label \<open>Creating...\<close> while a submission
  runs.\<close>

record create_page_view =
  cv_options :: "account_id list"
  cv_selected :: account_id
  cv_amount :: string
  cv_button :: string
  cv_button_disabled :: bool

definition create_page_view :: "create_form \<Rightarrow> create_page_view" where
  "create_page_view f =
     \<lparr>cv_options = create_options, cv_selected = cf_accountId f, cv_amount = cf_amount f,
      cv_button = (if cf_isSubmitting f then ''Creating...'' else ''Create Transaction''),
      cv_button_disabled = cf_isSubmitting f\<rparr>"

text \<open>A form the page can be in: a listed account and a sanitised amount.\<close>

definition create_form_ok :: "create_form \<Rightarrow> bool" where
  "create_form_ok f \<longleftrightarrow>
     cf_accountId f \<in> set create_options \<and> (cf_amount f = [] \<or> html_float (cf_amount f) \<noteq> None)"

subsection \<open>The transfer card and the transfers list\<close>

definition right_arrow :: string where
  "right_arrow = [CHR 0xE2, CHR 0x86, CHR 0x92]"

primrec status_label :: "status \<Rightarrow> string" where
  "status_label Pending = ''Pending''"
| "status_label Posted = ''Posted''"
| "status_label Reversed = ''Reversed''"

record transfer_card_view =
  tc_route :: string
  tc_label :: string
  tc_pulse :: bool
  tc_amount :: string
  tc_type :: string
  tc_buttons :: "card_action list"

definition transfer_card_view :: "bool \<Rightarrow> transfer \<Rightarrow> transfer_card_view" where
  "transfer_card_view isAdmin t =
     \<lparr>tc_route = tr_from t @ '' '' @ right_arrow @ '' '' @ tr_to t,
      tc_label = status_label (tr_status t),
      tc_pulse = (tr_status t = Pending),
      tc_amount = naira_amount (tr_amount t),
      tc_type = ''Type: '' @ tr_type t,
      tc_buttons = card_actions isAdmin (tr_status t)\<rparr>"

datatype list_row = ListRow bool string string

datatype transfers_list_view = NoTransfersYet | TransferRows "list_row list"

definition transfers_list_view :: "transfer list \<Rightarrow> account_id \<Rightarrow> transfers_list_view" where
  "transfers_list_view ts accountId =
     (let u = userTransfers ts accountId
      in if length u = 0 then NoTransfersYet
         else TransferRows (map (\<lambda>t. let sent = isSent t accountId
                                      in ListRow sent
                                           (if sent then ''Sent to '' @ tr_to t else ''Received from '' @ tr_from t)
                                           ((if sent then ''-'' else ''+'') @ naira_amount (tr_amount t)))
                                u))"


subsection \<open>Lemmas\<close>

lemma list_all_html_digit_nat: "list_all html_digit (string_of_nat n)"
  unfolding list_all_iff html_digit_def using string_of_nat_digits [of n] by blast

lemma string_of_nat_no_sign: "(take 1 (string_of_nat n) = ''-'') = False"
proof -
  have h: "hd (string_of_nat n) \<in> set ''0123456789''"
    using string_of_nat_digits [of n] string_of_nat_nonempty [of n] by (meson hd_in_set subsetD)
  have "hd (string_of_nat n) \<noteq> CHR ''-''"
  proof
    assume "hd (string_of_nat n) = CHR ''-''"
    with h show False by simp
  qed
  then show ?thesis using string_of_nat_nonempty [of n]
    by (cases "string_of_nat n") simp_all
qed

lemma html_float_nat [simp]: "html_float (string_of_nat n) = Some (of_nat n)"
proof -
  have d: "list_all html_digit (string_of_nat n)" by (rule list_all_html_digit_nat)
  have tw: "takeWhile html_digit (string_of_nat n) = string_of_nat n"
    and dw: "dropWhile html_digit (string_of_nat n) = []"
    using d by (simp_all add: list_all_iff)
  have ex: "html_exponent [] = Some 0" by (simp add: html_exponent_def)
  show ?thesis
    unfolding html_float_def Let_def string_of_nat_no_sign if_False tw dw
    by (simp add: ex string_of_nat_nonempty nat_of_digits_string_of_nat)
qed
lemma step_aligned_int:
  assumes "0 < st"
  shows "step_aligned (of_int b) (of_int st) (of_int a :: rat) \<longleftrightarrow> st dvd (a - b)"
proof -
  have q: "(of_int a - of_int b) / of_int st = (of_int (a - b) / of_int st :: rat)" by simp
  have "of_int ((a - b) div st) = (of_int (a - b) / of_int st :: rat) \<longleftrightarrow>
        of_int ((a - b) div st * st) = (of_int (a - b) :: rat)"
    using assms by (simp add: field_simps)
  also have "\<dots> \<longleftrightarrow> st dvd (a - b)"
    by (metis dvd_div_mult_self dvd_triv_right of_int_eq_iff)
  finally show ?thesis unfolding step_aligned_def q floor_divide_of_int_eq .
qed

lemma step_aligned_create:
  assumes "1 \<le> x" and "step_aligned 1 100 x"
  shows "of_int \<lfloor>x\<rfloor> = x \<and> 1 \<le> \<lfloor>x\<rfloor> \<and> \<lfloor>x\<rfloor> mod 100 = 1"
proof -
  define k where "k = \<lfloor>(x - 1) / 100\<rfloor>"
  have "of_int k = (x - 1) / 100" using assms(2) by (simp add: step_aligned_def k_def)
  then have x: "x = of_int (100 * k + 1)" by (simp add: field_simps)
  have fl: "\<lfloor>x\<rfloor> = 100 * k + 1" unfolding x by (rule floor_of_int)
  have "1 \<le> 100 * k + 1" using assms(1) unfolding x by simp
  moreover have "(100 * k + 1) mod 100 = 1" by simp
  ultimately show ?thesis unfolding fl using x by simp
qed

lemma mod_100_one: "(1 \<le> n \<and> 100 dvd (int n - 1)) \<longleftrightarrow> n mod 100 = 1"
proof (cases n)
  case 0
  then show ?thesis by simp
next
  case (Suc m)
  have "(100::int) dvd int m \<longleftrightarrow> 100 dvd m" by (metis int_dvd_int_iff of_nat_numeral)
  then show ?thesis using Suc by (simp add: mod_Suc dvd_eq_mod_eq_0)
qed

lemma create_valid_nat: "create_amount_valid (string_of_nat n) \<longleftrightarrow> n mod 100 = 1"
proof -
  have s: "step_aligned 1 100 (of_nat n :: rat) \<longleftrightarrow> 100 dvd (int n - 1)"
    using step_aligned_int [of 100 1 "int n"] by simp
  have "create_amount_valid (string_of_nat n) \<longleftrightarrow> 1 \<le> n \<and> 100 dvd (int n - 1)"
    by (simp add: create_amount_valid_def number_input_valid_def s)
  also have "\<dots> \<longleftrightarrow> n mod 100 = 1" by (rule mod_100_one)
  finally show ?thesis .
qed

lemma create_form_ok_input: "create_form_ok f \<Longrightarrow> create_form_ok (create_input f v)"
  by (simp add: create_form_ok_def create_input_def sanitize_number_def)

lemma create_form_ok_select: "create_form_ok f \<Longrightarrow> create_form_ok (create_select f a)"
  by (simp add: create_form_ok_def create_select_def)

lemma create_form_ok_init: "create_form_ok create_form_init"
  by (simp add: create_form_ok_def create_form_init_def create_options_def)

lemma create_submit_1000: "fst (create_submit now (create_input f (string_of_nat 1000)) sc) = SubmitBlocked"
  by (simp add: create_submit_def create_valid_nat create_input_def sanitize_number_def)

lemma transfers_list_view_status:
  "transfers_list_view (map (\<lambda>t. t\<lparr>tr_status := st t\<rparr>) ts) a = transfers_list_view ts a"
  by (simp add: transfers_list_view_def userTransfers_def isSent_def filter_map comp_def Let_def)


subsection \<open>Properties of the create page\<close>

text \<open>C26: the create page's amount input has \<open>min="1"\<close> and \<open>step="100"\<close>, so the step
  grid starts at 1: a decimal amount \<open>n\<close> reaches \<open>createTransaction\<close> exactly when
  \<open>n mod 100 = 1\<close> (1, 101, 201, ...), and every other amount, 100 and 1000 among them, is
  blocked by the browser before \<open>handleSubmit\<close> runs. A successful creation clears the
  field; a failed one keeps it.\<close>

theorem create_submit_decimal:
  "create_submit now (create_input f (string_of_nat n)) sc =
     (if n mod 100 = 1
      then (case createTransaction now (cf_accountId f) (int n) sc of
              (Inr _, sc') \<Rightarrow> (CreatedToast (''Transaction created for '' @ cf_accountId f),
                               f\<lparr>cf_amount := []\<rparr>, sc')
            | (Inl _, sc') \<Rightarrow> (FailedToast, create_input f (string_of_nat n), sc'))
      else (SubmitBlocked, create_input f (string_of_nat n), sc))"
proof (cases "n mod 100 = 1")
  case True
  then have "0 < n" by (cases n) simp_all
  with True show ?thesis
    by (simp add: create_submit_def create_valid_nat create_handleSubmit_def create_input_def
        sanitize_number_def js_Number_def string_of_nat_nonempty split: prod.splits sum.splits)
next
  case False
  then show ?thesis
    by (simp add: create_submit_def create_valid_nat create_input_def sanitize_number_def)
qed

text \<open>C27: whatever the admin types and selects, pressing Create either changes nothing
  (blocked by the browser, or refused with a toast) or calls \<open>createTransaction\<close> for the
  selected account with an integer amount of at least 1 congruent to 1 modulo 100; a
  fraction never reaches the engine, and the form stays in a state the page can be in.\<close>

theorem create_submit_safe:
  assumes ok: "create_form_ok f" and r: "create_submit now f sc = (out, f', sc')"
  shows "create_form_ok f' \<and>
         (case out of
            SubmitBlocked \<Rightarrow> f' = f \<and> sc' = sc
          | InvalidAmountToast \<Rightarrow> f' = f \<and> sc' = sc
          | AmountOutsideModel _ \<Rightarrow> False
          | _ \<Rightarrow> (\<exists>x res. 1 \<le> x \<and> x mod 100 = 1 \<and>
                    createTransaction now (cf_accountId f) x sc = (res, sc')))"
proof (cases "create_amount_valid (cf_amount f) \<and> cf_amount f \<noteq> [] \<and>
              \<not> (case js_Number (cf_amount f) of None \<Rightarrow> False | Some x \<Rightarrow> x \<le> 0)")
  case False
  have "create_submit now f sc =
          (if create_amount_valid (cf_amount f) then InvalidAmountToast else SubmitBlocked, f, sc)"
  proof (cases "create_amount_valid (cf_amount f)")
    case v: True
    with False have g: "cf_amount f = [] \<or> (case js_Number (cf_amount f) of None \<Rightarrow> False | Some x \<Rightarrow> x \<le> 0)"
      by blast
    show ?thesis unfolding create_submit_def create_handleSubmit_def Let_def
      by (simp only: v if_True if_P [OF g])
  qed (simp add: create_submit_def)
  then have o: "out = SubmitBlocked \<or> out = InvalidAmountToast" and ff: "f' = f" and ss: "sc' = sc"
    using r by (simp_all split: if_splits)
  from o show ?thesis
  proof
    assume "out = SubmitBlocked"
    then show ?thesis unfolding ff ss using ok by (simp only: create_outcome.case simp_thms)
  next
    assume "out = InvalidAmountToast"
    then show ?thesis unfolding ff ss using ok by (simp only: create_outcome.case simp_thms)
  qed
next
  case True
  then obtain x where x: "html_float (cf_amount f) = Some x" and pos: "\<not> x \<le> 0"
    and st: "1 \<le> x \<and> step_aligned 1 100 x"
    using ok by (auto simp: js_Number_def create_amount_valid_def number_input_valid_def create_form_ok_def
        split: option.splits)
  have fl: "of_int \<lfloor>x\<rfloor> = x \<and> 1 \<le> \<lfloor>x\<rfloor> \<and> \<lfloor>x\<rfloor> mod 100 = 1"
    using step_aligned_create st by blast
  obtain res sc'' where ct: "createTransaction now (cf_accountId f) \<lfloor>x\<rfloor> sc = (res, sc'')"
    by (cases "createTransaction now (cf_accountId f) \<lfloor>x\<rfloor> sc")
  have "create_submit now f sc =
          (case res of Inr _ \<Rightarrow> (CreatedToast (''Transaction created for '' @ cf_accountId f),
                                  f\<lparr>cf_amount := []\<rparr>, sc'')
                     | Inl _ \<Rightarrow> (FailedToast, f, sc''))"
    using True x fl ct by (simp add: create_submit_def create_handleSubmit_def Let_def js_Number_def)
  then show ?thesis using r ok fl ct
    by (cases res) (auto simp: create_form_ok_def)
qed

subsection \<open>Witnesses\<close>

theorem create_submit_safe_witness:
  "create_form_ok (create_input create_form_init (string_of_nat 101)) \<and>
   (\<exists>out f' sc'. create_submit 5 (create_input create_form_init (string_of_nat 101))
                   (demo_server, mount demo_server empty_store) = (out, f', sc') \<and>
                 create_form_ok f' \<and> out \<noteq> AmountOutsideModel (string_of_nat 101))"
proof -
  have ok: "create_form_ok (create_input create_form_init (string_of_nat 101))"
    by (rule create_form_ok_input [OF create_form_ok_init])
  obtain out f' sc' where r: "create_submit 5 (create_input create_form_init (string_of_nat 101))
                               (demo_server, mount demo_server empty_store) = (out, f', sc')"
    by (metis prod_cases3)
  from create_submit_safe [OF ok r] have "create_form_ok f' \<and> out \<noteq> AmountOutsideModel (string_of_nat 101)"
    using ok by (cases out) simp_all
  with ok r show ?thesis by blast
qed

end
