(* ===== verification/Navigation.thy ===== *)
theory Navigation
  imports Pages
begin

text \<open>
  Navigation between the pages. The App Router serves one page per \<^verbatim>\<open>page.tsx\<close> under
  \<^verbatim>\<open>src/app\<close>: \<^verbatim>\<open>/admin\<close>, \<^verbatim>\<open>/admin/create\<close>, \<^verbatim>\<open>/admin/transactions\<close>,
  \<^verbatim>\<open>/user/[id]\<close> and \<^verbatim>\<open>/user/[id]/transfer\<close>; there is no \<^verbatim>\<open>src/app/page.tsx\<close>. A path
  is resolved segment by segment as the code writes it (no trailing-slash or
  percent-decoding normalisation). The links and pushes of the code are their target
  paths; the navbar's badge, the sidebar's links, the admin dashboard's quick actions, the
  dashboard's Send button, and the transfer form with its reset and redirect after a
  successful \<open>handleTransfer\<close>.
\<close>

subsection \<open>Routes\<close>

datatype route =
    AdminDashboard
  | AdminCreate
  | AdminTransactions
  | UserDashboard account_id
  | UserTransfer account_id

fun route_path :: "route \<Rightarrow> string" where
  "route_path AdminDashboard = ''/admin''"
| "route_path AdminCreate = ''/admin/create''"
| "route_path AdminTransactions = ''/admin/transactions''"
| "route_path (UserDashboard a) = ''/user/'' @ a"
| "route_path (UserTransfer a) = ''/user/'' @ a @ ''/transfer''"

fun split_path :: "string \<Rightarrow> string list" where
  "split_path [] = [[]]"
| "split_path (ch # cs) =
     (let ws = split_path cs in if ch = CHR ''/'' then [] # ws else (ch # hd ws) # tl ws)"

definition resolve :: "string \<Rightarrow> route option" where
  "resolve p =
     (let segs = split_path p
      in if segs = ['''', ''admin''] then Some AdminDashboard
         else if segs = ['''', ''admin'', ''create''] then Some AdminCreate
         else if segs = ['''', ''admin'', ''transactions''] then Some AdminTransactions
         else if length segs = 3 \<and> segs ! 0 = [] \<and> segs ! 1 = ''user'' \<and> segs ! 2 \<noteq> []
           then Some (UserDashboard (segs ! 2))
         else if length segs = 4 \<and> segs ! 0 = [] \<and> segs ! 1 = ''user'' \<and> segs ! 2 \<noteq> [] \<and>
                 segs ! 3 = ''transfer''
           then Some (UserTransfer (segs ! 2))
         else None)"

text \<open>A dynamic segment \<open>[id]\<close> is one non-empty path segment.\<close>

definition segment :: "string \<Rightarrow> bool" where
  "segment a \<longleftrightarrow> a \<noteq> [] \<and> CHR ''/'' \<notin> set a"

fun route_ok :: "route \<Rightarrow> bool" where
  "route_ok (UserDashboard a) = segment a"
| "route_ok (UserTransfer a) = segment a"
| "route_ok _ = True"

subsection \<open>Links\<close>

datatype role = AdminRole | UserRole

text \<open>The navbar's badge; \<open>accountId\<close> is optional, and a template literal prints an
  absent one as \<open>undefined\<close>.\<close>

definition navbar_badge :: "role \<Rightarrow> account_id option \<Rightarrow> string" where
  "navbar_badge userRole accountId =
     (if userRole = AdminRole then ''Admin Dashboard''
      else ''User: '' @ (case accountId of None \<Rightarrow> ''undefined'' | Some a \<Rightarrow> a))"

definition adminLinks :: "(string \<times> string) list" where
  "adminLinks = [(''/admin'', ''Dashboard''), (''/admin/create'', ''Create Transaction''),
                 (''/admin/transactions'', ''All Transactions'')]"

text \<open>The sidebar: its links with the one of the current path active, then the two quick
  access links.\<close>

definition sidebar_view :: "string \<Rightarrow> (string \<times> string \<times> bool) list" where
  "sidebar_view pathname =
     map (\<lambda>(href, label). (href, label, pathname = href)) adminLinks @
     [(''/user/acc-demo-1'', ''View User 1'', False), (''/user/acc-demo-2'', ''View User 2'', False)]"

definition admin_quick_actions :: "(string \<times> string) list" where
  "admin_quick_actions = [(''Create New Transaction'', ''/admin/create''),
                          (''View All Transactions'', ''/admin/transactions'')]"

definition send_money_target :: "account_id \<Rightarrow> string" where
  "send_money_target accountId = ''/user/'' @ accountId @ ''/transfer''"

subsection \<open>The transfer form\<close>

record transfer_form =
  tform_recipient :: account_id
  tform_amount :: string
  tform_isLoading :: bool

definition transfer_form_init :: transfer_form where
  "transfer_form_init = \<lparr>tform_recipient = [], tform_amount = [], tform_isLoading = False\<rparr>"

text \<open>Submitting the form: the toast, the form afterwards, the hook instance, and the
  path pushed 1.5 s later on success.\<close>

definition transfer_submit ::
  "millis \<Rightarrow> account_id \<Rightarrow> transfer_form \<Rightarrow> client \<Rightarrow> string \<times> transfer_form \<times> client \<times> string option" where
  "transfer_submit now accountId f c =
     (case handleTransfer now accountId (tform_recipient f) (tform_amount f) c of
        (Inr t, c') \<Rightarrow> (''Transfer sent! Awaiting admin confirmation.'',
                        f\<lparr>tform_recipient := [], tform_amount := []\<rparr>, c', Some (''/user/'' @ accountId))
      | (Inl e, c') \<Rightarrow> (e, f, c', None))"

subsection \<open>Lemmas\<close>

lemma split_path_nonempty [simp]: "split_path s \<noteq> []"
  by (induction s) (simp_all add: Let_def)

lemma split_path_segment:
  "CHR ''/'' \<notin> set a \<Longrightarrow> split_path (a @ rest) = (a @ hd (split_path rest)) # tl (split_path rest)"
  by (induction a) (auto simp: Let_def)

lemma split_path_word: "CHR ''/'' \<notin> set a \<Longrightarrow> split_path a = [a]"
  using split_path_segment [of a "[]"] by simp

lemma resolve_user_dashboard: "segment a \<Longrightarrow> resolve (''/user/'' @ a) = Some (UserDashboard a)"
proof -
  assume a: "segment a"
  then have "split_path (''/user/'' @ a) = ['''', ''user'', a]"
    by (simp add: segment_def split_path_word Let_def)
  then show ?thesis using a by (simp add: resolve_def segment_def)
qed

lemma resolve_user_transfer:
  "segment a \<Longrightarrow> resolve (''/user/'' @ a @ ''/transfer'') = Some (UserTransfer a)"
proof -
  assume a: "segment a"
  then have "split_path (''/user/'' @ a @ ''/transfer'') = ['''', ''user'', a, ''transfer'']"
    by (simp add: segment_def split_path_segment Let_def)
  then show ?thesis using a by (simp add: resolve_def segment_def)
qed

text \<open>Every link and push the code writes reaches a page: the sidebar's links, the admin
  dashboard's quick actions, the dashboard's Send button, and the redirect after a
  successful transfer, which returns to the sender's dashboard. The root path has no page.\<close>

lemma code_links_resolve:
  "\<forall>(h, l, act) \<in> set (sidebar_view p). resolve h \<noteq> None"
  "\<forall>(l, h) \<in> set admin_quick_actions. resolve h \<noteq> None"
  by (auto simp: sidebar_view_def adminLinks_def admin_quick_actions_def resolve_def Let_def)

lemma send_money_resolves: "segment a \<Longrightarrow> resolve (send_money_target a) = Some (UserTransfer a)"
  unfolding send_money_target_def by (rule resolve_user_transfer)

lemma transfer_submit_redirect:
  assumes r: "transfer_submit now a f c = (m, f', c', Some p)" and seg: "segment a"
  shows "resolve p = Some (UserDashboard a)"
proof -
  have "p = ''/user/'' @ a" using r by (auto simp: transfer_submit_def split: prod.splits sum.splits)
  then show ?thesis using resolve_user_dashboard [OF seg] by (simp only:)
qed

lemma root_not_found: "resolve ''/'' = None"
  by (simp add: resolve_def)

subsection \<open>Properties of navigation\<close>

text \<open>Printing a route and resolving the path gives the route back, for every account
  id that is one path segment: no two routes share a path, and every route the code can
  name reaches its page.\<close>

lemma route_roundtrip: "route_ok r \<Longrightarrow> resolve (route_path r) = Some r"
proof (induction r)
  case (UserDashboard a)
  then have "segment a" by simp
  then show ?case unfolding route_path.simps by (rule resolve_user_dashboard)
next
  case (UserTransfer a)
  then have "segment a" by simp
  then show ?case unfolding route_path.simps by (rule resolve_user_transfer)
qed (simp_all add: resolve_def)

subsection \<open>Example\<close>

lemma route_roundtrip_example:
  "resolve (route_path (UserTransfer ''acc-demo-1'')) = Some (UserTransfer ''acc-demo-1'')"
  by (rule route_roundtrip) (simp add: segment_def)

end
