(* ===== verification/Hook.thy ===== *)
theory Hook
  imports Async Forms Navigation
begin

text \<open>
  The interface the hook gives every page (\<^verbatim>\<open>use-shadow-storage.ts\<close>, lines 366-379):
  \<open>data\<close>, \<open>isLoaded\<close> and its seven operations, as one datatype of operations with one
  step function that the pages and the engine agree on; each page's guard that renders
  \<open>Loading...\<close> until the instance is loaded; and the lifecycle order on statuses as an
  instance of \<open>linorder\<close>.
\<close>

subsection \<open>The hook's operations\<close>

datatype hook_op = HookCall hook_call | HookTransfer transfer_op

text \<open>An operation called from the current render: a transaction call runs to completion
  on the current data, a transfer operation is synchronous on the instance.\<close>

definition hook_apply :: "hook_op \<Rightarrow> server \<times> client \<Rightarrow> server \<times> client" where
  "hook_apply op sc =
     (case op of
        HookCall k \<Rightarrow> run_call (data (snd sc)) k sc
      | HookTransfer t \<Rightarrow> (fst sc, transfer_step (snd sc) t))"

definition hook_run :: "server \<times> client \<Rightarrow> hook_op list \<Rightarrow> server \<times> client" where
  "hook_run sc ops = foldl (\<lambda>sc op. hook_apply op sc) sc ops"

subsection \<open>Pages behind their loading guard\<close>

datatype 'a screen = LoadingScreen | Screen 'a

definition admin_dashboard_page :: "client \<Rightarrow> (string \<times> string) list screen" where
  "admin_dashboard_page c =
     (if \<not> isLoaded c then LoadingScreen else Screen (admin_dashboard_view (data c)))"

definition admin_transactions_page :: "client \<Rightarrow> admin_node list screen" where
  "admin_transactions_page c =
     (if \<not> isLoaded c then LoadingScreen else Screen (admin_transactions_view (data c)))"

definition create_page :: "client \<Rightarrow> create_form \<Rightarrow> create_page_view screen" where
  "create_page c f = (if \<not> isLoaded c then LoadingScreen else Screen (create_page_view f))"

definition user_dashboard_page :: "client \<Rightarrow> account_id \<Rightarrow> dash_ui \<Rightarrow> dash_node list screen" where
  "user_dashboard_page c accountId u =
     (if \<not> isLoaded c then LoadingScreen else Screen (user_dashboard_view (data c) accountId (activeTab u)))"

definition transfer_page :: "client \<Rightarrow> account_id \<Rightarrow> transfer_form \<Rightarrow> transfer_form_view screen" where
  "transfer_page c accountId f =
     (if \<not> isLoaded c then LoadingScreen
      else Screen (transfer_page_view (data c) accountId (tform_recipient f) (tform_amount f) (tform_isLoading f)))"

subsection \<open>The lifecycle order\<close>

text \<open>Statuses ordered along the lifecycle, pending before posted before reversed: the
  fewer transitions remain, the greater the status.\<close>

instantiation status :: linorder
begin

definition less_eq_status :: "status \<Rightarrow> status \<Rightarrow> bool" where
  "less_eq_status a b \<longleftrightarrow> status_rank b \<le> status_rank a"

definition less_status :: "status \<Rightarrow> status \<Rightarrow> bool" where
  "less_status a b \<longleftrightarrow> status_rank b < status_rank a"

instance
proof
  fix x y z :: status
  show "x < y \<longleftrightarrow> x \<le> y \<and> \<not> y \<le> x" by (auto simp: less_eq_status_def less_status_def)
  show "x \<le> x" by (simp add: less_eq_status_def)
  show "x \<le> y \<Longrightarrow> y \<le> z \<Longrightarrow> x \<le> z" by (simp add: less_eq_status_def)
  show "x \<le> y \<Longrightarrow> y \<le> x \<Longrightarrow> x = y"
    by (cases x; cases y) (simp_all add: less_eq_status_def)
  show "x \<le> y \<or> y \<le> x" by (auto simp: less_eq_status_def)
qed

end

subsection \<open>Lemmas\<close>

lemma status_order: "Pending < Posted" "Posted < Reversed"
  by (simp_all add: less_status_def)

text \<open>Every transition of the lifecycle goes up the order, and so does every button a
  transfer card offers the admin.\<close>

lemma status_step_less: "status_step a b \<Longrightarrow> a < b"
  by (simp add: less_status_def status_step_rank)

lemma card_action_less: "act \<in> set (card_actions True st) \<Longrightarrow> st < action_target act"
  by (rule status_step_less [OF card_action_step])

text \<open>\<open>isLoaded\<close> never goes back to false: loads set it, saves and transfer operations
  keep it.\<close>

lemma isLoaded_transfer_step: "isLoaded (transfer_step c op) = isLoaded c"
  by (cases op)
     (auto simp: createPendingTransfer_def postTransfer_def reverseTransfer_def createTransfer_def Let_def
        split: option.splits)

lemma isLoaded_run_call: "isLoaded (snd sc) \<Longrightarrow> isLoaded (snd (run_call d k sc))"
proof (cases sc)
  case (Pair s c)
  assume "isLoaded (snd sc)"
  then show ?thesis using Pair
    by (cases k)
       (auto simp: createTransaction_with_def postTransaction_with_def reverseTransaction_with_def Let_def
          split: prod.splits sum.splits option.splits)
qed

lemma hook_inv_apply:
  assumes "srv_wf (fst sc)" and "client_typed (snd sc)"
  shows "srv_wf (fst (hook_apply op sc)) \<and> client_typed (snd (hook_apply op sc))"
proof (cases op)
  case (HookCall k)
  have "list_all transfer_typed (transfers (data (snd sc)))" using assms(2) by (rule client_typed_data)
  then show ?thesis using HookCall assms
    by (simp add: hook_apply_def srv_wf_run_call client_typed_run_call)
next
  case (HookTransfer t)
  then show ?thesis using assms by (simp add: hook_apply_def client_typed_transfer_step)
qed

lemma isLoaded_hook_apply: "isLoaded (snd sc) \<Longrightarrow> isLoaded (snd (hook_apply op sc))"
  by (cases op) (simp_all add: hook_apply_def isLoaded_run_call isLoaded_transfer_step)

lemma hook_run_inv:
  "srv_wf (fst sc) \<and> client_typed (snd sc) \<and> isLoaded (snd sc) \<Longrightarrow>
   srv_wf (fst (hook_run sc ops)) \<and> client_typed (snd (hook_run sc ops)) \<and> isLoaded (snd (hook_run sc ops))"
proof (induction ops arbitrary: sc)
  case Nil
  then show ?case by (simp add: hook_run_def)
next
  case (Cons op ops)
  then have "srv_wf (fst (hook_apply op sc)) \<and> client_typed (snd (hook_apply op sc)) \<and>
             isLoaded (snd (hook_apply op sc))"
    using hook_inv_apply isLoaded_hook_apply by blast
  then show ?case using Cons.IH by (simp add: hook_run_def)
qed

text \<open>A fresh instance shows \<open>Loading...\<close> on every page until its mount effect has run;
  from then on, whatever the hook's operations, every page renders its content, the service
  stays well-formed and the stored transfers keep their type.\<close>

lemma pages_before_mount:
  "admin_dashboard_page \<lparr>data = INITIAL_DATA, isLoaded = False, store = ls\<rparr> = LoadingScreen"
  "user_dashboard_page \<lparr>data = INITIAL_DATA, isLoaded = False, store = ls\<rparr> a u = LoadingScreen"
  by (simp_all add: admin_dashboard_page_def user_dashboard_page_def)

lemma pages_after_mount:
  assumes "srv_wf s" and "store_typed ls" and r: "hook_run (s, mount s ls) ops = (s', c')"
  shows "srv_wf s' \<and> client_typed c' \<and>
         admin_dashboard_page c' = Screen (admin_dashboard_view (data c')) \<and>
         admin_transactions_page c' = Screen (admin_transactions_view (data c')) \<and>
         create_page c' f = Screen (create_page_view f) \<and>
         user_dashboard_page c' a u = Screen (user_dashboard_view (data c') a (activeTab u)) \<and>
         transfer_page c' a g = Screen (transfer_page_view (data c') a (tform_recipient g) (tform_amount g)
                                         (tform_isLoading g))"
proof -
  have "srv_wf s \<and> client_typed (mount s ls) \<and> isLoaded (mount s ls)"
    using assms(1,2) client_typed_mount [of ls s] by (simp add: mount_def)
  then have "srv_wf s' \<and> client_typed c' \<and> isLoaded c'"
    using hook_run_inv [of "(s, mount s ls)" ops] r by simp
  then show ?thesis
    by (simp add: admin_dashboard_page_def admin_transactions_page_def create_page_def
        user_dashboard_page_def transfer_page_def)
qed

end
