(* ===== verification/Animation.thy ===== *)
theory Animation
  imports Prelude Complex_Main
begin

text \<open>
  The count-up animation of \<^verbatim>\<open>src/components/balance-card.tsx\<close> and
  \<^verbatim>\<open>src/components/dual-balance-card.tsx\<close>. On a new balance an interval of 16 ms adds
  \<open>end / (1000 / 16)\<close> to a counter that starts at 0, shows its floor while it is below the
  target, and shows the target and clears itself once it reaches it. The run of interval
  callbacks is a loop whose termination is not structural, so it is a
  \<open>partial_function (option)\<close> whose value is the list of values handed to
  \<open>setDisplay\<close>; JavaScript's floating-point numbers are modelled as exact rationals.
\<close>

definition anim_increment :: "amount \<Rightarrow> rat" where
  "anim_increment e = of_int e / (1000 / 16)"

text \<open>One callback of \<open>setInterval\<close>: the new counter, the value shown, and whether the
  interval keeps running.\<close>

definition anim_tick :: "amount \<Rightarrow> rat \<Rightarrow> rat \<times> int \<times> bool" where
  "anim_tick e start =
     (let start' = start + anim_increment e
      in if of_int e \<le> start' then (start', e, False) else (start', \<lfloor>start'\<rfloor>, True))"

partial_function (option) anim_run :: "amount \<Rightarrow> rat \<Rightarrow> int list option" where
  "anim_run e start =
     (case anim_tick e start of
        (start', shown, running) \<Rightarrow>
          if running then Option.bind (anim_run e start') (\<lambda>ds. Some (shown # ds))
          else Some [shown])"

text \<open>\<open>BalanceCard\<close>: the effect on \<open>balance\<close>, from a counter at 0.\<close>

definition balance_card :: "amount \<Rightarrow> int list option" where
  "balance_card balance = anim_run balance 0"

text \<open>\<open>DualBalanceCard\<close>: one such animation per field, and the pending amount shown
  under them.\<close>

definition dual_balance_card :: "amount \<Rightarrow> amount \<Rightarrow> (int list \<times> int list \<times> amount) option" where
  "dual_balance_card totalBalance availableBalance =
     Option.bind (anim_run totalBalance 0) (\<lambda>ts.
       Option.bind (anim_run availableBalance 0) (\<lambda>as.
         Some (ts, as, totalBalance - availableBalance)))"

subsection \<open>Lemmas\<close>

lemma anim_increment_eq: "anim_increment e = of_int e * 2 / 125"
  by (simp add: anim_increment_def)

lemma anim_reaches:
  assumes "0 < e"
  shows "of_int e \<le> of_nat m * anim_increment e \<longleftrightarrow> 63 \<le> m"
proof -
  have "of_int e \<le> of_nat m * anim_increment e \<longleftrightarrow> of_int e * 125 \<le> of_nat m * of_int e * (2::rat)"
    by (simp add: anim_increment_eq field_simps)
  also have "\<dots> \<longleftrightarrow> (125::rat) \<le> of_nat m * 2"
    using assms by (simp add: mult.commute mult.left_commute)
  also have "\<dots> \<longleftrightarrow> 63 \<le> m" by linarith
  finally show ?thesis .
qed

lemma anim_run_from:
  assumes "0 < e" and "k \<le> 62"
  shows "anim_run e (of_nat k * anim_increment e) =
           Some (map (\<lambda>j. \<lfloor>of_nat j * anim_increment e\<rfloor>) [Suc k..<63] @ [e])"
  using assms(2)
proof (induction "62 - k" arbitrary: k)
  case 0
  then have k: "k = 62" by simp
  have "of_nat 62 * anim_increment e + anim_increment e = of_nat 63 * anim_increment e"
    by (simp add: algebra_simps)
  with anim_reaches [OF assms(1), of 63] show ?case
    by (subst anim_run.simps) (simp add: k anim_tick_def)
next
  case (Suc n)
  then have k: "k < 62" by simp
  have st: "of_nat k * anim_increment e + anim_increment e = of_nat (Suc k) * anim_increment e"
    by (simp add: algebra_simps)
  have "\<not> of_int e \<le> of_nat (Suc k) * anim_increment e"
    using anim_reaches [OF assms(1), of "Suc k"] k by simp
  moreover have "anim_run e (of_nat (Suc k) * anim_increment e) =
           Some (map (\<lambda>j. \<lfloor>of_nat j * anim_increment e\<rfloor>) [Suc (Suc k)..<63] @ [e])"
    using Suc.hyps(1) [of "Suc k"] Suc.hyps(2) k by simp
  ultimately show ?case
    using k by (subst anim_run.simps) (simp add: anim_tick_def Let_def st upt_conv_Cons)
qed

lemma anim_run_nonpos: "e \<le> 0 \<Longrightarrow> anim_run e 0 = Some [e]"
  by (subst anim_run.simps) (simp add: anim_tick_def anim_increment_eq)

lemma anim_run_pos:
  "0 < e \<Longrightarrow> anim_run e 0 = Some (map (\<lambda>j. \<lfloor>of_nat j * anim_increment e\<rfloor>) [1..<63] @ [e])"
  using anim_run_from [of e 0] by simp


lemma anim_frame_bounds:
  assumes "0 < e" and "j < 63"
  shows "0 \<le> \<lfloor>of_nat j * anim_increment e\<rfloor> \<and> \<lfloor>of_nat j * anim_increment e\<rfloor> \<le> e"
proof -
  have inc: "0 \<le> anim_increment e" using assms(1) by (simp add: anim_increment_eq)
  have "\<not> of_int e \<le> of_nat j * anim_increment e" using anim_reaches [OF assms(1), of j] assms(2) by simp
  then have "of_nat j * anim_increment e \<le> of_int e" by simp
  then have "\<lfloor>of_nat j * anim_increment e\<rfloor> \<le> e" by (simp add: floor_le_iff)
  moreover have "0 \<le> \<lfloor>of_nat j * anim_increment e\<rfloor>" using inc by simp
  ultimately show ?thesis by simp
qed

lemma anim_frames_sorted:
  assumes "0 < e"
  shows "sorted (map (\<lambda>j. \<lfloor>of_nat j * anim_increment e\<rfloor>) [a..<b])"
proof -
  have inc: "0 \<le> anim_increment e" using assms by (simp add: anim_increment_eq)
  have mono: "i \<le> j \<Longrightarrow> \<lfloor>of_nat i * anim_increment e\<rfloor> \<le> \<lfloor>of_nat j * anim_increment e\<rfloor>"
    for i j :: nat
    using inc by (intro floor_mono mult_right_mono) simp_all
  show ?thesis
  proof (induction b)
    case 0
    then show ?case by simp
  next
    case (Suc b)
    then show ?case by (auto simp: sorted_append intro!: mono)
  qed
qed

subsection \<open>Properties\<close>

text \<open>C30: the animation always ends: a positive balance is reached after 63 callbacks
  (about one second), any other balance at the first callback, and the last value shown is
  the balance itself.\<close>

theorem balance_card_terminates:
  "\<exists>ds. balance_card e = Some ds \<and> last ds = e \<and> length ds = (if 0 < e then 63 else 1)"
  by (cases "0 < e") (simp_all add: balance_card_def anim_run_pos anim_run_nonpos)

text \<open>C31: for a balance that is not negative the values shown only grow, and stay between
  0 and the balance.\<close>

theorem balance_card_monotone:
  assumes "0 \<le> e" and "balance_card e = Some ds"
  shows "sorted ds \<and> (\<forall>d \<in> set ds. 0 \<le> d \<and> d \<le> e)"
proof (cases "0 < e")
  case True
  then have ds: "ds = map (\<lambda>j. \<lfloor>of_nat j * anim_increment e\<rfloor>) [1..<63] @ [e]"
    using assms(2) by (simp add: balance_card_def anim_run_pos)
  show ?thesis
    unfolding ds using anim_frames_sorted [OF True] anim_frame_bounds [OF True] assms(1)
    by (auto simp: sorted_append)
next
  case False
  with assms show ?thesis by (auto simp: balance_card_def anim_run_nonpos)
qed

theorem balance_card_monotone_witness:
  "\<exists>ds. balance_card 1000 = Some ds \<and> sorted ds \<and> hd ds = 16 \<and> last ds = 1000"
proof -
  obtain ds where ds: "balance_card 1000 = Some ds"
    by (simp add: balance_card_def anim_run_pos)
  have "(0::int) \<le> 1000" by simp
  from balance_card_monotone [OF this ds] ds show ?thesis
    by (auto simp: balance_card_def anim_run_pos anim_increment_eq hd_append hd_map)
qed

end
