(* ===== verification/Cards.thy ===== *)
theory Cards
  imports Animation Format
begin

text \<open>
  What the balance cards display (\<^verbatim>\<open>src/components/balance-card.tsx\<close>,
  \<^verbatim>\<open>src/components/dual-balance-card.tsx\<close>), frame by frame, from the values the
  count-up animation of \<open>Animation\<close> hands to \<open>setDisplay...\<close>. Strings are byte lists:
  the naira sign is its three UTF-8 bytes.
\<close>

text \<open>Line 53 of \<^verbatim>\<open>balance-card.tsx\<close> holds the seven bytes below where the other
  files hold the naira sign: its UTF-8 encoding read as Windows-1252 and saved again as
  UTF-8, which renders as \<open>a-circumflex, single low quote, broken bar\<close>.\<close>

definition mojibake_naira :: string where
  "mojibake_naira = [CHR 0xC3, CHR 0xA2, CHR 0xE2, CHR 0x80, CHR 0x9A, CHR 0xC2, CHR 0xA6]"

record balance_card_view =
  bc_amount :: string
  bc_account :: string

definition balance_card_view :: "account_id \<Rightarrow> int \<Rightarrow> balance_card_view" where
  "balance_card_view accountId displayBalance =
     \<lparr>bc_amount = mojibake_naira @ to_locale_string displayBalance, bc_account = accountId\<rparr>"

record dual_card_view =
  dc_total :: string
  dc_available :: string
  dc_pending :: "string option"
  dc_account :: string

text \<open>The dual card: both animated values, the pending line when \<open>pendingAmount > 0\<close>,
  and the account id.\<close>

definition dual_card_view :: "amount \<Rightarrow> amount \<Rightarrow> account_id \<Rightarrow> int \<Rightarrow> int \<Rightarrow> dual_card_view" where
  "dual_card_view totalBalance availableBalance accountId displayTotal displayAvailable =
     (let pendingAmount = totalBalance - availableBalance
      in \<lparr>dc_total = naira_amount displayTotal,
          dc_available = naira_amount displayAvailable,
          dc_pending = (if 0 < pendingAmount
                        then Some (naira_amount pendingAmount @ '' pending confirmation'') else None),
          dc_account = accountId\<rparr>)"

subsection \<open>Lemmas\<close>

lemma anim_run_last: "\<exists>ds. anim_run e 0 = Some ds \<and> ds \<noteq> [] \<and> last ds = e"
  by (cases "0 < e") (simp_all add: anim_run_pos anim_run_nonpos)

text \<open>When both animations have run out the card shows the two balances themselves.\<close>

lemma dual_card_settles:
  "\<exists>ts as. dual_balance_card T A = Some (ts, as, T - A) \<and> ts \<noteq> [] \<and> as \<noteq> [] \<and>
     dual_card_view T A acc (last ts) (last as) =
       \<lparr>dc_total = naira_amount T, dc_available = naira_amount A,
        dc_pending = (if A < T then Some (naira_amount (T - A) @ '' pending confirmation'') else None),
        dc_account = acc\<rparr>"
proof -
  obtain ts where ts: "anim_run T 0 = Some ts" "ts \<noteq> []" "last ts = T" using anim_run_last by blast
  obtain as where as: "anim_run A 0 = Some as" "as \<noteq> []" "last as = A" using anim_run_last by blast
  show ?thesis using ts as by (simp add: dual_balance_card_def dual_card_view_def)
qed

text \<open>The single balance card never shows the naira sign.\<close>

lemma balance_card_view_no_naira: "take 3 (bc_amount (balance_card_view a x)) \<noteq> naira"
  by (simp add: balance_card_view_def mojibake_naira_def naira_def)

end
