(* ===== verification/ApiTests.thy ===== *)
theory ApiTests
  imports Backend
begin

text \<open>
  The smoke-test script \<^verbatim>\<open>src/lib/api-tests.ts\<close>: seven console tests of the API client,
  run against the service. Each test catches the error of its call, so it returns either
  the result or nothing (\<open>undefined\<close>, here \<open>None\<close>). What a test prints is modelled as a
  list of log events carrying the values printed, not as console text; the two-second
  pauses of the workflow are not modelled (no other client runs meanwhile).
\<close>

datatype test_log =
    Created transaction
  | CreateFailed api_error
  | Listed "transaction list"
  | ListFailed api_error
  | PostedLog transaction
  | PostFailed api_error
  | ReversedLog transaction
  | ReverseFailed api_error
  | LedgerShown account_id "ledger_entry list" balance
  | LedgerFailed api_error
  | BalancesShown "account_id \<rightharpoonup> balance"
  | BalancesFailed api_error
  | Found bool

definition testCreateCredit ::
  "millis \<Rightarrow> server \<Rightarrow> transaction option \<times> test_log list \<times> server" where
  "testCreateCredit now s =
     (case createCredit now ''acc-demo-1'' 5000 s of
        (Inr transaction, s') \<Rightarrow> (Some transaction, [Created transaction], s')
      | (Inl e, s') \<Rightarrow> (None, [CreateFailed e], s'))"

definition testGetAllTransactions :: "server \<Rightarrow> transaction list option \<times> test_log list" where
  "testGetAllTransactions s =
     (case getAllTransactions s of
        Inr transactions \<Rightarrow> (Some transactions, [Listed transactions])
      | Inl e \<Rightarrow> (None, [ListFailed e]))"

definition testPostTransaction ::
  "entry_id \<Rightarrow> server \<Rightarrow> transaction option \<times> test_log list \<times> server" where
  "testPostTransaction txId s =
     (case api_postTransaction txId s of
        (Inr transaction, s') \<Rightarrow> (Some transaction, [PostedLog transaction], s')
      | (Inl e, s') \<Rightarrow> (None, [PostFailed e], s'))"

definition testReverseTransaction ::
  "entry_id \<Rightarrow> server \<Rightarrow> transaction option \<times> test_log list \<times> server" where
  "testReverseTransaction txId s =
     (case api_reverseTransaction txId s of
        (Inr transaction, s') \<Rightarrow> (Some transaction, [ReversedLog transaction], s')
      | (Inl e, s') \<Rightarrow> (None, [ReverseFailed e], s'))"

definition testGetAccountLedger ::
  "account_id \<Rightarrow> server \<Rightarrow> (ledger_entry list \<times> balance) option \<times> test_log list" where
  "testGetAccountLedger accountId s =
     (case getAccountLedger accountId s of
        Inr ledger \<Rightarrow>
          (let balance = calculateBalanceFromLedger ledger
           in (Some (ledger, balance), [LedgerShown accountId ledger balance]))
      | Inl e \<Rightarrow> (None, [LedgerFailed e]))"

definition testGetAllBalances :: "server \<Rightarrow> (account_id \<rightharpoonup> balance) option \<times> test_log list" where
  "testGetAllBalances s =
     (case getAllBalances s of
        Inr balances \<Rightarrow> (Some balances, [BalancesShown balances])
      | Inl e \<Rightarrow> (None, [BalancesFailed e]))"

text \<open>\<open>testCompleteWorkflow\<close>: create a credit (stop if that failed), look for it in the
  list (\<open>allTransactions?.some(...)\<close>, false when the list could not be fetched), post it,
  and show the ledger and balance of its account.\<close>

definition testCompleteWorkflow :: "millis \<Rightarrow> server \<Rightarrow> test_log list \<times> server" where
  "testCompleteWorkflow now s =
     (case testCreateCredit now s of
        (None, log1, s1) \<Rightarrow> (log1, s1)
      | (Some newTransaction, log1, s1) \<Rightarrow>
          (let (allTransactions, log2) = testGetAllTransactions s1;
               exists = (case allTransactions of
                           None \<Rightarrow> False
                         | Some txs \<Rightarrow> list_ex (\<lambda>t. tx_id t = tx_id newTransaction) txs);
               (_, log4, s4) = testPostTransaction (tx_id newTransaction) s1;
               (_, log5) = testGetAccountLedger (tx_accountId newTransaction) s4
           in (log1 @ log2 @ [Found exists] @ log4 @ log5, s4)))"


text \<open>The exported \<open>apiTests\<close> object: each entry runs one test, with its argument, and
  gives what it logs and the service afterwards.\<close>

datatype api_test =
    TCreateCredit
  | TGetAllTransactions
  | TPostTransaction entry_id
  | TReverseTransaction entry_id
  | TGetAccountLedger account_id
  | TGetAllBalances
  | TCompleteWorkflow

fun run_api_test :: "millis \<Rightarrow> api_test \<Rightarrow> server \<Rightarrow> test_log list \<times> server" where
  "run_api_test now TCreateCredit s = (let (_, l, s') = testCreateCredit now s in (l, s'))"
| "run_api_test now TGetAllTransactions s = (snd (testGetAllTransactions s), s)"
| "run_api_test now (TPostTransaction i) s = (let (_, l, s') = testPostTransaction i s in (l, s'))"
| "run_api_test now (TReverseTransaction i) s = (let (_, l, s') = testReverseTransaction i s in (l, s'))"
| "run_api_test now (TGetAccountLedger a) s = (snd (testGetAccountLedger a s), s)"
| "run_api_test now TGetAllBalances s = (snd (testGetAllBalances s), s)"
| "run_api_test now TCompleteWorkflow s = testCompleteWorkflow now s"

text \<open>\<open>USAGE_INSTRUCTIONS\<close>, a template literal of fifteen lines between two line breaks
  (the quote characters written as \<open>CHR 0x27\<close>), printed when the module loads.\<close>

definition usage_instructions :: string where
  "usage_instructions =
     [CHR 0x0A] @ concat (map (\<lambda>l. l @ [CHR 0x0A])
       [''To test the API integration:'', '''',
        ''1. Open browser console'',
        ''2. Import the test functions:'',
        ''   import { apiTests } from '' @ [CHR 0x27] @ ''./lib/api-tests'' @ [CHR 0x27], '''',
        ''3. Run individual tests:'',
        ''   await apiTests.testGetAllTransactions()'',
        ''   await apiTests.testCreateCredit()'',
        ''   '',
        ''4. Run complete workflow:'',
        ''   await apiTests.testCompleteWorkflow()'', '''',
        ''Note: Make sure the API server is running at:'',
        ''https://shadow-system-backend-8.onrender.com''])"

definition api_tests_load_log :: "string list" where
  "api_tests_load_log = [usage_instructions]"


subsection \<open>Lemmas\<close>

lemma srv_wf_fresh: "srv_wf s \<Longrightarrow> srv_tx_id (srv_next s) \<notin> tx_id ` set (srv_transactions s)"
  by (auto simp: srv_wf_def srv_tx_id_inj)

text \<open>On a well-formed reachable service, posting the credit just created finds it at the
  end of the list and changes nothing else.\<close>

lemma post_new_credit:
  assumes "srv_wf s" and "srv_up s"
    and t: "t = \<lparr>tx_id = srv_tx_id (srv_next s), tx_accountId = a, tx_amount = x,
                tx_status = Pending, tx_timestamp = now\<rparr>"
  shows "api_postTransaction (tx_id t)
           (s\<lparr>srv_transactions := srv_transactions s @ [t], srv_next := Suc (srv_next s)\<rparr>) =
         (Inr (t\<lparr>tx_status := Posted\<rparr>),
          s\<lparr>srv_transactions := srv_transactions s @ [t\<lparr>tx_status := Posted\<rparr>],
            srv_next := Suc (srv_next s)\<rparr>)"
proof -
  have fresh: "tx_id t \<notin> tx_id ` set (srv_transactions s)" using srv_wf_fresh [OF assms(1)] t by simp
  then have "find (\<lambda>u. tx_id u = tx_id t) (srv_transactions s @ [t]) = Some t"
    by (simp add: find_append_fresh find_None_iff_keys)
  moreover have "map (\<lambda>u. if tx_id u = tx_id t then u\<lparr>tx_status := Posted\<rparr> else u) (srv_transactions s @ [t]) =
                 srv_transactions s @ [t\<lparr>tx_status := Posted\<rparr>]"
    using fresh by (simp add: map_keyed_absent)
  ultimately show ?thesis using assms(2) t by (simp add: api_postTransaction_def srv_transition_def)
qed

subsection \<open>Properties of the workflow\<close>

text \<open>C35: on a reachable, well-formed service the complete workflow runs every step: it
  creates a pending credit of 5000 for \<open>acc-demo-1\<close>, finds it in the list, posts it, and
  shows the account's ledger with that entry posted at its end and a balance grown by 5000
  in both fields; the service stays well-formed.\<close>

theorem testCompleteWorkflow_up:
  assumes wf: "srv_wf s" and up: "srv_up s"
  shows "\<exists>t s'. testCompleteWorkflow now s =
           ([Created t, Listed (srv_transactions s @ [t]), Found True,
             PostedLog (t\<lparr>tx_status := Posted\<rparr>),
             LedgerShown ''acc-demo-1''
               (srv_ledger s ''acc-demo-1'' @ [entry_of_transaction (t\<lparr>tx_status := Posted\<rparr>)])
               \<lparr>total = total (calculateBalanceFromLedger (srv_ledger s ''acc-demo-1'')) + 5000,
                available = available (calculateBalanceFromLedger (srv_ledger s ''acc-demo-1'')) + 5000\<rparr>],
            s') \<and>
           srv_wf s' \<and> tx_accountId t = ''acc-demo-1'' \<and> tx_amount t = 5000 \<and> tx_status t = Pending"
proof -
  define t where "t = \<lparr>tx_id = srv_tx_id (srv_next s), tx_accountId = ''acc-demo-1'', tx_amount = 5000::int,
                       tx_status = Pending, tx_timestamp = now\<rparr>"
  define s1 where "s1 = s\<lparr>srv_transactions := srv_transactions s @ [t], srv_next := Suc (srv_next s)\<rparr>"
  define s2 where "s2 = s\<lparr>srv_transactions := srv_transactions s @ [t\<lparr>tx_status := Posted\<rparr>],
                          srv_next := Suc (srv_next s)\<rparr>"
  have cc: "createCredit now ''acc-demo-1'' 5000 s = (Inr t, s1)"
    using up by (simp add: createCredit_ok t_def s1_def)
  have up1: "srv_up s1" and up2: "srv_up s2" using up by (simp_all add: s1_def s2_def)
  have post: "api_postTransaction (tx_id t) s1 = (Inr (t\<lparr>tx_status := Posted\<rparr>), s2)"
    unfolding s1_def s2_def by (rule post_new_credit [OF wf up t_def])
  have led: "srv_ledger s2 ''acc-demo-1'' =
               srv_ledger s ''acc-demo-1'' @ [entry_of_transaction (t\<lparr>tx_status := Posted\<rparr>)]"
    by (simp add: srv_ledger_def s2_def t_def)
  have bal: "calculateBalanceFromLedger (srv_ledger s2 ''acc-demo-1'') =
               \<lparr>total = total (calculateBalanceFromLedger (srv_ledger s ''acc-demo-1'')) + 5000,
                available = available (calculateBalanceFromLedger (srv_ledger s ''acc-demo-1'')) + 5000\<rparr>"
    by (simp add: led calculateBalanceFromLedger_snoc ledger_step_entry bal_add_def t_def)
  have "srv_wf s1"
    using srv_wf_credit [OF wf, of now "''acc-demo-1''" 5000] cc by (simp add: createCredit_def)
  then have wf2: "srv_wf s2"
    using srv_wf_transition [of s1 Posted "tx_id t"] post by (simp add: api_postTransaction_def)
  have "testCompleteWorkflow now s =
          ([Created t, Listed (srv_transactions s @ [t]), Found True, PostedLog (t\<lparr>tx_status := Posted\<rparr>),
            LedgerShown ''acc-demo-1'' (srv_ledger s2 ''acc-demo-1'')
              (calculateBalanceFromLedger (srv_ledger s2 ''acc-demo-1''))], s2)"
    using up1 up2
    by (simp add: testCompleteWorkflow_def testCreateCredit_def cc testGetAllTransactions_def
        getAllTransactions_def testPostTransaction_def post testGetAccountLedger_def getAccountLedger_def
        Let_def)
       (simp add: s1_def t_def)
  then show ?thesis using wf2 bal [unfolded led t_def] by (simp add: led t_def)
qed

text \<open>When the service cannot be reached, the workflow stops after its first step, having
  logged the failed creation, and the service is unchanged.\<close>

lemma testCompleteWorkflow_down:
  "\<not> srv_up s \<Longrightarrow> testCompleteWorkflow now s = ([CreateFailed Transport], s)"
  by (simp add: testCompleteWorkflow_def testCreateCredit_def createCredit_down)

subsection \<open>Witnesses\<close>

theorem testCompleteWorkflow_up_witness:
  "\<exists>t s'. testCompleteWorkflow 7 \<lparr>srv_transactions = [], srv_next = 0, srv_up = True\<rparr> =
     ([Created t, Listed [t], Found True, PostedLog (t\<lparr>tx_status := Posted\<rparr>),
       LedgerShown ''acc-demo-1'' [entry_of_transaction (t\<lparr>tx_status := Posted\<rparr>)]
         \<lparr>total = 5000, available = 5000\<rparr>], s') \<and> tx_amount t = 5000"
proof -
  have "srv_wf \<lparr>srv_transactions = [], srv_next = 0, srv_up = True\<rparr>" by (simp add: srv_wf_def)
  from testCompleteWorkflow_up [OF this, of 7] show ?thesis by (simp add: srv_ledger_def) blast
qed

end
