(* ===== verification/Layout.thy ===== *)
theory Layout
  imports Prelude
begin

text \<open>
  The static frame of every page: the root layout (\<^verbatim>\<open>src/app/layout.tsx\<close>) with the
  page metadata, the footer (\<^verbatim>\<open>src/components/footer.tsx\<close>) and the empty state
  (\<^verbatim>\<open>src/components/empty-state.tsx\<close>). Strings are byte lists (UTF-8). Fonts, CSS
  and the analytics script are not modelled.
\<close>

record page_metadata =
  md_title :: string
  md_description :: string
  md_generator :: string

definition metadata :: page_metadata where
  "metadata = \<lparr>md_title = ''SHADOW - Secure Transaction Environment'',
               md_description = ''SHADOW Banking Simulator'', md_generator = ''v0.app''\<rparr>"

text \<open>\<open>RootLayout\<close>: an English document whose body carries the Manrope font class and
  holds the page followed by the analytics component.\<close>

datatype 'a document = Document string string "'a list"

datatype 'a layout_child = PageChild 'a | AnalyticsChild

definition root_layout :: "string \<Rightarrow> 'a \<Rightarrow> 'a layout_child document" where
  "root_layout fontClass children =
     Document ''en'' (fontClass @ '' font-sans antialiased'') [PageChild children, AnalyticsChild]"

text \<open>The footer's line: \<open>SHADOW (c) 2025 -- Simulated Banking Core\<close> with the copyright
  sign (C2 A9) and an em dash (E2 80 94).\<close>

definition footer_text :: string where
  "footer_text = ''SHADOW '' @ [CHR 0xC2, CHR 0xA9] @ '' 2025 '' @ [CHR 0xE2, CHR 0x80, CHR 0x94] @
                 '' Simulated Banking Core''"

record empty_state =
  es_title :: string
  es_description :: string

definition empty_state_view :: "string \<Rightarrow> string \<Rightarrow> empty_state" where
  "empty_state_view title description = \<lparr>es_title = title, es_description = description\<rparr>"

end
